theory Spec2Isabelle
  imports Complex_Main "HOL-Library.Multiset"
begin

section \<open>The storybook generator: data and environment\<close>

text \<open>
  The repository holds three variants of one script (\<^verbatim>\<open>main.py\<close>, \<^verbatim>\<open>main2.py\<close>,
  \<^verbatim>\<open>main3.py\<close>): read the text of a PDF, ask a language model for a list of animal
  interactions, optionally have a photo described, request one illustration per
  interaction, and draw everything onto a page canvas.

  What the scripts compute themselves is embedded below as HOL functions. What they
  delegate (HTTP endpoints, the image library, the JSON parser, \<^verbatim>\<open>random.shuffle\<close>,
  Python's \<^verbatim>\<open>str\<close> on values that are not strings) is an input of the model: a field of
  the record \<open>env\<close>, or an argument. Every theorem holds for all such inputs unless it
  says otherwise.
\<close>

subsection \<open>Parsed JSON and the Python operations applied to it\<close>

datatype json =
    JNull
  | JBool bool
  | JInt int
  | JFloat real
  | JStr string
  | JArr "json list"
  | JObj "(string \<times> json) list"

text \<open>
  \<open>JObj\<close> is a Python \<^verbatim>\<open>dict\<close> with its items in insertion order; \<open>map_of\<close> is the
  lookup. \<^verbatim>\<open>json.loads\<close> gives an \<^verbatim>\<open>int\<close> or a \<^verbatim>\<open>float\<close> for a number (\<open>JInt\<close>, \<open>JFloat\<close>). The exceptions a run can end with: Python's own, and \<open>Raised\<close> for one that
  comes out of a library call, with its message.
\<close>

datatype error =
    KeyError string
  | TypeError
  | AttributeError
  | ValueError string
  | IndexError
  | ZeroDivisionError
  | Raised string

text \<open>\<^verbatim>\<open>len(v)\<close>: defined for strings, lists and dicts.\<close>

fun py_len :: "json \<Rightarrow> error + nat" where
  "py_len (JStr s) = Inr (length s)"
| "py_len (JArr xs) = Inr (length xs)"
| "py_len (JObj kvs) = Inr (length kvs)"
| "py_len _ = Inl TypeError"

text \<open>\<^verbatim>\<open>for x in v\<close>: a list gives its elements, a string its characters, a dict its keys.\<close>

fun py_iter :: "json \<Rightarrow> error + json list" where
  "py_iter (JArr xs) = Inr xs"
| "py_iter (JStr s) = Inr (map (\<lambda>c. JStr [c]) s)"
| "py_iter (JObj kvs) = Inr (map (\<lambda>kv. JStr (fst kv)) kvs)"
| "py_iter _ = Inl TypeError"

text \<open>\<^verbatim>\<open>v[k]\<close> with a string key \<open>k\<close>: only a dict accepts it, and raises \<^verbatim>\<open>KeyError\<close>
  when the key is missing.\<close>

fun py_getitem :: "json \<Rightarrow> string \<Rightarrow> error + json" where
  "py_getitem (JObj kvs) k = (case map_of kvs k of None \<Rightarrow> Inl (KeyError k) | Some v \<Rightarrow> Inr v)"
| "py_getitem _ k = Inl TypeError"

text \<open>Truthiness of a string that may be \<^verbatim>\<open>None\<close>.\<close>

fun truthy :: "string option \<Rightarrow> bool" where
  "truthy None = False"
| "truthy (Some s) = (s \<noteq> [])"

subsection \<open>String methods\<close>

text \<open>
  \<^verbatim>\<open>str.capitalize\<close>, \<^verbatim>\<open>str.title\<close> and \<^verbatim>\<open>str.split('/')[0]\<close>, on ASCII letters (a
  character outside \<open>a\<close>..\<open>z\<close>, \<open>A\<close>..\<open>Z\<close> is left as it is and counts as a non-letter).
\<close>

definition lower_letters :: string where
  "lower_letters = ''abcdefghijklmnopqrstuvwxyz''"

definition upper_letters :: string where
  "upper_letters = ''ABCDEFGHIJKLMNOPQRSTUVWXYZ''"

definition to_upper :: "char \<Rightarrow> char" where
  "to_upper c = (case map_of (zip lower_letters upper_letters) c of None \<Rightarrow> c | Some u \<Rightarrow> u)"

definition to_lower :: "char \<Rightarrow> char" where
  "to_lower c = (case map_of (zip upper_letters lower_letters) c of None \<Rightarrow> c | Some l \<Rightarrow> l)"

definition is_letter :: "char \<Rightarrow> bool" where
  "is_letter c = (c \<in> set lower_letters \<or> c \<in> set upper_letters)"

fun capitalize :: "string \<Rightarrow> string" where
  "capitalize [] = []"
| "capitalize (c # cs) = to_upper c # map to_lower cs"

text \<open>\<open>title_from prev s\<close>: \<open>prev\<close> says whether the character before \<open>s\<close> was a letter.\<close>

fun title_from :: "bool \<Rightarrow> string \<Rightarrow> string" where
  "title_from prev [] = []"
| "title_from prev (c # cs) = (if prev then to_lower c else to_upper c) # title_from (is_letter c) cs"

definition title :: "string \<Rightarrow> string" where
  "title s = title_from False s"

definition split_first :: "char \<Rightarrow> string \<Rightarrow> string" where
  "split_first sep s = takeWhile (\<lambda>c. c \<noteq> sep) s"

text \<open>\<^verbatim>\<open>str(n)\<close> for a natural number.\<close>

fun show_nat :: "nat \<Rightarrow> string" where
  "show_nat n = (if n < 10 then [''0123456789'' ! n]
                 else show_nat (n div 10) @ [''0123456789'' ! (n mod 10)])"

subsection \<open>The canvas\<close>

text \<open>
  The calls the scripts make on a \<^verbatim>\<open>reportlab\<close> canvas, as data. \<open>Rect\<close>, \<open>RoundRect\<close> and
  \<open>Circle\<close> end with the \<^verbatim>\<open>stroke\<close> and \<^verbatim>\<open>fill\<close> flags (the library's defaults are
  \<^verbatim>\<open>stroke=1, fill=0\<close>). An image is named by the data it was made from. The page size
  \<^verbatim>\<open>letter\<close> is 612 by 792 points.
\<close>

type_synonym image = string

type_synonym rgb = "real \<times> real \<times> real"

datatype drawop =
    SetFont string nat
  | SetFillColorRGB rgb
  | SetStrokeColorRGB rgb
  | SetLineWidth nat
  | Rect int int int int bool bool
  | RoundRect int int int int int bool bool
  | Line int int int int
  | Circle int int int bool bool
  | DrawString int int string
  | DrawCentredString int int string
  | DrawImage image int int int int

type_synonym page = "drawop list"

definition letter :: "int \<times> int" where
  "letter = (612, 792)"

text \<open>
  A canvas is the pages closed by \<^verbatim>\<open>showPage\<close> and the page being drawn. The state of a
  run is the canvas, the HTTP requests sent so far and what Streamlit was told to show
  as an error or a warning (\<^verbatim>\<open>st.write\<close> progress lines, \<^verbatim>\<open>st.image\<close> previews and the
  final \<^verbatim>\<open>st.success\<close> are not recorded; an exception raised while their arguments are
  computed is).
\<close>

datatype request =
    AnalyzeStory string
  | DescribePhoto string
  | GenerateImage string
  | DescribeChild string

datatype ui_event =
    StWarning string
  | StError string
  | StErrorOf string error
  | StException error

record world =
  done_pages :: "page list"
  cur_page :: page
  sent :: "request list"
  shown :: "ui_event list"

definition world0 :: world where
  "world0 = \<lparr>done_pages = [], cur_page = [], sent = [], shown = []\<rparr>"

definition new_canvas :: "world \<Rightarrow> world" where
  "new_canvas w = w\<lparr>done_pages := [], cur_page := []\<rparr>"

definition draw :: "drawop list \<Rightarrow> world \<Rightarrow> world" where
  "draw ops w = w\<lparr>cur_page := cur_page w @ ops\<rparr>"

definition showPage :: "world \<Rightarrow> world" where
  "showPage w = w\<lparr>done_pages := done_pages w @ [cur_page w], cur_page := []\<rparr>"

text \<open>\<^verbatim>\<open>c.save()\<close> after a \<^verbatim>\<open>showPage\<close>: the document is the closed pages.\<close>

definition save :: "world \<Rightarrow> page list" where
  "save w = done_pages w"

definition st_warning :: "string \<Rightarrow> world \<Rightarrow> world" where
  "st_warning m w = w\<lparr>shown := shown w @ [StWarning m]\<rparr>"

definition st_error :: "string \<Rightarrow> world \<Rightarrow> world" where
  "st_error m w = w\<lparr>shown := shown w @ [StError m]\<rparr>"

definition st_error_of :: "string \<Rightarrow> error \<Rightarrow> world \<Rightarrow> world" where
  "st_error_of m e w = w\<lparr>shown := shown w @ [StErrorOf m e]\<rparr>"

definition st_exception :: "error \<Rightarrow> world \<Rightarrow> world" where
  "st_exception e w = w\<lparr>shown := shown w @ [StException e]\<rparr>"

subsection \<open>The environment\<close>

text \<open>
  \<^item> \<open>http k r\<close>: what comes back for request \<open>r\<close> when \<open>k\<close> requests were sent before
    it. \<open>Inl m\<close>: the call, \<^verbatim>\<open>raise_for_status\<close> or the walk through the reply raised,
    with message \<open>m\<close>. \<open>Inr c\<close>: the field the script reads from the reply (\<^verbatim>\<open>content\<close>
    or \<^verbatim>\<open>b64_json\<close>), \<open>None\<close> for a JSON \<^verbatim>\<open>null\<close>.
  \<^item> \<open>json_loads\<close>: \<^verbatim>\<open>json.loads\<close>.
  \<^item> \<open>open_error d\<close>: the message \<^verbatim>\<open>Image.open\<close> raises with on the data \<open>d\<close> (an
    uploaded file, or a base64 payload after decoding), \<open>None\<close> when it opens.
  \<^item> \<open>jpeg_error d\<close>: the message saving the uploaded photo as JPEG raises with.
  \<^item> \<open>shuffled\<close>: the order \<^verbatim>\<open>random.shuffle\<close> leaves a list in.
  \<^item> \<open>py_str\<close>: Python's \<^verbatim>\<open>str\<close> on a parsed value that is not a string.
  \<^item> \<open>draw_arg\<close>: what \<^verbatim>\<open>drawString\<close> makes of an argument that is not a string
    (\<open>Inl\<close>: it raises).
  Drawing on the canvas and handling the temporary file are taken to succeed.
\<close>

record env =
  http :: "nat \<Rightarrow> request \<Rightarrow> string + string option"
  json_loads :: "string \<Rightarrow> string + json"
  open_error :: "image \<Rightarrow> string option"
  jpeg_error :: "image \<Rightarrow> string option"
  shuffled :: "rgb list \<Rightarrow> rgb list"
  py_str :: "json \<Rightarrow> string"
  draw_arg :: "json \<Rightarrow> string + string"

definition post :: "env \<Rightarrow> request \<Rightarrow> world \<Rightarrow> (string + string option) \<times> world" where
  "post env r w = (http env (length (sent w)) r, w\<lparr>sent := sent w @ [r]\<rparr>)"

text \<open>A value inside an f-string, and a value handed to \<^verbatim>\<open>drawString\<close>.\<close>

fun fmt :: "env \<Rightarrow> json \<Rightarrow> string" where
  "fmt env (JStr s) = s"
| "fmt env v = py_str env v"

fun drawn_text :: "env \<Rightarrow> json \<Rightarrow> error + string" where
  "drawn_text env (JStr s) = Inr s"
| "drawn_text env v = (case draw_arg env v of Inl m \<Rightarrow> Inl (Raised m) | Inr t \<Rightarrow> Inr t)"

section \<open>The PDF text extractor\<close>

text \<open>
  \<^verbatim>\<open>extract_text_from_pdf\<close> is the same in the three scripts. A PDF is what the reader
  makes of it: it cannot be opened, or it has pages, each of which gives its text or
  raises.
\<close>

datatype pdf_file =
    Unreadable string
  | Readable "(string + string) list"

fun extract_pages :: "(string + string) list \<Rightarrow> string \<Rightarrow> string + string" where
  "extract_pages [] acc = Inr acc"
| "extract_pages (Inl m # ps) acc = Inl m"
| "extract_pages (Inr t # ps) acc = extract_pages ps (acc @ t @ ''\<newline>'')"

definition extract_text_from_pdf :: "pdf_file \<Rightarrow> world \<Rightarrow> string option \<times> world" where
  "extract_text_from_pdf pdf w =
     (case pdf of
        Unreadable m \<Rightarrow> (None, st_error_of ''Error reading PDF: '' (Raised m) w)
      | Readable ps \<Rightarrow>
          (case extract_pages ps [] of
             Inl m \<Rightarrow> (None, st_error_of ''Error reading PDF: '' (Raised m) w)
           | Inr t \<Rightarrow> (Some t, w)))"

section \<open>The story analyzer and the scene illustrator\<close>

text \<open>
  \<^verbatim>\<open>analyze_story\<close>: one chat request built from the story text; every exception is
  caught, shown, and turned into \<^verbatim>\<open>None\<close>. The request is recorded by the story text it
  carries (the instruction around it is fixed).
\<close>

definition analyze_story :: "env \<Rightarrow> string \<Rightarrow> world \<Rightarrow> string option \<times> world" where
  "analyze_story env story_text w =
     (case post env (AnalyzeStory story_text) w of
        (Inl m, w1) \<Rightarrow> (None, st_error_of ''Story analysis failed: '' (Raised m) w1)
      | (Inr c, w1) \<Rightarrow> (c, w1))"

text \<open>
  \<^verbatim>\<open>generate_ghibli_scene\<close> of \<^verbatim>\<open>main.py\<close> and \<^verbatim>\<open>main2.py\<close>. The prompt is built inside
  the \<^verbatim>\<open>try\<close>, so a record without \<^verbatim>\<open>'animal'\<close> or \<^verbatim>\<open>'interaction'\<close> is caught there too.
\<close>

definition scene_prompt :: "env \<Rightarrow> string \<Rightarrow> json \<Rightarrow> string option \<Rightarrow> error + string" where
  "scene_prompt env child_description animal_data photo_description =
     (case py_getitem animal_data ''animal'' of
        Inl e \<Rightarrow> Inl e
      | Inr animal \<Rightarrow>
          (case py_getitem animal_data ''interaction'' of
             Inl e \<Rightarrow> Inl e
           | Inr interaction \<Rightarrow>
               Inr (''Full-body Studio Ghibli-style watercolor illustration of '' @ child_description @ '' ''
                    @ ''interacting with a '' @ fmt env animal @ ''. '' @ fmt env interaction @ ''. ''
                    @ ''Soft colors, delicate features, dreamy atmosphere, detailed background, ''
                    @ ''whimsical details. Beautiful watercolor textures with visible brush strokes. ''
                    @ ''Full-body characters in dynamic poses showing the interaction clearly.''
                    @ (if truthy photo_description
                       then '' Child's distinctive features: '' @ the photo_description else []))))"

definition generate_ghibli_scene ::
  "env \<Rightarrow> string \<Rightarrow> json \<Rightarrow> string option \<Rightarrow> world \<Rightarrow> string option \<times> world" where
  "generate_ghibli_scene env child_description animal_data photo_description w =
     (case scene_prompt env child_description animal_data photo_description of
        Inl e \<Rightarrow> (None, st_error_of ''Image generation failed: '' e w)
      | Inr full_prompt \<Rightarrow>
          (case post env (GenerateImage full_prompt) w of
             (Inl m, w1) \<Rightarrow> (None, st_error_of ''Image generation failed: '' (Raised m) w1)
           | (Inr img_data, w1) \<Rightarrow> (img_data, w1)))"

text \<open>\<^verbatim>\<open>f"{name}, a {gender.split('/')[0]} child" if name else "a child"\<close>\<close>

definition child_description_of :: "string \<Rightarrow> string \<Rightarrow> string" where
  "child_description_of name gender =
     (if name \<noteq> [] then name @ '', a '' @ split_first CHR ''/'' gender @ '' child'' else ''a child'')"

section \<open>The assembler of main.py\<close>

text \<open>The table \<^verbatim>\<open>create_storybook\<close> builds first. Nothing in the function reads it.\<close>

definition pronouns_main :: "(string \<times> (string \<times> string) list) list" where
  "pronouns_main =
     [(''she/her'', [(''subject'', ''she''), (''object'', ''her'')]),
      (''he/him'', [(''subject'', ''he''), (''object'', ''him'')]),
      (''they/them'', [(''subject'', ''they''), (''object'', ''them'')])]"

definition unavailable :: string where
  "unavailable = ''[Illustration not available]''"

definition cover_page :: "env \<Rightarrow> string \<Rightarrow> image option \<Rightarrow> world \<Rightarrow> world" where
  "cover_page env name user_image w =
     (let w1 = draw [SetFont ''Helvetica-Bold'' 24,
                     DrawCentredString 300 750 (name @ '''s Ghibli Zoo Adventure''),
                     SetFont ''Helvetica'' 16,
                     DrawCentredString 300 700 ''A magical Studio Ghibli-style story''] w;
          w2 = (case user_image of
                  None \<Rightarrow> w1
                | Some img \<Rightarrow>
                    (case jpeg_error env img of
                       Some m \<Rightarrow> st_error_of ''Error adding user photo: '' (Raised m) w1
                     | None \<Rightarrow> draw [DrawImage img 200 400 200 200] w1))
      in showPage w2)"

definition intro_page :: "string \<Rightarrow> world \<Rightarrow> world" where
  "intro_page name w =
     showPage (draw [SetFont ''Helvetica'' 18,
                     DrawCentredString 300 750 (''Once upon a time, '' @ name @ '' wrote to the zoo''),
                     DrawCentredString 300 720 ''to send them a pet.'',
                     DrawCentredString 300 690 ''And so the zoo began to send animals...''] w)"

text \<open>The illustration of one page: the image, or the placeholder text.\<close>

definition illustration :: "env \<Rightarrow> json \<Rightarrow> string option \<Rightarrow> world \<Rightarrow> world" where
  "illustration env animal img_data w =
     (if truthy img_data then
        (case open_error env (the img_data) of
           None \<Rightarrow> draw [DrawImage (the img_data) 100 250 400 400] w
         | Some m \<Rightarrow>
             draw [DrawString 300 400 unavailable]
               (st_error_of (''Error adding illustration for '' @ fmt env animal @ '': '') (Raised m) w))
      else draw [DrawString 300 400 unavailable] w)"

text \<open>One pass of the loop \<^verbatim>\<open>for i, animal_data in enumerate(story_data)\<close>.\<close>

definition animal_page ::
  "env \<Rightarrow> string \<Rightarrow> string \<Rightarrow> string option \<Rightarrow> json \<Rightarrow> world \<Rightarrow> (error + unit) \<times> world" where
  "animal_page env name child_description photo_description animal_data w =
     (case py_getitem animal_data ''animal'' of
        Inl e \<Rightarrow> (Inl e, w)
      | Inr animal \<Rightarrow>
          (case generate_ghibli_scene env child_description animal_data photo_description w of
             (img_data, w1) \<Rightarrow>
               (let w2 = draw [SetFont ''Helvetica'' 18,
                               DrawString 100 750 (''They sent '' @ name @ '' a '' @ fmt env animal @ ''...'')] w1
                in case py_getitem animal_data ''description'' of
                     Inl e \<Rightarrow> (Inl e, w2)
                   | Inr description \<Rightarrow>
                       (let w3 = draw [DrawString 100 720 (''but it was '' @ fmt env description @ ''!'')] w2
                        in case py_getitem animal_data ''interaction'' of
                             Inl e \<Rightarrow> (Inl e, w3)
                           | Inr interaction \<Rightarrow>
                               (case drawn_text env interaction of
                                  Inl e \<Rightarrow> (Inl e, w3)
                                | Inr t \<Rightarrow>
                                    (Inr (), showPage (illustration env animal img_data
                                                        (draw [DrawString 100 690 t] w3))))))))"

fun animal_pages ::
  "env \<Rightarrow> string \<Rightarrow> string \<Rightarrow> string option \<Rightarrow> json list \<Rightarrow> world \<Rightarrow> (error + unit) \<times> world" where
  "animal_pages env name child_description photo_description [] w = (Inr (), w)"
| "animal_pages env name child_description photo_description (animal_data # rest) w =
     (case animal_page env name child_description photo_description animal_data w of
        (Inl e, w1) \<Rightarrow> (Inl e, w1)
      | (Inr u, w1) \<Rightarrow> animal_pages env name child_description photo_description rest w1)"

definition end_page :: "string \<Rightarrow> world \<Rightarrow> world" where
  "end_page name w =
     showPage (draw [SetFont ''Helvetica-Bold'' 20,
                     DrawCentredString 300 700 ''The End'',
                     SetFont ''Helvetica'' 16,
                     DrawCentredString 300 650 (''Hope you enjoyed your Ghibli adventure, '' @ name @ ''!'')] w)"

definition create_storybook ::
  "env \<Rightarrow> string \<Rightarrow> string \<Rightarrow> json \<Rightarrow> string option \<Rightarrow> image option \<Rightarrow> world
     \<Rightarrow> (error + page list) \<times> world" where
  "create_storybook env name gender story_data photo_description user_image w =
     (case py_len story_data of
        Inl e \<Rightarrow> (Inl e, w)
      | Inr n \<Rightarrow>
          (let w1 = cover_page env name user_image (new_canvas w);
               child_description = child_description_of name gender;
               w2 = intro_page name w1
           in case py_iter story_data of
                Inl e \<Rightarrow> (Inl e, w2)
              | Inr items \<Rightarrow>
                  (case animal_pages env name child_description photo_description items w2 of
                     (Inl e, w3) \<Rightarrow> (Inl e, w3)
                   | (Inr u, w3) \<Rightarrow> (let w4 = end_page name w3 in (Inr (save w4), w4)))))"

section \<open>The pipeline behind the button\<close>

text \<open>
  The block under \<^verbatim>\<open>if st.button(...)\<close> is the same text in \<^verbatim>\<open>main.py\<close> and \<^verbatim>\<open>main2.py\<close>
  up to the assembler it calls, which is the argument \<open>assemble\<close> here.
\<close>

text \<open>Lines 248 to 257 of \<^verbatim>\<open>main.py\<close>: where the interaction sequence is taken from.\<close>

fun first_list :: "(string \<times> json) list \<Rightarrow> json option" where
  "first_list [] = None"
| "first_list ((key, JArr (x # xs)) # rest) = Some (JArr (x # xs))"
| "first_list ((key, v) # rest) = first_list rest"

definition select_story_data :: "(string \<times> json) list \<Rightarrow> error + json" where
  "select_story_data parsed_data =
     (case map_of parsed_data ''interactions'' of
        Some v \<Rightarrow> Inr v
      | None \<Rightarrow>
          (case first_list parsed_data of
             Some v \<Rightarrow> Inr v
           | None \<Rightarrow> Inl (ValueError ''Could not find animal interaction data in the API response'')))"

text \<open>Step 3: the photo, when one was uploaded. Nothing here is inside a \<^verbatim>\<open>try\<close> of its own.\<close>

definition process_photo ::
  "env \<Rightarrow> string option \<Rightarrow> world \<Rightarrow> (error + string option \<times> image option) \<times> world" where
  "process_photo env photo w =
     (case photo of
        None \<Rightarrow> (Inr (None, None), w)
      | Some photo_bytes \<Rightarrow>
          (case open_error env photo_bytes of
             Some m \<Rightarrow> (Inl (Raised m), w)
           | None \<Rightarrow>
               (case post env (DescribePhoto photo_bytes) w of
                  (Inl m, w1) \<Rightarrow> (Inl (Raised m), w1)
                | (Inr photo_description, w1) \<Rightarrow> (Inr (photo_description, Some photo_bytes), w1))))"

type_synonym assembler =
  "env \<Rightarrow> string \<Rightarrow> string \<Rightarrow> json \<Rightarrow> string option \<Rightarrow> image option \<Rightarrow> world
     \<Rightarrow> (error + page list) \<times> world"

text \<open>
  Steps 1 and 2 of the \<^verbatim>\<open>try\<close>: the story text, the analysis, and the interaction
  sequence read from the parsed reply (\<^verbatim>\<open>parsed_data.keys()\<close> needs a dict; the
  \<^verbatim>\<open>len(story_data)\<close> of the progress line needs something with a length).
\<close>

definition read_story_data :: "env \<Rightarrow> string \<Rightarrow> error + json" where
  "read_story_data env analysis_result =
     (case json_loads env analysis_result of
        Inl m \<Rightarrow> Inl (Raised m)
      | Inr (JObj parsed_data) \<Rightarrow>
          (case select_story_data parsed_data of
             Inl e \<Rightarrow> Inl e
           | Inr story_data \<Rightarrow>
               (case py_len story_data of
                  Inl e \<Rightarrow> Inl e
                | Inr n \<Rightarrow> Inr story_data))
      | Inr other \<Rightarrow> Inl AttributeError)"

definition analysis_steps :: "env \<Rightarrow> pdf_file \<Rightarrow> world \<Rightarrow> (error + json) \<times> world" where
  "analysis_steps env original_pdf w =
     (case extract_text_from_pdf original_pdf w of
        (story_text, w1) \<Rightarrow>
          if \<not> truthy story_text then (Inl (ValueError ''Couldn't extract text from PDF''), w1)
          else
            (case analyze_story env (the story_text) w1 of
               (analysis_result, w2) \<Rightarrow>
                 if \<not> truthy analysis_result then (Inl (ValueError ''Couldn't analyze story structure''), w2)
                 else (read_story_data env (the analysis_result), w2)))"

text \<open>The body of the \<^verbatim>\<open>try\<close>: steps 1 and 2, the photo, the assembler.\<close>

definition pipeline_body ::
  "assembler \<Rightarrow> env \<Rightarrow> pdf_file \<Rightarrow> string \<Rightarrow> string \<Rightarrow> string option \<Rightarrow> world
     \<Rightarrow> (error + page list) \<times> world" where
  "pipeline_body assemble env original_pdf name gender photo w =
     (case analysis_steps env original_pdf w of
        (Inl e, w2) \<Rightarrow> (Inl e, w2)
      | (Inr story_data, w2) \<Rightarrow>
          (case process_photo env photo w2 of
             (Inl e, w3) \<Rightarrow> (Inl e, w3)
           | (Inr (photo_description, user_image), w3) \<Rightarrow>
               assemble env (if name \<noteq> [] then name else ''Aanya'') gender
                 story_data photo_description user_image w3))"

text \<open>
  The handler: no PDF, no API key, or the \<^verbatim>\<open>try\<close> with its \<^verbatim>\<open>except Exception\<close>. The
  result is the document offered for download, if any.
\<close>

definition pipeline ::
  "assembler \<Rightarrow> env \<Rightarrow> string option \<Rightarrow> pdf_file option \<Rightarrow> string \<Rightarrow> string \<Rightarrow> string option \<Rightarrow> world
     \<Rightarrow> page list option \<times> world" where
  "pipeline assemble env api_key original_pdf name gender photo w =
     (case original_pdf of
        None \<Rightarrow> (None, st_warning ''Please upload the original story PDF'' w)
      | Some pdf \<Rightarrow>
          if \<not> truthy api_key then (None, st_error ''Missing OpenAI API key'' w)
          else
            (case pipeline_body assemble env pdf name gender photo w of
               (Inl e, w1) \<Rightarrow> (None, st_exception e (st_error_of ''Error creating storybook: '' e w1))
             | (Inr pdf_buffer, w1) \<Rightarrow> (Some pdf_buffer, w1)))"

definition run_main ::
  "env \<Rightarrow> string option \<Rightarrow> pdf_file option \<Rightarrow> string \<Rightarrow> string \<Rightarrow> string option \<Rightarrow> world
     \<Rightarrow> page list option \<times> world" where
  "run_main = pipeline create_storybook"

section \<open>The assembler of main2.py\<close>

definition PASTEL_COLORS :: "rgb list" where
  "PASTEL_COLORS =
     [(1.0, 0.95, 0.95), (0.95, 1.0, 0.95), (0.95, 0.95, 1.0), (1.0, 1.0, 0.95),
      (1.0, 0.95, 1.0), (0.95, 1.0, 1.0), (1.0, 0.98, 0.9), (0.97, 0.95, 1.0)]"

text \<open>The table of \<^verbatim>\<open>create_stylish_storybook\<close> (\<^verbatim>\<open>main2.py\<close> and \<^verbatim>\<open>main3.py\<close>).\<close>

definition pronouns :: "(string \<times> (string \<times> string) list) list" where
  "pronouns =
     [(''she/her'', [(''subject'', ''she''), (''object'', ''her''), (''possessive'', ''her'')]),
      (''he/him'', [(''subject'', ''he''), (''object'', ''him''), (''possessive'', ''his'')]),
      (''they/them'', [(''subject'', ''they''), (''object'', ''them''), (''possessive'', ''their'')])]"

text \<open>\<^verbatim>\<open>d[k]\<close> on a dict with string keys, and \<^verbatim>\<open>xs[i]\<close> on a list.\<close>

definition dict_get :: "(string \<times> 'v) list \<Rightarrow> string \<Rightarrow> error + 'v" where
  "dict_get d k = (case map_of d k of None \<Rightarrow> Inl (KeyError k) | Some v \<Rightarrow> Inr v)"

definition list_get :: "'a list \<Rightarrow> nat \<Rightarrow> error + 'a" where
  "list_get xs i = (if i < length xs then Inr (xs ! i) else Inl IndexError)"

text \<open>\<^verbatim>\<open>chosen_pronouns['subject']\<close>: the three rows of the table all have the key.\<close>

definition subject_of :: "(string \<times> string) list \<Rightarrow> string" where
  "subject_of chosen_pronouns = (case map_of chosen_pronouns ''subject'' of None \<Rightarrow> [] | Some s \<Rightarrow> s)"

text \<open>The photo on the cover, inside its \<^verbatim>\<open>try\<close>.\<close>

definition cover_photo :: "env \<Rightarrow> image option \<Rightarrow> world \<Rightarrow> world" where
  "cover_photo env user_image w =
     (case user_image of
        None \<Rightarrow> w
      | Some img \<Rightarrow>
          (case jpeg_error env img of
             Some m \<Rightarrow> st_error_of ''Error adding user photo: '' (Raised m) w
           | None \<Rightarrow>
               draw [SetFillColorRGB (1, 1, 1),
                     Rect 175 375 250 250 True True,
                     DrawImage img 200 400 200 200,
                     SetStrokeColorRGB (0.3, 0.3, 0.7),
                     SetLineWidth 3,
                     Rect 175 375 250 250 True False] w))"

definition cover_page2 :: "env \<Rightarrow> string \<Rightarrow> image option \<Rightarrow> world \<Rightarrow> world" where
  "cover_page2 env name user_image w =
     (let title_text = name @ '''s Magical Ghibli Zoo Adventure'';
          w1 = draw ([SetFillColorRGB (1.0, 0.98, 0.9),
                      Rect 0 0 (fst letter) (snd letter) True True,
                      SetStrokeColorRGB (0.8, 0.7, 0.3),
                      SetLineWidth 5,
                      Rect 20 20 (fst letter - 40) (snd letter - 40) True False,
                      SetFillColorRGB (0.3, 0.3, 0.7),
                      SetFont ''Helvetica-Bold'' 28,
                      DrawCentredString 302 748 title_text,
                      SetFillColorRGB (0.1, 0.2, 0.6),
                      DrawCentredString 300 750 title_text,
                      SetFillColorRGB (0.3, 0.3, 0.3),
                      SetFont ''Helvetica-BoldOblique'' 18,
                      DrawCentredString 300 700 ''A whimsical Studio Ghibli-style adventure'',
                      SetFillColorRGB (0.9, 0.8, 0.3)]
                     @ map (\<lambda>i. Circle (100 + int i * 100) 650 10 True True) [0..<5]) w;
          w2 = cover_photo env user_image w1
      in showPage (draw [SetFillColorRGB (0.3, 0.3, 0.3),
                         SetFont ''Helvetica-Oblique'' 14,
                         DrawCentredString 300 100 (''Created especially for '' @ name),
                         DrawCentredString 300 80 ''April 2025''] w2))"

definition intro_page2 :: "rgb \<Rightarrow> string \<Rightarrow> (string \<times> string) list \<Rightarrow> world \<Rightarrow> world" where
  "intro_page2 bg_color name chosen_pronouns w =
     showPage (draw [SetFillColorRGB bg_color,
                     Rect 0 0 (fst letter) (snd letter) True True,
                     SetStrokeColorRGB (0.5, 0.5, 0.8),
                     SetLineWidth 2,
                     Line 50 680 550 680,
                     Line 50 640 550 640,
                     SetFillColorRGB (0.2, 0.2, 0.5),
                     SetFont ''Helvetica-Bold'' 22,
                     DrawCentredString 300 750 ''The Adventure Begins...'',
                     SetFillColorRGB (0.1, 0.1, 0.1),
                     SetFont ''Helvetica'' 18,
                     DrawCentredString 300 660 ''Once upon a time, in a house filled with dreams,'',
                     DrawCentredString 300 630 (name @ '' wrote a special letter to the zoo.''),
                     DrawCentredString 300 600
                       (capitalize (subject_of chosen_pronouns) @ '' asked them to send a perfect pet,''),
                     DrawCentredString 300 570 ''and so their magical journey began...'',
                     SetFillColorRGB (0.7, 0.7, 0.9),
                     Circle 100 500 30 True True,
                     Circle 500 500 30 True True,
                     SetFillColorRGB (0.8, 0.8, 0.9),
                     RoundRect 150 200 300 300 20 True True,
                     SetFillColorRGB (0.2, 0.2, 0.5),
                     SetFont ''Helvetica-Bold'' 24,
                     DrawCentredString 300 350 ''The Zoo'',
                     SetFont ''Helvetica'' 18,
                     DrawCentredString 300 310 ''Where magical animals'',
                     DrawCentredString 300 280 ''were waiting to be discovered...''] w)"

definition illustration2 :: "env \<Rightarrow> json \<Rightarrow> string option \<Rightarrow> world \<Rightarrow> world" where
  "illustration2 env animal img_data w =
     (if truthy img_data then
        (case open_error env (the img_data) of
           None \<Rightarrow>
             draw [SetFillColorRGB (1, 1, 1),
                   RoundRect 75 150 450 450 10 True True,
                   DrawImage (the img_data) 100 175 400 400,
                   SetStrokeColorRGB (0.5, 0.5, 0.7),
                   SetLineWidth 3,
                   RoundRect 75 150 450 450 10 True False] w
         | Some m \<Rightarrow>
             draw [DrawString 300 400 unavailable]
               (st_error_of (''Error adding illustration for '' @ fmt env animal @ '': '') (Raised m) w))
      else draw [DrawString 300 400 unavailable] w)"

text \<open>\<^verbatim>\<open>page_colors[i % len(page_colors)]\<close>\<close>

definition cycle_color :: "rgb list \<Rightarrow> nat \<Rightarrow> error + rgb" where
  "cycle_color page_colors i =
     (if length page_colors = 0 then Inl ZeroDivisionError
      else list_get page_colors (i mod length page_colors))"

text \<open>\<^verbatim>\<open>animal_data['animal'].title()\<close>: only a string has the method.\<close>

fun py_title :: "json \<Rightarrow> error + string" where
  "py_title (JStr s) = Inr (title s)"
| "py_title v = Inl AttributeError"

definition animal_page2 ::
  "env \<Rightarrow> rgb list \<Rightarrow> string \<Rightarrow> string \<Rightarrow> string option \<Rightarrow> nat \<Rightarrow> json \<Rightarrow> world
     \<Rightarrow> (error + unit) \<times> world" where
  "animal_page2 env page_colors name child_description photo_description i animal_data w =
     (case py_getitem animal_data ''animal'' of
        Inl e \<Rightarrow> (Inl e, w)
      | Inr animal \<Rightarrow>
          (case cycle_color page_colors i of
             Inl e \<Rightarrow> (Inl e, w)
           | Inr bg_color \<Rightarrow>
               (let w1 = draw [SetFillColorRGB bg_color,
                               Rect 0 0 (fst letter) (snd letter) True True,
                               SetFillColorRGB (0.3, 0.3, 0.7),
                               RoundRect 50 730 500 60 10 True True,
                               SetFillColorRGB (1, 1, 1),
                               SetFont ''Helvetica-Bold'' 22] w
                in case py_title animal of
                     Inl e \<Rightarrow> (Inl e, w1)
                   | Inr heading \<Rightarrow>
                       (case generate_ghibli_scene env child_description animal_data photo_description
                               (draw [DrawCentredString 300 760 (''The '' @ heading)] w1) of
                          (img_data, w2) \<Rightarrow>
                            (let w3 = draw [SetFillColorRGB (0.2, 0.2, 0.4),
                                            SetFont ''Helvetica-BoldOblique'' 18,
                                            DrawString 90 700
                                              (''They sent '' @ name @ '' a '' @ fmt env animal @ ''...''),
                                            SetFillColorRGB (0.5, 0.1, 0.1),
                                            SetFont ''Helvetica-Bold'' 18] w2
                             in case py_getitem animal_data ''description'' of
                                  Inl e \<Rightarrow> (Inl e, w3)
                                | Inr description \<Rightarrow>
                                    (let w4 = draw [DrawString 100 670
                                                      (''But it was '' @ fmt env description @ ''!''),
                                                    SetFillColorRGB (0.2, 0.3, 0.2),
                                                    SetFont ''Helvetica-Oblique'' 18] w3
                                     in case py_getitem animal_data ''interaction'' of
                                          Inl e \<Rightarrow> (Inl e, w4)
                                        | Inr interaction \<Rightarrow>
                                            (case drawn_text env interaction of
                                               Inl e \<Rightarrow> (Inl e, w4)
                                             | Inr t \<Rightarrow>
                                                 (let w5 = draw [DrawString 90 640 t,
                                                                 SetStrokeColorRGB (0.5, 0.5, 0.7),
                                                                 SetLineWidth 2,
                                                                 Line 100 625 500 625] w4;
                                                      w6 = illustration2 env animal img_data w5
                                                  in (Inr (),
                                                      showPage
                                                        (draw [SetFillColorRGB (0.3, 0.3, 0.6),
                                                               Circle 550 50 20 True True,
                                                               SetFillColorRGB (1, 1, 1),
                                                               SetFont ''Helvetica-Bold'' 14,
                                                               DrawCentredString 550 45 (show_nat (i + 1))]
                                                           w6))))))))))"

fun animal_pages2 ::
  "env \<Rightarrow> rgb list \<Rightarrow> string \<Rightarrow> string \<Rightarrow> string option \<Rightarrow> nat \<Rightarrow> json list \<Rightarrow> world
     \<Rightarrow> (error + unit) \<times> world" where
  "animal_pages2 env page_colors name child_description photo_description i [] w = (Inr (), w)"
| "animal_pages2 env page_colors name child_description photo_description i (animal_data # rest) w =
     (case animal_page2 env page_colors name child_description photo_description i animal_data w of
        (Inl e, w1) \<Rightarrow> (Inl e, w1)
      | (Inr u, w1) \<Rightarrow>
          animal_pages2 env page_colors name child_description photo_description (Suc i) rest w1)"

definition end_page2 :: "string \<Rightarrow> (string \<times> string) list \<Rightarrow> world \<Rightarrow> world" where
  "end_page2 name chosen_pronouns w =
     showPage (draw ([SetFillColorRGB (0.95, 0.98, 1.0),
                      Rect 0 0 (fst letter) (snd letter) True True,
                      SetStrokeColorRGB (0.5, 0.6, 0.8),
                      SetLineWidth 4,
                      Rect 50 50 (fst letter - 100) (snd letter - 100) True False,
                      SetStrokeColorRGB (0.7, 0.8, 0.9),
                      SetLineWidth 2,
                      Rect 70 70 (fst letter - 140) (snd letter - 140) True False,
                      SetFillColorRGB (0.2, 0.3, 0.6),
                      SetFont ''Times-Bold'' 36,
                      DrawCentredString 302 698 ''The End'',
                      SetFillColorRGB (0.1, 0.2, 0.5),
                      DrawCentredString 300 700 ''The End'',
                      SetFillColorRGB (0.7, 0.7, 0.9)]
                     @ map (\<lambda>(x, y). Circle x y 8 True True) [(230, 700), (370, 700), (270, 650), (330, 650)]
                     @ [SetFillColorRGB (0.3, 0.3, 0.4),
                        SetFont ''Times-Italic'' 20,
                        DrawCentredString 300 600 (''And finally, they sent '' @ name @ '' a...''),
                        SetFillColorRGB (0.2, 0.5, 0.3),
                        SetFont ''Times-Bold'' 24,
                        DrawCentredString 300 550 ''Perfect Pet!'',
                        SetFillColorRGB (0.3, 0.3, 0.4),
                        SetFont ''Times-Italic'' 18,
                        DrawCentredString 300 500
                          (''It was just what '' @ subject_of chosen_pronouns @ '' wanted!''),
                        SetFillColorRGB (0.7, 0.8, 0.9)]
                     @ map (\<lambda>i. Circle (150 + int i * 75) 200 15 True True) [0..<5]
                     @ [SetFillColorRGB (0.3, 0.3, 0.4),
                        SetFont ''Helvetica'' 16,
                        DrawCentredString 300 120
                          (''Hope you enjoyed your magical Ghibli adventure, '' @ name @ ''!''),
                        SetFont ''Helvetica-Oblique'' 14,
                        DrawCentredString 300 90 ''Every story has a happy ending...'']) w)"

text \<open>
  \<^verbatim>\<open>create_stylish_storybook\<close> of \<^verbatim>\<open>main2.py\<close>. The sample style sheet it builds next
  is not used afterwards.
\<close>

definition create_stylish_storybook ::
  "env \<Rightarrow> string \<Rightarrow> string \<Rightarrow> json \<Rightarrow> string option \<Rightarrow> image option \<Rightarrow> world
     \<Rightarrow> (error + page list) \<times> world" where
  "create_stylish_storybook env name gender story_data photo_description user_image w =
     (case dict_get pronouns gender of
        Inl e \<Rightarrow> (Inl e, w)
      | Inr chosen_pronouns \<Rightarrow>
          (case py_len story_data of
             Inl e \<Rightarrow> (Inl e, w)
           | Inr n \<Rightarrow>
               (let page_colors = shuffled env PASTEL_COLORS;
                    w1 = cover_page2 env name user_image (new_canvas w);
                    child_description = child_description_of name gender
                in case list_get page_colors 0 of
                     Inl e \<Rightarrow> (Inl e, w1)
                   | Inr bg_color \<Rightarrow>
                       (let w2 = intro_page2 bg_color name chosen_pronouns w1
                        in case py_iter story_data of
                             Inl e \<Rightarrow> (Inl e, w2)
                           | Inr items \<Rightarrow>
                               (case animal_pages2 env page_colors name child_description
                                       photo_description 0 items w2 of
                                  (Inl e, w3) \<Rightarrow> (Inl e, w3)
                                | (Inr u, w3) \<Rightarrow>
                                    (let w4 = end_page2 name chosen_pronouns w3
                                     in (Inr (save w4), w4)))))))"

definition run_main2 ::
  "env \<Rightarrow> string option \<Rightarrow> pdf_file option \<Rightarrow> string \<Rightarrow> string \<Rightarrow> string option \<Rightarrow> world
     \<Rightarrow> page list option \<times> world" where
  "run_main2 = pipeline create_stylish_storybook"

section \<open>The assembler of main3.py\<close>

definition TITLE_FONT :: string where "TITLE_FONT = ''Helvetica-Bold''"
definition SUBTITLE_FONT :: string where "SUBTITLE_FONT = ''Helvetica-BoldOblique''"
definition BODY_FONT :: string where "BODY_FONT = ''Helvetica''"
definition EMPHASIS_FONT :: string where "EMPHASIS_FONT = ''Helvetica-Oblique''"

definition TITLE_SIZE :: nat where "TITLE_SIZE = 28"
definition SUBTITLE_SIZE :: nat where "SUBTITLE_SIZE = 22"
definition BODY_SIZE :: nat where "BODY_SIZE = 18"
definition SMALL_SIZE :: nat where "SMALL_SIZE = 16"
definition TINY_SIZE :: nat where "TINY_SIZE = 14"

definition TITLE_COLOR :: rgb where "TITLE_COLOR = (0.1, 0.2, 0.6)"
definition SUBTITLE_COLOR :: rgb where "SUBTITLE_COLOR = (0.3, 0.3, 0.7)"
definition BODY_COLOR :: rgb where "BODY_COLOR = (0.2, 0.2, 0.4)"
definition EMPHASIS_COLOR :: rgb where "EMPHASIS_COLOR = (0.5, 0.1, 0.1)"
definition ACCENT_COLOR :: rgb where "ACCENT_COLOR = (0.7, 0.7, 0.9)"

text \<open>\<^verbatim>\<open>generate_ghibli_child_base\<close>: the reference picture of the child.\<close>

definition child_base_prompt :: "string \<Rightarrow> string option \<Rightarrow> string" where
  "child_base_prompt child_description photo_description =
     ''Studio Ghibli-style watercolor illustration showing a full-body portrait of ''
     @ child_description @ ''. ''
     @ ''The child should be standing in a gentle, neutral pose that can be easily combined with various animals. ''
     @ ''Soft colors, delicate features, dreamy atmosphere, with visible watercolor textures and brush strokes. ''
     @ ''Make sure the child has very consistent, recognizable features for use across multiple illustrations.''
     @ (if truthy photo_description
        then '' Child's distinctive features: '' @ the photo_description else [])"

definition generate_ghibli_child_base ::
  "env \<Rightarrow> string \<Rightarrow> string option \<Rightarrow> world \<Rightarrow> string option \<times> world" where
  "generate_ghibli_child_base env child_description photo_description w =
     (case post env (GenerateImage (child_base_prompt child_description photo_description)) w of
        (Inl m, w1) \<Rightarrow> (None, st_error_of ''Child base image generation failed: '' (Raised m) w1)
      | (Inr img_data, w1) \<Rightarrow> (img_data, w1))"

text \<open>
  \<^verbatim>\<open>generate_detailed_child_description\<close>. The request is recorded by the picture it
  carries. With a \<^verbatim>\<open>null\<close> answer and a photo description, \<^verbatim>\<open>+=\<close> on \<^verbatim>\<open>None\<close> raises
  inside the \<^verbatim>\<open>try\<close>.
\<close>

definition generate_detailed_child_description ::
  "env \<Rightarrow> string option \<Rightarrow> string \<Rightarrow> string option \<Rightarrow> world \<Rightarrow> string option \<times> world" where
  "generate_detailed_child_description env child_base_img_data name photo_description w =
     (if \<not> truthy child_base_img_data then (None, w)
      else
        (case post env (DescribeChild (the child_base_img_data)) w of
           (Inl m, w1) \<Rightarrow>
             (Some (''A child named '' @ name @ '' in Ghibli style with soft features and expressive eyes''),
              st_error_of ''Error generating detailed child description: '' (Raised m) w1)
         | (Inr detailed_description, w1) \<Rightarrow>
             if truthy photo_description then
               (case detailed_description of
                  None \<Rightarrow>
                    (Some (''A child named '' @ name @ '' in Ghibli style with soft features and expressive eyes''),
                     st_error_of ''Error generating detailed child description: '' TypeError w1)
                | Some d \<Rightarrow>
                    (Some (d @ ''\<newline>\<newline>Additional distinctive features from the reference photo: ''
                             @ the photo_description), w1))
             else (detailed_description, w1)))"

text \<open>\<^verbatim>\<open>generate_ghibli_scene\<close> of \<^verbatim>\<open>main3.py\<close> (its \<^verbatim>\<open>child_base_image\<close> argument is not read).\<close>

definition scene_prompt3 ::
  "env \<Rightarrow> string \<Rightarrow> json \<Rightarrow> string option \<Rightarrow> string option \<Rightarrow> error + string" where
  "scene_prompt3 env child_description animal_data photo_description detailed_child_desc =
     (let child_reference =
            (if truthy detailed_child_desc then
               ''IMPORTANT: The child must look EXACTLY like this description to maintain consistency across ''
               @ ''all illustrations: '' @ the detailed_child_desc @ ''. ''
               @ ''The child should be the SAME child in EVERY way as the previous illustrations. ''
             else [])
      in case py_getitem animal_data ''animal'' of
           Inl e \<Rightarrow> Inl e
         | Inr animal \<Rightarrow>
             (case py_getitem animal_data ''interaction'' of
                Inl e \<Rightarrow> Inl e
              | Inr interaction \<Rightarrow>
                  Inr (''Full-body Studio Ghibli-style watercolor illustration of '' @ child_description @ '' ''
                       @ ''interacting with a '' @ fmt env animal @ ''. '' @ fmt env interaction @ ''. ''
                       @ child_reference
                       @ ''Soft colors, delicate features, dreamy atmosphere, detailed background, ''
                       @ ''whimsical details. Beautiful watercolor textures with visible brush strokes. ''
                       @ ''Full-body characters in dynamic poses showing the interaction clearly.''
                       @ (if truthy photo_description \<and> \<not> truthy detailed_child_desc
                          then '' Child's distinctive features: '' @ the photo_description else []))))"

definition generate_ghibli_scene3 ::
  "env \<Rightarrow> string \<Rightarrow> json \<Rightarrow> string option \<Rightarrow> string option \<Rightarrow> world \<Rightarrow> string option \<times> world" where
  "generate_ghibli_scene3 env child_description animal_data photo_description detailed_child_desc w =
     (case scene_prompt3 env child_description animal_data photo_description detailed_child_desc of
        Inl e \<Rightarrow> (None, st_error_of ''Image generation failed: '' e w)
      | Inr full_prompt \<Rightarrow>
          (case post env (GenerateImage full_prompt) w of
             (Inl m, w1) \<Rightarrow> (None, st_error_of ''Image generation failed: '' (Raised m) w1)
           | (Inr img_data, w1) \<Rightarrow> (img_data, w1)))"

text \<open>
  Lines 349 to 377: the base picture and the description made from it. The result is
  \<^verbatim>\<open>detailed_child_desc\<close>. Opening the base picture for the preview is outside every
  \<^verbatim>\<open>try\<close>.
\<close>

definition base_image_setup ::
  "env \<Rightarrow> string \<Rightarrow> string \<Rightarrow> string option \<Rightarrow> world \<Rightarrow> (error + string option) \<times> world" where
  "base_image_setup env name child_description photo_description w =
     (case generate_ghibli_child_base env child_description photo_description w of
        (child_base_img_data, w1) \<Rightarrow>
          if truthy child_base_img_data then
            (case open_error env (the child_base_img_data) of
               Some m \<Rightarrow> (Inl (Raised m), w1)
             | None \<Rightarrow>
                 (case generate_detailed_child_description env child_base_img_data name
                         photo_description w1 of
                    (detailed_child_desc, w2) \<Rightarrow>
                      if truthy detailed_child_desc then (Inr detailed_child_desc, w2)
                      else
                        (Inr (Some (''A child named '' @ name
                                    @ '' with Ghibli-style features and expressive eyes'')),
                         st_warning ''Using simplified child description for consistency'' w2)))
          else (Inr None, st_warning ''Could not generate base child image'' w1))"

definition cover_page3 :: "env \<Rightarrow> string \<Rightarrow> image option \<Rightarrow> world \<Rightarrow> world" where
  "cover_page3 env name user_image w =
     (let title_text = name @ '''s Magical Ghibli Zoo Adventure'';
          w1 = draw ([SetFillColorRGB (1.0, 0.98, 0.9),
                      Rect 0 0 (fst letter) (snd letter) True True,
                      SetStrokeColorRGB (0.8, 0.7, 0.3),
                      SetLineWidth 5,
                      Rect 20 20 (fst letter - 40) (snd letter - 40) True False,
                      SetFillColorRGB (0.3, 0.3, 0.7),
                      SetFont TITLE_FONT TITLE_SIZE,
                      DrawCentredString 302 748 title_text,
                      SetFillColorRGB TITLE_COLOR,
                      DrawCentredString 300 750 title_text,
                      SetFillColorRGB (0.3, 0.3, 0.3),
                      SetFont SUBTITLE_FONT SUBTITLE_SIZE,
                      DrawCentredString 300 700 ''A whimsical Studio Ghibli-style adventure'',
                      SetFillColorRGB (0.9, 0.8, 0.3)]
                     @ map (\<lambda>i. Circle (100 + int i * 100) 650 10 True True) [0..<5]) w;
          w2 = cover_photo env user_image w1
      in showPage (draw [SetFillColorRGB (0.3, 0.3, 0.3),
                         SetFont EMPHASIS_FONT TINY_SIZE,
                         DrawCentredString 300 100 (''Created especially for '' @ name),
                         DrawCentredString 300 80 ''April 2025''] w2))"

definition intro_page3 :: "rgb \<Rightarrow> string \<Rightarrow> (string \<times> string) list \<Rightarrow> world \<Rightarrow> world" where
  "intro_page3 bg_color name chosen_pronouns w =
     showPage (draw [SetFillColorRGB bg_color,
                     Rect 0 0 (fst letter) (snd letter) True True,
                     SetStrokeColorRGB (0.5, 0.5, 0.8),
                     SetLineWidth 2,
                     Line 50 680 550 680,
                     Line 50 640 550 640,
                     SetFillColorRGB SUBTITLE_COLOR,
                     SetFont TITLE_FONT SUBTITLE_SIZE,
                     DrawCentredString 300 750 ''The Adventure Begins...'',
                     SetFillColorRGB BODY_COLOR,
                     SetFont BODY_FONT BODY_SIZE,
                     DrawCentredString 300 660 ''Once upon a time, in a house filled with dreams,'',
                     DrawCentredString 300 630 (name @ '' wrote a special letter to the zoo.''),
                     DrawCentredString 300 600
                       (capitalize (subject_of chosen_pronouns) @ '' asked them to send a perfect pet,''),
                     DrawCentredString 300 570 ''and so their magical journey began...'',
                     SetFillColorRGB ACCENT_COLOR,
                     Circle 100 500 30 True True,
                     Circle 500 500 30 True True,
                     SetFillColorRGB (0.8, 0.8, 0.9),
                     RoundRect 150 200 300 300 20 True True,
                     SetFillColorRGB SUBTITLE_COLOR,
                     SetFont TITLE_FONT SUBTITLE_SIZE,
                     DrawCentredString 300 350 ''The Zoo'',
                     SetFont BODY_FONT BODY_SIZE,
                     DrawCentredString 300 310 ''Where magical animals'',
                     DrawCentredString 300 280 ''were waiting to be discovered...''] w)"

definition animal_page3 ::
  "env \<Rightarrow> rgb list \<Rightarrow> string \<Rightarrow> string \<Rightarrow> string option \<Rightarrow> string option \<Rightarrow> nat \<Rightarrow> json \<Rightarrow> world
     \<Rightarrow> (error + unit) \<times> world" where
  "animal_page3 env page_colors name child_description photo_description detailed_child_desc i
     animal_data w =
     (case py_getitem animal_data ''animal'' of
        Inl e \<Rightarrow> (Inl e, w)
      | Inr animal \<Rightarrow>
          (case cycle_color page_colors i of
             Inl e \<Rightarrow> (Inl e, w)
           | Inr bg_color \<Rightarrow>
               (let w1 = draw [SetFillColorRGB bg_color,
                               Rect 0 0 (fst letter) (snd letter) True True,
                               SetFillColorRGB SUBTITLE_COLOR,
                               RoundRect 50 730 500 60 10 True True,
                               SetFillColorRGB (1, 1, 1),
                               SetFont TITLE_FONT SUBTITLE_SIZE] w
                in case py_title animal of
                     Inl e \<Rightarrow> (Inl e, w1)
                   | Inr heading \<Rightarrow>
                       (case generate_ghibli_scene3 env child_description animal_data photo_description
                               detailed_child_desc
                               (draw [DrawCentredString 300 760 (''The '' @ heading)] w1) of
                          (img_data, w2) \<Rightarrow>
                            (let w3 = draw [SetFillColorRGB BODY_COLOR,
                                            SetFont BODY_FONT BODY_SIZE,
                                            DrawString 90 700
                                              (''They sent '' @ name @ '' a '' @ fmt env animal @ ''...''),
                                            SetFillColorRGB EMPHASIS_COLOR,
                                            SetFont TITLE_FONT BODY_SIZE] w2
                             in case py_getitem animal_data ''description'' of
                                  Inl e \<Rightarrow> (Inl e, w3)
                                | Inr description \<Rightarrow>
                                    (let w4 = draw [DrawString 100 670
                                                      (''But it was '' @ fmt env description @ ''!''),
                                                    SetFillColorRGB BODY_COLOR,
                                                    SetFont EMPHASIS_FONT BODY_SIZE] w3
                                     in case py_getitem animal_data ''interaction'' of
                                          Inl e \<Rightarrow> (Inl e, w4)
                                        | Inr interaction \<Rightarrow>
                                            (case drawn_text env interaction of
                                               Inl e \<Rightarrow> (Inl e, w4)
                                             | Inr t \<Rightarrow>
                                                 (let w5 = draw [DrawString 90 640 t,
                                                                 SetStrokeColorRGB (0.5, 0.5, 0.7),
                                                                 SetLineWidth 2,
                                                                 Line 100 625 500 625] w4;
                                                      w6 = illustration2 env animal img_data w5
                                                  in (Inr (),
                                                      showPage
                                                        (draw [SetFillColorRGB SUBTITLE_COLOR,
                                                               Circle 550 50 20 True True,
                                                               SetFillColorRGB (1, 1, 1),
                                                               SetFont TITLE_FONT TINY_SIZE,
                                                               DrawCentredString 550 45 (show_nat (i + 1))]
                                                           w6))))))))))"

fun animal_pages3 ::
  "env \<Rightarrow> rgb list \<Rightarrow> string \<Rightarrow> string \<Rightarrow> string option \<Rightarrow> string option \<Rightarrow> nat \<Rightarrow> json list
     \<Rightarrow> world \<Rightarrow> (error + unit) \<times> world" where
  "animal_pages3 env page_colors name child_description photo_description detailed_child_desc i [] w =
     (Inr (), w)"
| "animal_pages3 env page_colors name child_description photo_description detailed_child_desc i
     (animal_data # rest) w =
     (case animal_page3 env page_colors name child_description photo_description detailed_child_desc i
             animal_data w of
        (Inl e, w1) \<Rightarrow> (Inl e, w1)
      | (Inr u, w1) \<Rightarrow>
          animal_pages3 env page_colors name child_description photo_description detailed_child_desc
            (Suc i) rest w1)"

definition end_page3 :: "string \<Rightarrow> (string \<times> string) list \<Rightarrow> world \<Rightarrow> world" where
  "end_page3 name chosen_pronouns w =
     showPage (draw ([SetFillColorRGB (0.95, 0.98, 1.0),
                      Rect 0 0 (fst letter) (snd letter) True True,
                      SetStrokeColorRGB (0.5, 0.6, 0.8),
                      SetLineWidth 4,
                      Rect 50 50 (fst letter - 100) (snd letter - 100) True False,
                      SetStrokeColorRGB (0.7, 0.8, 0.9),
                      SetLineWidth 2,
                      Rect 70 70 (fst letter - 140) (snd letter - 140) True False,
                      SetFillColorRGB (0.2, 0.3, 0.6),
                      SetFont TITLE_FONT 36,
                      DrawCentredString 302 698 ''The End'',
                      SetFillColorRGB TITLE_COLOR,
                      DrawCentredString 300 700 ''The End'',
                      SetFillColorRGB ACCENT_COLOR]
                     @ map (\<lambda>(x, y). Circle x y 8 True True) [(230, 700), (370, 700), (270, 650), (330, 650)]
                     @ [SetFillColorRGB BODY_COLOR,
                        SetFont EMPHASIS_FONT SUBTITLE_SIZE,
                        DrawCentredString 300 600 (''And finally, they sent '' @ name @ '' a...''),
                        SetFillColorRGB (0.2, 0.5, 0.3),
                        SetFont TITLE_FONT SUBTITLE_SIZE,
                        DrawCentredString 300 550 ''Perfect Pet!'',
                        SetFillColorRGB BODY_COLOR,
                        SetFont EMPHASIS_FONT BODY_SIZE,
                        DrawCentredString 300 500
                          (''It was just what '' @ subject_of chosen_pronouns @ '' wanted!''),
                        SetFillColorRGB ACCENT_COLOR]
                     @ map (\<lambda>i. Circle (150 + int i * 75) 200 15 True True) [0..<5]
                     @ [SetFillColorRGB BODY_COLOR,
                        SetFont BODY_FONT SMALL_SIZE,
                        DrawCentredString 300 120
                          (''Hope you enjoyed your magical Ghibli adventure, '' @ name @ ''!''),
                        SetFont EMPHASIS_FONT TINY_SIZE,
                        DrawCentredString 300 90 ''Every story has a happy ending...'']) w)"

text \<open>\<^verbatim>\<open>create_stylish_storybook\<close> of \<^verbatim>\<open>main3.py\<close>.\<close>

definition create_stylish_storybook3 ::
  "env \<Rightarrow> string \<Rightarrow> string \<Rightarrow> json \<Rightarrow> string option \<Rightarrow> image option \<Rightarrow> world
     \<Rightarrow> (error + page list) \<times> world" where
  "create_stylish_storybook3 env name gender story_data photo_description user_image w =
     (case dict_get pronouns gender of
        Inl e \<Rightarrow> (Inl e, w)
      | Inr chosen_pronouns \<Rightarrow>
          (case py_len story_data of
             Inl e \<Rightarrow> (Inl e, w)
           | Inr n \<Rightarrow>
               (let page_colors = shuffled env PASTEL_COLORS;
                    child_description = child_description_of name gender
                in case base_image_setup env name child_description photo_description (new_canvas w) of
                     (Inl e, w1) \<Rightarrow> (Inl e, w1)
                   | (Inr detailed_child_desc, w1) \<Rightarrow>
                       (let w2 = cover_page3 env name user_image w1
                        in case list_get page_colors 0 of
                             Inl e \<Rightarrow> (Inl e, w2)
                           | Inr bg_color \<Rightarrow>
                               (let w3 = intro_page3 bg_color name chosen_pronouns w2
                                in case py_iter story_data of
                                     Inl e \<Rightarrow> (Inl e, w3)
                                   | Inr items \<Rightarrow>
                                       (case animal_pages3 env page_colors name child_description
                                               photo_description detailed_child_desc 0 items w3 of
                                          (Inl e, w4) \<Rightarrow> (Inl e, w4)
                                        | (Inr u, w4) \<Rightarrow>
                                            (let w5 = end_page3 name chosen_pronouns w4
                                             in (Inr (save w5), w5))))))))"

section \<open>Notions used in the statements\<close>

text \<open>
  A well-formed interaction record is a dict whose \<^verbatim>\<open>animal\<close>, \<^verbatim>\<open>description\<close> and
  \<^verbatim>\<open>interaction\<close> are strings. \<open>text_at r k\<close> is the string at key \<open>k\<close>.
\<close>

fun text_at :: "json \<Rightarrow> string \<Rightarrow> string option" where
  "text_at (JObj kvs) k = (case map_of kvs k of Some (JStr s) \<Rightarrow> Some s | _ \<Rightarrow> None)"
| "text_at v k = None"

definition well_formed :: "json \<Rightarrow> bool" where
  "well_formed r = (text_at r ''animal'' \<noteq> None \<and> text_at r ''description'' \<noteq> None
                    \<and> text_at r ''interaction'' \<noteq> None)"

text \<open>The texts joined by a newline, as the specification words the extractor's output.\<close>

fun join_newline :: "string list \<Rightarrow> string" where
  "join_newline [] = []"
| "join_newline [t] = t"
| "join_newline (t # u # ts) = t @ ''\<newline>'' @ join_newline (u # ts)"

text \<open>A list with at least one element: what the fallback scan accepts.\<close>

fun nonempty_list :: "json \<Rightarrow> bool" where
  "nonempty_list (JArr (x # xs)) = True"
| "nonempty_list v = False"

text \<open>
  A PDF that gives the extractor no text: it cannot be opened, one of its pages raises,
  or it has no page.
\<close>

fun no_text :: "pdf_file \<Rightarrow> bool" where
  "no_text (Unreadable m) = True"
| "no_text (Readable ps) = (ps = [] \<or> list_ex isl ps)"

text \<open>
  What an illustration request gave the assembler: the payload, or \<^verbatim>\<open>None\<close> when the
  call raised. The request failed when that is \<^verbatim>\<open>None\<close> or empty.
\<close>

fun payload :: "string + string option \<Rightarrow> string option" where
  "payload (Inl m) = None"
| "payload (Inr c) = c"

definition request_failed :: "string + string option \<Rightarrow> bool" where
  "request_failed reply = (\<not> truthy (payload reply))"

text \<open>The prompt sent for a record (empty when the record has no prompt).\<close>

definition prompt_of :: "env \<Rightarrow> string \<Rightarrow> json \<Rightarrow> string option \<Rightarrow> string" where
  "prompt_of env child_description r photo_description =
     (case scene_prompt env child_description r photo_description of Inr p \<Rightarrow> p | Inl e \<Rightarrow> [])"

definition prompt_of3 :: "env \<Rightarrow> string \<Rightarrow> json \<Rightarrow> string option \<Rightarrow> string option \<Rightarrow> string" where
  "prompt_of3 env child_description r photo_description detailed_child_desc =
     (case scene_prompt3 env child_description r photo_description detailed_child_desc of
        Inr p \<Rightarrow> p | Inl e \<Rightarrow> [])"

fun is_image :: "drawop \<Rightarrow> bool" where
  "is_image (DrawImage img x y wd ht) = True"
| "is_image other = False"

text \<open>The background of a page: the fill colour of the page-sized rectangle it starts with.\<close>

fun page_background :: "page \<Rightarrow> rgb option" where
  "page_background (SetFillColorRGB c # Rect x y wd ht st fl # ops) =
     (if x = 0 \<and> y = 0 \<and> (wd, ht) = letter \<and> fl then Some c else None)"
| "page_background ops = None"

definition pronoun_sets :: "string set" where
  "pronoun_sets = {''she/her'', ''he/him'', ''they/them''}"

subsection \<open>The page of a well-formed record\<close>

text \<open>
  What the loop draws for a well-formed record \<open>r\<close>, given what the illustration request
  returned (\<open>img_data\<close>): in \<^verbatim>\<open>main.py\<close>, and in \<^verbatim>\<open>main2.py\<close> on the background \<open>bg_color\<close>
  as page number \<open>i + 1\<close>. The lemmas \<open>animal_pages_wf\<close> and \<open>animal_pages2_wf\<close> below
  prove that the loops draw exactly these pages.
\<close>

definition picture_main :: "env \<Rightarrow> string option \<Rightarrow> page" where
  "picture_main env img_data =
     (if truthy img_data \<and> open_error env (the img_data) = None
      then [DrawImage (the img_data) 100 250 400 400]
      else [DrawString 300 400 unavailable])"

definition page_main :: "env \<Rightarrow> string \<Rightarrow> json \<Rightarrow> string option \<Rightarrow> page" where
  "page_main env name r img_data =
     [SetFont ''Helvetica'' 18,
      DrawString 100 750 (''They sent '' @ name @ '' a '' @ the (text_at r ''animal'') @ ''...''),
      DrawString 100 720 (''but it was '' @ the (text_at r ''description'') @ ''!''),
      DrawString 100 690 (the (text_at r ''interaction''))]
     @ picture_main env img_data"

definition picture2 :: "env \<Rightarrow> string option \<Rightarrow> page" where
  "picture2 env img_data =
     (if truthy img_data \<and> open_error env (the img_data) = None
      then [SetFillColorRGB (1, 1, 1),
            RoundRect 75 150 450 450 10 True True,
            DrawImage (the img_data) 100 175 400 400,
            SetStrokeColorRGB (0.5, 0.5, 0.7),
            SetLineWidth 3,
            RoundRect 75 150 450 450 10 True False]
      else [DrawString 300 400 unavailable])"

definition page2 :: "env \<Rightarrow> rgb \<Rightarrow> string \<Rightarrow> nat \<Rightarrow> json \<Rightarrow> string option \<Rightarrow> page" where
  "page2 env bg_color name i r img_data =
     [SetFillColorRGB bg_color,
      Rect 0 0 (fst letter) (snd letter) True True,
      SetFillColorRGB (0.3, 0.3, 0.7),
      RoundRect 50 730 500 60 10 True True,
      SetFillColorRGB (1, 1, 1),
      SetFont ''Helvetica-Bold'' 22,
      DrawCentredString 300 760 (''The '' @ title (the (text_at r ''animal''))),
      SetFillColorRGB (0.2, 0.2, 0.4),
      SetFont ''Helvetica-BoldOblique'' 18,
      DrawString 90 700 (''They sent '' @ name @ '' a '' @ the (text_at r ''animal'') @ ''...''),
      SetFillColorRGB (0.5, 0.1, 0.1),
      SetFont ''Helvetica-Bold'' 18,
      DrawString 100 670 (''But it was '' @ the (text_at r ''description'') @ ''!''),
      SetFillColorRGB (0.2, 0.3, 0.2),
      SetFont ''Helvetica-Oblique'' 18,
      DrawString 90 640 (the (text_at r ''interaction'')),
      SetStrokeColorRGB (0.5, 0.5, 0.7),
      SetLineWidth 2,
      Line 100 625 500 625]
     @ picture2 env img_data
     @ [SetFillColorRGB (0.3, 0.3, 0.6),
        Circle 550 50 20 True True,
        SetFillColorRGB (1, 1, 1),
        SetFont ''Helvetica-Bold'' 14,
        DrawCentredString 550 45 (show_nat (i + 1))]"

section \<open>Sample inputs\<close>

definition record_of :: "string \<Rightarrow> string \<Rightarrow> string \<Rightarrow> json" where
  "record_of a d i = JObj [(''animal'', JStr a), (''description'', JStr d), (''interaction'', JStr i)]"

definition sample_story :: "json list" where
  "sample_story =
     [record_of ''elephant'' ''too big'' ''The child measured the elephant with a tape measure'',
      record_of ''giraffe'' ''too tall'' ''The child looked up at the giraffe with wonder'',
      record_of ''lion'' ''too fierce'' ''The child hid behind the crate'',
      record_of ''camel'' ''too grumpy'' ''The child offered the camel a carrot'',
      record_of ''snake'' ''too scary'' ''The child closed the basket'']"

definition sample_pdf :: pdf_file where
  "sample_pdf = Readable [Inr ''Aanya wrote to the zoo.'', Inr ''They sent an elephant.'']"

text \<open>A PDF of two blank pages: each page opens and its text is empty.\<close>

definition blank_pdf :: pdf_file where
  "blank_pdf = Readable [Inr [], Inr []]"

text \<open>
  An environment with the HTTP replies \<open>h\<close> in which the analyzer's text parses to \<open>j\<close>,
  every picture opens, and the palette is left in its order.
\<close>

definition env_of :: "(nat \<Rightarrow> request \<Rightarrow> string + string option) \<Rightarrow> json \<Rightarrow> env" where
  "env_of h j = \<lparr>http = h, json_loads = (\<lambda>s. Inr j), open_error = (\<lambda>d. None),
                 jpeg_error = (\<lambda>d. None), shuffled = (\<lambda>xs. xs), py_str = (\<lambda>v. []),
                 draw_arg = (\<lambda>v. Inl ''not a string'')\<rparr>"

definition all_succeed :: "nat \<Rightarrow> request \<Rightarrow> string + string option" where
  "all_succeed k r = Inr (Some ''payload'')"

fun photo_fails :: "nat \<Rightarrow> request \<Rightarrow> string + string option" where
  "photo_fails k (DescribePhoto b) = Inl ''503 Server Error''"
| "photo_fails k r = Inr (Some ''payload'')"

fun images_fail :: "nat \<Rightarrow> request \<Rightarrow> string + string option" where
  "images_fail k (GenerateImage p) = Inl ''504 Gateway Timeout''"
| "images_fail k r = Inr (Some ''payload'')"

fun description_fails :: "nat \<Rightarrow> request \<Rightarrow> string + string option" where
  "description_fails k (DescribeChild b) = Inl ''500 Internal Server Error''"
| "description_fails k r = Inr (Some ''payload'')"

text \<open>The description request answers, but with no text.\<close>

fun description_empty :: "nat \<Rightarrow> request \<Rightarrow> string + string option" where
  "description_empty k (DescribeChild b) = Inr None"
| "description_empty k r = Inr (Some ''payload'')"

definition empty_interactions :: "(string \<times> json) list" where
  "empty_interactions = [(''interactions'', JArr [])]"

section \<open>The extractor's output\<close>

lemma extract_pages_acc:
  "extract_pages (map Inr ts) acc = Inr (acc @ concat (map (\<lambda>t. t @ ''\<newline>'') ts))"
  by (induction ts arbitrary: acc) simp_all

lemma concat_join_newline:
  "ts \<noteq> [] \<Longrightarrow> concat (map (\<lambda>t. t @ ''\<newline>'') ts) = join_newline ts @ ''\<newline>''"
  by (induction ts rule: join_newline.induct) simp_all

text \<open>
  Claim C6, as stated, fails: for a PDF of one page with the text \<open>a\<close> the extractor
  returns \<open>a\<close> followed by a newline, not the joined text \<open>a\<close>.
\<close>

theorem extract_text_not_joined:
  "fst (extract_text_from_pdf (Readable [Inr ''a'']) world0) = Some ''a\<newline>''
   \<and> fst (extract_text_from_pdf (Readable [Inr ''a'']) world0) \<noteq> Some (join_newline [''a''])"
  by (simp add: extract_text_from_pdf_def)

text \<open>
  Claim C6, amended: for a PDF that opens and whose pages all give their text, the
  extractor returns every page's text followed by a newline, in document order, shows
  nothing and sends nothing; with at least one page that is the texts joined by a
  newline plus one trailing newline.
\<close>

theorem extract_text_newline_after_each_page:
  "extract_text_from_pdf (Readable (map Inr ts)) w
     = (Some (concat (map (\<lambda>t. t @ ''\<newline>'') ts)), w)
   \<and> concat (map (\<lambda>t. t @ ''\<newline>'') ts)
     = (if ts = [] then [] else join_newline ts @ ''\<newline>'')"
  by (simp add: extract_text_from_pdf_def extract_pages_acc concat_join_newline)

theorem extract_text_newline_after_each_page_witness:
  "fst (extract_text_from_pdf (Readable (map Inr [''one'', ''two''])) world0)
     = Some ''one\<newline>two\<newline>''"
  using extract_text_newline_after_each_page [of "[''one'', ''two'']" world0] by simp

section \<open>The state, field by field\<close>

lemma draw_fields:
  "done_pages (draw ops w) = done_pages w"
  "cur_page (draw ops w) = cur_page w @ ops"
  "sent (draw ops w) = sent w"
  "shown (draw ops w) = shown w"
  by (simp_all add: draw_def)

lemma showPage_fields:
  "done_pages (showPage w) = done_pages w @ [cur_page w]"
  "cur_page (showPage w) = []"
  "sent (showPage w) = sent w"
  "shown (showPage w) = shown w"
  by (simp_all add: showPage_def)

lemma new_canvas_fields:
  "done_pages (new_canvas w) = []"
  "cur_page (new_canvas w) = []"
  "sent (new_canvas w) = sent w"
  "shown (new_canvas w) = shown w"
  by (simp_all add: new_canvas_def)

lemma st_error_of_fields:
  "done_pages (st_error_of m e w) = done_pages w"
  "cur_page (st_error_of m e w) = cur_page w"
  "sent (st_error_of m e w) = sent w"
  "shown (st_error_of m e w) = shown w @ [StErrorOf m e]"
  by (simp_all add: st_error_of_def)

lemma st_exception_fields:
  "done_pages (st_exception e w) = done_pages w"
  "cur_page (st_exception e w) = cur_page w"
  "sent (st_exception e w) = sent w"
  "shown (st_exception e w) = shown w @ [StException e]"
  by (simp_all add: st_exception_def)

lemma st_error_fields:
  "done_pages (st_error m w) = done_pages w"
  "cur_page (st_error m w) = cur_page w"
  "sent (st_error m w) = sent w"
  "shown (st_error m w) = shown w @ [StError m]"
  by (simp_all add: st_error_def)

lemma st_warning_fields:
  "done_pages (st_warning m w) = done_pages w"
  "cur_page (st_warning m w) = cur_page w"
  "sent (st_warning m w) = sent w"
  "shown (st_warning m w) = shown w @ [StWarning m]"
  by (simp_all add: st_warning_def)

lemmas world_fields =
  draw_fields showPage_fields new_canvas_fields st_error_of_fields st_exception_fields
  st_error_fields st_warning_fields

lemma post_fields:
  "fst (post env r w) = http env (length (sent w)) r"
  "done_pages (snd (post env r w)) = done_pages w"
  "cur_page (snd (post env r w)) = cur_page w"
  "sent (snd (post env r w)) = sent w @ [r]"
  "shown (snd (post env r w)) = shown w"
  by (simp_all add: post_def)

lemma env_of_fields:
  "http (env_of h j) = h"
  "json_loads (env_of h j) s = Inr j"
  "open_error (env_of h j) d = None"
  "jpeg_error (env_of h j) d = None"
  "shuffled (env_of h j) xs = xs"
  by (simp_all add: env_of_def)

lemma world0_fields:
  "done_pages world0 = []"
  "cur_page world0 = []"
  "sent world0 = []"
  "shown world0 = []"
  by (simp_all add: world0_def)

section \<open>The pipeline\<close>

lemma first_list_find:
  "first_list kvs = map_option snd (List.find (\<lambda>kv. nonempty_list (snd kv)) kvs)"
  by (induction kvs rule: first_list.induct) simp_all

lemma select_story_data_find:
  "select_story_data parsed_data =
     (case map_of parsed_data ''interactions'' of
        Some v \<Rightarrow> Inr v
      | None \<Rightarrow>
          (case List.find (\<lambda>kv. nonempty_list (snd kv)) parsed_data of
             Some kv \<Rightarrow> Inr (snd kv)
           | None \<Rightarrow> Inl (ValueError ''Could not find animal interaction data in the API response'')))"
  by (simp add: select_story_data_def first_list_find split: option.splits)

lemma extract_text_keeps:
  "sent (snd (extract_text_from_pdf pdf w)) = sent w"
  "done_pages (snd (extract_text_from_pdf pdf w)) = done_pages w"
  "cur_page (snd (extract_text_from_pdf pdf w)) = cur_page w"
  by (simp_all add: extract_text_from_pdf_def world_fields split: pdf_file.splits sum.splits)

lemma cover_page_pages:
  "\<exists>p. done_pages (cover_page env name user_image w) = done_pages w @ [p]"
  "cur_page (cover_page env name user_image w) = []"
  "sent (cover_page env name user_image w) = sent w"
  by (simp_all add: cover_page_def Let_def world_fields split: option.splits)

lemma intro_page_pages:
  "\<exists>p. done_pages (intro_page name w) = done_pages w @ [p]"
  "cur_page (intro_page name w) = []"
  "sent (intro_page name w) = sent w"
  by (simp_all add: intro_page_def world_fields)

lemma end_page_pages:
  "\<exists>p. done_pages (end_page name w) = done_pages w @ [p]"
  "cur_page (end_page name w) = []"
  "sent (end_page name w) = sent w"
  by (simp_all add: end_page_def world_fields)

lemma create_storybook_no_records:
  "\<exists>doc w'. create_storybook env name gender (JArr []) pd user_image w = (Inr doc, w') \<and> length doc = 3"
proof -
  obtain p1 where p1: "done_pages (cover_page env name user_image (new_canvas w)) = [p1]"
    using cover_page_pages(1)[of env name user_image "new_canvas w"] by (auto simp: world_fields)
  obtain p2 where p2: "done_pages (intro_page name (cover_page env name user_image (new_canvas w))) = [p1, p2]"
    using intro_page_pages(1)[of name "cover_page env name user_image (new_canvas w)"] p1 by auto
  obtain p3 where p3: "done_pages (end_page name (intro_page name (cover_page env name user_image (new_canvas w))))
                       = [p1, p2, p3]"
    using end_page_pages(1)[of name "intro_page name (cover_page env name user_image (new_canvas w))"] p2
    by auto
  show ?thesis
    by (simp add: create_storybook_def Let_def save_def p3)
qed

lemma extract_pages_raises:
  "list_ex isl ps \<Longrightarrow> \<exists>m. extract_pages ps acc = Inl m"
proof (induction ps arbitrary: acc)
  case Nil
  then show ?case by simp
next
  case (Cons p ps)
  then show ?case by (cases p) simp_all
qed

lemma extract_pages_returns:
  "\<not> list_ex isl ps \<Longrightarrow> \<exists>t. extract_pages ps acc = Inr (acc @ t) \<and> (ps \<noteq> [] \<longrightarrow> t \<noteq> [])"
proof (induction ps arbitrary: acc)
  case Nil
  then show ?case by simp
next
  case (Cons p ps)
  show ?case
  proof (cases p)
    case (Inl m)
    with Cons.prems show ?thesis by simp
  next
    case (Inr s)
    from Cons.prems have "\<not> list_ex isl ps" by simp
    from Cons.IH[OF this, of "acc @ s @ ''\<newline>''"]
    obtain t where "extract_pages ps (acc @ s @ ''\<newline>'') = Inr ((acc @ s @ ''\<newline>'') @ t)"
      by blast
    with Inr have "extract_pages (p # ps) acc = Inr (acc @ (s @ ''\<newline>'' @ t))" by simp
    then show ?thesis by blast
  qed
qed

lemma no_text_iff:
  "(\<not> truthy (fst (extract_text_from_pdf pdf w))) = no_text pdf"
proof (cases pdf)
  case (Unreadable m)
  then show ?thesis by (simp add: extract_text_from_pdf_def)
next
  case (Readable ps)
  show ?thesis
  proof (cases "list_ex isl ps")
    case True
    from extract_pages_raises[OF this, of "[]"] obtain m where "extract_pages ps [] = Inl m" by blast
    with Readable True show ?thesis by (simp add: extract_text_from_pdf_def)
  next
    case False
    from extract_pages_returns[OF this, of "[]"] obtain t where
      "extract_pages ps [] = Inr t" "ps \<noteq> [] \<longrightarrow> t \<noteq> []"
      by auto
    moreover have "extract_pages [] [] = Inr []" by simp
    ultimately show ?thesis using Readable False
      by (cases "ps = []") (simp_all add: extract_text_from_pdf_def)
  qed
qed

lemma falsy_text_ends_the_run:
  assumes "\<not> truthy (fst (extract_text_from_pdf pdf w))"
  shows "fst (pipeline assemble env api_key (Some pdf) name gender photo w) = None
       \<and> sent (snd (pipeline assemble env api_key (Some pdf) name gender photo w)) = sent w
       \<and> done_pages (snd (pipeline assemble env api_key (Some pdf) name gender photo w)) = done_pages w
       \<and> (if truthy api_key
          then shown (snd (pipeline assemble env api_key (Some pdf) name gender photo w))
               = shown (snd (extract_text_from_pdf pdf w))
                 @ [StErrorOf ''Error creating storybook: '' (ValueError ''Couldn't extract text from PDF''),
                    StException (ValueError ''Couldn't extract text from PDF'')]
          else shown (snd (pipeline assemble env api_key (Some pdf) name gender photo w))
               = shown w @ [StError ''Missing OpenAI API key''])"
proof -
  obtain t w1 where e: "extract_text_from_pdf pdf w = (t, w1)"
    by (cases "extract_text_from_pdf pdf w")
  with assms have t: "\<not> truthy t" by simp
  have k: "sent w1 = sent w" "done_pages w1 = done_pages w"
    using extract_text_keeps(1,2)[of pdf w] e by simp_all
  show ?thesis
    by (simp add: pipeline_def pipeline_body_def analysis_steps_def e t k world_fields)
qed

lemma create_storybook_no_records_sent:
  "sent (snd (create_storybook env name gender (JArr []) pd user_image w)) = sent w"
  by (simp add: create_storybook_def Let_def cover_page_pages intro_page_pages end_page_pages
      world_fields)

text \<open>
  Claim C5, as stated, fails for a PDF that yields no extracted text because its pages
  are blank: the extractor returns one newline per page, which is not empty, so the
  guard lets it pass; the analyzer is called with that text and, with the reply
  \<^verbatim>\<open>{"interactions": []}\<close>, a document is offered.
\<close>

theorem blank_pages_reach_the_analyzer:
  "fst (extract_text_from_pdf blank_pdf world0) = Some ''\<newline>\<newline>''
   \<and> sent (snd (run_main (env_of all_succeed (JObj empty_interactions)) (Some ''sk-test'') (Some blank_pdf)
              ''Aanya'' ''she/her'' None world0)) = [AnalyzeStory ''\<newline>\<newline>'']
   \<and> (\<exists>doc. fst (run_main (env_of all_succeed (JObj empty_interactions)) (Some ''sk-test'') (Some blank_pdf)
              ''Aanya'' ''she/her'' None world0) = Some doc \<and> length doc = 3)"
proof -
  let ?env = "env_of all_succeed (JObj empty_interactions)"
  let ?w = "world0\<lparr>sent := [AnalyzeStory ''\<newline>\<newline>'']\<rparr>"
  obtain doc w' where d:
    "create_storybook ?env ''Aanya'' ''she/her'' (JArr []) None None ?w = (Inr doc, w')" "length doc = 3"
    using create_storybook_no_records by blast
  have "sent w' = sent ?w"
    using create_storybook_no_records_sent[of ?env "''Aanya''" "''she/her''" None None ?w] d(1) by simp
  then have w': "sent w' = [AnalyzeStory ''\<newline>\<newline>'']" by simp
  have s: "select_story_data empty_interactions = Inr (JArr [])"
    by (simp add: select_story_data_def empty_interactions_def)
  have "run_main ?env (Some ''sk-test'') (Some blank_pdf) ''Aanya'' ''she/her'' None world0 = (Some doc, w')"
    by (simp add: run_main_def pipeline_def pipeline_body_def analysis_steps_def
        extract_text_from_pdf_def blank_pdf_def analyze_story_def post_def env_of_fields all_succeed_def
        read_story_data_def s process_photo_def d(1) world0_fields)
  with d(2) w' show ?thesis by (simp add: extract_text_from_pdf_def blank_pdf_def)
qed

text \<open>
  Claim C5, amended: the extractor's result is \<^verbatim>\<open>None\<close> or the empty string exactly when
  the PDF cannot be opened, one of its pages raises, or it has no page (\<open>no_text\<close>). For
  such a PDF the run offers no document, sends no request (the analyzer is not called,
  nor anything after it) and draws nothing; with an API key set, what it shows ends with
  the error \<^verbatim>\<open>Couldn't extract text from PDF\<close>. This holds for every assembler the
  handler calls.
\<close>

theorem no_pages_read_no_downstream_calls:
  "(\<not> truthy (fst (extract_text_from_pdf pdf w))) = no_text pdf
   \<and> (no_text pdf \<longrightarrow>
        fst (pipeline assemble env api_key (Some pdf) name gender photo w) = None
        \<and> sent (snd (pipeline assemble env api_key (Some pdf) name gender photo w)) = sent w
        \<and> done_pages (snd (pipeline assemble env api_key (Some pdf) name gender photo w)) = done_pages w
        \<and> (if truthy api_key
           then shown (snd (pipeline assemble env api_key (Some pdf) name gender photo w))
                = shown (snd (extract_text_from_pdf pdf w))
                  @ [StErrorOf ''Error creating storybook: '' (ValueError ''Couldn't extract text from PDF''),
                     StException (ValueError ''Couldn't extract text from PDF'')]
           else shown (snd (pipeline assemble env api_key (Some pdf) name gender photo w))
                = shown w @ [StError ''Missing OpenAI API key'']))"
proof (rule conjI)
  show "(\<not> truthy (fst (extract_text_from_pdf pdf w))) = no_text pdf"
    by (rule no_text_iff)
next
  show "no_text pdf \<longrightarrow>
        fst (pipeline assemble env api_key (Some pdf) name gender photo w) = None
        \<and> sent (snd (pipeline assemble env api_key (Some pdf) name gender photo w)) = sent w
        \<and> done_pages (snd (pipeline assemble env api_key (Some pdf) name gender photo w)) = done_pages w
        \<and> (if truthy api_key
           then shown (snd (pipeline assemble env api_key (Some pdf) name gender photo w))
                = shown (snd (extract_text_from_pdf pdf w))
                  @ [StErrorOf ''Error creating storybook: '' (ValueError ''Couldn't extract text from PDF''),
                     StException (ValueError ''Couldn't extract text from PDF'')]
           else shown (snd (pipeline assemble env api_key (Some pdf) name gender photo w))
                = shown w @ [StError ''Missing OpenAI API key''])"
  proof (rule impI)
    assume "no_text pdf"
    then have "\<not> truthy (fst (extract_text_from_pdf pdf w))"
      by (simp only: no_text_iff)
    then show "fst (pipeline assemble env api_key (Some pdf) name gender photo w) = None
        \<and> sent (snd (pipeline assemble env api_key (Some pdf) name gender photo w)) = sent w
        \<and> done_pages (snd (pipeline assemble env api_key (Some pdf) name gender photo w)) = done_pages w
        \<and> (if truthy api_key
           then shown (snd (pipeline assemble env api_key (Some pdf) name gender photo w))
                = shown (snd (extract_text_from_pdf pdf w))
                  @ [StErrorOf ''Error creating storybook: '' (ValueError ''Couldn't extract text from PDF''),
                     StException (ValueError ''Couldn't extract text from PDF'')]
           else shown (snd (pipeline assemble env api_key (Some pdf) name gender photo w))
                = shown w @ [StError ''Missing OpenAI API key''])"
      by (rule falsy_text_ends_the_run)
  qed
qed

theorem no_pages_read_no_downstream_calls_witness:
  "no_text (Unreadable ''EOF marker not found'')
   \<and> fst (run_main (env_of all_succeed (JObj empty_interactions)) (Some ''sk-test'')
          (Some (Unreadable ''EOF marker not found'')) ''Aanya'' ''she/her'' None world0) = None
   \<and> sent (snd (run_main (env_of all_succeed (JObj empty_interactions)) (Some ''sk-test'')
          (Some (Unreadable ''EOF marker not found'')) ''Aanya'' ''she/her'' None world0)) = []
   \<and> no_text (Readable [])
   \<and> fst (run_main (env_of all_succeed (JObj empty_interactions)) (Some ''sk-test'')
          (Some (Readable [])) ''Aanya'' ''she/her'' None world0) = None
   \<and> sent (snd (run_main (env_of all_succeed (JObj empty_interactions)) (Some ''sk-test'')
          (Some (Readable [])) ''Aanya'' ''she/her'' None world0)) = []
   \<and> no_text (Readable [Inr ''Aanya wrote to the zoo.'', Inl ''page 2 has no content stream''])
   \<and> fst (run_main (env_of all_succeed (JObj empty_interactions)) (Some ''sk-test'')
          (Some (Readable [Inr ''Aanya wrote to the zoo.'', Inl ''page 2 has no content stream'']))
          ''Aanya'' ''she/her'' None world0) = None
   \<and> sent (snd (run_main (env_of all_succeed (JObj empty_interactions)) (Some ''sk-test'')
          (Some (Readable [Inr ''Aanya wrote to the zoo.'', Inl ''page 2 has no content stream'']))
          ''Aanya'' ''she/her'' None world0)) = []
   \<and> \<not> no_text blank_pdf
   \<and> truthy (fst (extract_text_from_pdf blank_pdf world0))"
proof -
  have s: "sent world0 = []" by (simp add: world0_def)
  show ?thesis
    using no_pages_read_no_downstream_calls
            [of "Unreadable ''EOF marker not found''" world0 create_storybook
                "env_of all_succeed (JObj empty_interactions)" "Some ''sk-test''" "''Aanya''"
                "''she/her''" None]
      no_pages_read_no_downstream_calls
            [of "Readable []" world0 create_storybook
                "env_of all_succeed (JObj empty_interactions)" "Some ''sk-test''" "''Aanya''"
                "''she/her''" None]
      no_pages_read_no_downstream_calls
            [of "Readable [Inr ''Aanya wrote to the zoo.'', Inl ''page 2 has no content stream'']" world0
                create_storybook
                "env_of all_succeed (JObj empty_interactions)" "Some ''sk-test''" "''Aanya''"
                "''she/her''" None]
      no_pages_read_no_downstream_calls
            [of blank_pdf world0 create_storybook
                "env_of all_succeed (JObj empty_interactions)" "Some ''sk-test''" "''Aanya''"
                "''she/her''" None]
      s
    by (simp add: run_main_def blank_pdf_def)
qed

text \<open>
  Claim C2, as stated, fails: with the reply \<^verbatim>\<open>{"interactions": []}\<close> no top-level value
  is a non-empty list, and the run of \<^verbatim>\<open>main.py\<close> ends with a document (cover, intro
  and end page).
\<close>

theorem empty_interactions_still_a_document:
  "map_of empty_interactions ''interactions'' = Some (JArr [])
   \<and> list_all (\<lambda>kv. \<not> nonempty_list (snd kv)) empty_interactions
   \<and> (\<exists>doc. fst (run_main (env_of all_succeed (JObj empty_interactions)) (Some ''sk-test'') (Some sample_pdf)
              ''Aanya'' ''she/her'' None world0) = Some doc \<and> length doc = 3)"
proof -
  obtain doc w' where d:
    "create_storybook (env_of all_succeed (JObj empty_interactions)) ''Aanya'' ''she/her'' (JArr []) None None
       (world0\<lparr>sent := [AnalyzeStory ''Aanya wrote to the zoo.\<newline>They sent an elephant.\<newline>'']\<rparr>)
     = (Inr doc, w')" "length doc = 3"
    using create_storybook_no_records by blast
  have s: "select_story_data empty_interactions = Inr (JArr [])"
    by (simp add: select_story_data_def empty_interactions_def)
  have "run_main (env_of all_succeed (JObj empty_interactions)) (Some ''sk-test'') (Some sample_pdf)
              ''Aanya'' ''she/her'' None world0 = (Some doc, w')"
    by (simp add: run_main_def pipeline_def pipeline_body_def analysis_steps_def
        extract_text_from_pdf_def sample_pdf_def analyze_story_def post_def env_of_fields all_succeed_def
        read_story_data_def s process_photo_def d(1) world0_fields)
  with d(2) show ?thesis by (simp add: empty_interactions_def)
qed

text \<open>
  Claim C2, amended: the value at the key \<^verbatim>\<open>interactions\<close> is used when the key is
  present, whatever the value is; otherwise the first value in object order that is a
  non-empty list; and when the key is absent and no value is a non-empty list, the run
  ends with the error \<^verbatim>\<open>Could not find animal interaction data in the API response\<close>,
  offers no document and has sent the analyzer's request only.
\<close>

theorem selection_of_story_data:
  assumes "truthy api_key"
    and "extract_text_from_pdf pdf w = (Some story_text, w1)" and "story_text \<noteq> []"
    and "http env (length (sent w1)) (AnalyzeStory story_text) = Inr (Some analysis_result)"
    and "analysis_result \<noteq> []"
    and "json_loads env analysis_result = Inr (JObj parsed_data)"
  shows "select_story_data parsed_data =
           (case map_of parsed_data ''interactions'' of
              Some v \<Rightarrow> Inr v
            | None \<Rightarrow>
                (case List.find (\<lambda>kv. nonempty_list (snd kv)) parsed_data of
                   Some kv \<Rightarrow> Inr (snd kv)
                 | None \<Rightarrow> Inl (ValueError ''Could not find animal interaction data in the API response'')))
       \<and> (map_of parsed_data ''interactions'' = None
            \<and> list_all (\<lambda>kv. \<not> nonempty_list (snd kv)) parsed_data
          \<longrightarrow> pipeline assemble env api_key (Some pdf) name gender photo w
               = (None,
                  st_exception (ValueError ''Could not find animal interaction data in the API response'')
                    (st_error_of ''Error creating storybook: ''
                       (ValueError ''Could not find animal interaction data in the API response'')
                       (w1\<lparr>sent := sent w1 @ [AnalyzeStory story_text]\<rparr>))))"
proof -
  have nf: "List.find (\<lambda>kv. nonempty_list (snd kv)) parsed_data = None"
    if "list_all (\<lambda>kv. \<not> nonempty_list (snd kv)) parsed_data"
    using that by (auto simp add: find_None_iff list_all_iff)
  show ?thesis
    using assms
    by (auto simp add: select_story_data_find nf pipeline_def pipeline_body_def analysis_steps_def
        analyze_story_def post_def read_story_data_def)
qed

theorem selection_of_story_data_witness:
  "select_story_data [(''title'', JStr ''Zoo''), (''none'', JArr []), (''animals'', JArr sample_story),
                      (''more'', JArr [JNull])] = Inr (JArr sample_story)
   \<and> select_story_data [(''animals'', JArr sample_story), (''interactions'', JArr [JNull])] = Inr (JArr [JNull])
   \<and> fst (run_main (env_of all_succeed (JObj [(''title'', JStr ''Zoo''), (''none'', JArr [])]))
            (Some ''sk-test'') (Some sample_pdf) ''Aanya'' ''she/her'' None world0) = None
   \<and> sent (snd (run_main (env_of all_succeed (JObj [(''title'', JStr ''Zoo''), (''none'', JArr [])]))
            (Some ''sk-test'') (Some sample_pdf) ''Aanya'' ''she/her'' None world0))
     = [AnalyzeStory ''Aanya wrote to the zoo.\<newline>They sent an elephant.\<newline>'']"
proof -
  have k: "truthy (Some ''sk-test'')" by simp
  have e: "extract_text_from_pdf sample_pdf world0
           = (Some ''Aanya wrote to the zoo.\<newline>They sent an elephant.\<newline>'', world0)"
    by (simp add: extract_text_from_pdf_def sample_pdf_def)
  have t: "''Aanya wrote to the zoo.\<newline>They sent an elephant.\<newline>'' \<noteq> []" by simp
  have h: "http (env_of all_succeed j) (length (sent world0))
             (AnalyzeStory ''Aanya wrote to the zoo.\<newline>They sent an elephant.\<newline>'')
           = Inr (Some ''payload'')" for j
    by (simp add: env_of_def all_succeed_def)
  have a: "''payload'' \<noteq> []" by simp
  have j: "json_loads (env_of all_succeed (JObj pd)) ''payload'' = Inr (JObj pd)" for pd
    by (simp add: env_of_def)
  note th = selection_of_story_data [OF k e t h a j]
  show ?thesis
    using th [of "[(''title'', JStr ''Zoo''), (''none'', JArr []), (''animals'', JArr sample_story),
                      (''more'', JArr [JNull])]" create_storybook]
      th [of "[(''animals'', JArr sample_story), (''interactions'', JArr [JNull])]" create_storybook]
      th [of "[(''title'', JStr ''Zoo''), (''none'', JArr [])]" create_storybook "''Aanya''" "''she/her''" None]
    by (simp add: run_main_def sample_story_def world_fields world0_def)
qed

text \<open>
  Claim C4, as stated, fails: when the photo-description request raises, the run of
  \<^verbatim>\<open>main.py\<close> offers no document, although the analysis gave five well-formed records.
\<close>

theorem photo_failure_no_document:
  "fst (run_main (env_of photo_fails (JObj [(''interactions'', JArr sample_story)])) (Some ''sk-test'')
         (Some sample_pdf) ''Aanya'' ''she/her'' (Some ''photo bytes'') world0) = None"
  by (simp add: run_main_def pipeline_def pipeline_body_def analysis_steps_def
      extract_text_from_pdf_def sample_pdf_def analyze_story_def post_def env_of_def
      read_story_data_def select_story_data_def process_photo_def world0_def sample_story_def)

text \<open>
  Claim C4, amended: the photo-description request is not inside a \<^verbatim>\<open>try\<close> of its own.
  When it raises, the exception reaches the handler's \<^verbatim>\<open>except\<close>: it is shown as
  \<^verbatim>\<open>Error creating storybook: ...\<close>, no document is offered, and the assembler is not
  called (the result is the same for every assembler, and the photo request is the last
  one sent).
\<close>

theorem photo_failure_ends_the_run:
  assumes "truthy api_key"
    and "analysis_steps env pdf w = (Inr story_data, w2)"
    and "open_error env photo_bytes = None"
    and "http env (length (sent w2)) (DescribePhoto photo_bytes) = Inl m"
  shows "pipeline assemble env api_key (Some pdf) name gender (Some photo_bytes) w
         = (None, st_exception (Raised m)
                    (st_error_of ''Error creating storybook: '' (Raised m)
                       (w2\<lparr>sent := sent w2 @ [DescribePhoto photo_bytes]\<rparr>)))"
  using assms
  by (simp add: pipeline_def pipeline_body_def process_photo_def post_def)

theorem photo_failure_ends_the_run_witness:
  "run_main (env_of photo_fails (JObj [(''interactions'', JArr sample_story)])) (Some ''sk-test'')
         (Some sample_pdf) ''Aanya'' ''she/her'' (Some ''photo bytes'') world0
   = (None,
      \<lparr>done_pages = [], cur_page = [],
       sent = [AnalyzeStory ''Aanya wrote to the zoo.\<newline>They sent an elephant.\<newline>'',
               DescribePhoto ''photo bytes''],
       shown = [StErrorOf ''Error creating storybook: '' (Raised ''503 Server Error''),
                StException (Raised ''503 Server Error'')]\<rparr>)"
proof -
  have k: "truthy (Some ''sk-test'')" by simp
  have a: "analysis_steps (env_of photo_fails (JObj [(''interactions'', JArr sample_story)])) sample_pdf world0
           = (Inr (JArr sample_story),
              world0\<lparr>sent := [AnalyzeStory ''Aanya wrote to the zoo.\<newline>They sent an elephant.\<newline>'']\<rparr>)"
    by (simp add: analysis_steps_def extract_text_from_pdf_def sample_pdf_def analyze_story_def post_def
        env_of_def read_story_data_def select_story_data_def world0_def sample_story_def)
  have p: "open_error (env_of photo_fails (JObj [(''interactions'', JArr sample_story)])) ''photo bytes'' = None"
    by (simp add: env_of_def)
  have h: "http (env_of photo_fails (JObj [(''interactions'', JArr sample_story)]))
             (length (sent (world0\<lparr>sent := [AnalyzeStory ''Aanya wrote to the zoo.\<newline>They sent an elephant.\<newline>'']\<rparr>)))
             (DescribePhoto ''photo bytes'') = Inl ''503 Server Error''"
    by (simp add: env_of_def)
  show ?thesis
    using photo_failure_ends_the_run [OF k a p h, of create_storybook "''Aanya''" "''she/her''"]
    by (simp add: run_main_def world0_def st_exception_def st_error_of_def)
qed

section \<open>Well-formed records\<close>

lemma well_formedE:
  assumes "well_formed r"
  obtains kvs a d i where "r = JObj kvs" "map_of kvs ''animal'' = Some (JStr a)"
    "map_of kvs ''description'' = Some (JStr d)" "map_of kvs ''interaction'' = Some (JStr i)"
proof (cases r)
  case (JObj kvs)
  with assms show ?thesis
    by (auto simp: well_formed_def split: option.splits json.splits intro: that)
qed (use assms in \<open>simp_all add: well_formed_def\<close>)

lemma scene_prompt_wf:
  assumes "well_formed r"
  shows "scene_prompt env cd r pd = Inr (prompt_of env cd r pd)"
proof -
  from assms obtain kvs a d i where r: "r = JObj kvs" "map_of kvs ''animal'' = Some (JStr a)"
    "map_of kvs ''description'' = Some (JStr d)" "map_of kvs ''interaction'' = Some (JStr i)"
    by (rule well_formedE)
  show ?thesis
    unfolding prompt_of_def by (simp add: scene_prompt_def r)
qed

lemma generate_ghibli_scene_keeps:
  "done_pages (snd (generate_ghibli_scene env cd r pd w)) = done_pages w"
  "cur_page (snd (generate_ghibli_scene env cd r pd w)) = cur_page w"
  by (simp_all add: generate_ghibli_scene_def post_def world_fields split: sum.splits)

lemma generate_ghibli_scene_wf:
  assumes "well_formed r"
  shows "fst (generate_ghibli_scene env cd r pd w)
           = payload (http env (length (sent w)) (GenerateImage (prompt_of env cd r pd)))"
    and "sent (snd (generate_ghibli_scene env cd r pd w)) = sent w @ [GenerateImage (prompt_of env cd r pd)]"
  by (simp_all add: generate_ghibli_scene_def scene_prompt_wf[OF assms] post_def world_fields
      split: sum.splits)

section \<open>The pages of main.py\<close>

lemma illustration_fields:
  "cur_page (illustration env a img w) = cur_page w @ picture_main env img"
  "done_pages (illustration env a img w) = done_pages w"
  "sent (illustration env a img w) = sent w"
  by (simp_all add: illustration_def picture_main_def world_fields split: option.splits)

lemma animal_page_wf:
  assumes "well_formed r" "cur_page w = []"
  shows "\<exists>w'. animal_page env name cd pd r w = (Inr (), w')
           \<and> done_pages w' = done_pages w
                @ [page_main env name r (payload (http env (length (sent w)) (GenerateImage (prompt_of env cd r pd))))]
           \<and> cur_page w' = []
           \<and> sent w' = sent w @ [GenerateImage (prompt_of env cd r pd)]"
proof -
  from assms(1) obtain kvs a d i where r: "r = JObj kvs" "map_of kvs ''animal'' = Some (JStr a)"
    "map_of kvs ''description'' = Some (JStr d)" "map_of kvs ''interaction'' = Some (JStr i)"
    by (rule well_formedE)
  obtain img w1 where g: "generate_ghibli_scene env cd r pd w = (img, w1)"
    by (cases "generate_ghibli_scene env cd r pd w")
  have img: "img = payload (http env (length (sent w)) (GenerateImage (prompt_of env cd r pd)))"
    and w1: "sent w1 = sent w @ [GenerateImage (prompt_of env cd r pd)]"
      "done_pages w1 = done_pages w" "cur_page w1 = []"
    using generate_ghibli_scene_wf[OF assms(1), of env cd pd w]
      generate_ghibli_scene_keeps[of env cd r pd w] g assms(2) by simp_all
  have t: "text_at r ''animal'' = Some a" "text_at r ''description'' = Some d"
    "text_at r ''interaction'' = Some i"
    using r by simp_all
  show ?thesis
    using g[unfolded r(1)]
    by (simp add: animal_page_def r Let_def world_fields illustration_fields w1 page_main_def t
        img[unfolded r(1)])
qed

lemma animal_pages_wf:
  assumes "\<forall>r\<in>set recs. well_formed r" "cur_page w = []"
  shows "\<exists>w'. animal_pages env name cd pd recs w = (Inr (), w')
           \<and> done_pages w' = done_pages w
                @ map (\<lambda>i. page_main env name (recs ! i)
                            (payload (http env (length (sent w) + i)
                                        (GenerateImage (prompt_of env cd (recs ! i) pd)))))
                      [0..<length recs]
           \<and> cur_page w' = []
           \<and> sent w' = sent w @ map (\<lambda>r. GenerateImage (prompt_of env cd r pd)) recs"
  using assms
proof (induction recs arbitrary: w)
  case Nil
  then show ?case by simp
next
  case (Cons r recs)
  let ?page = "\<lambda>k r. page_main env name r (payload (http env k (GenerateImage (prompt_of env cd r pd))))"
  from Cons.prems obtain w1 where w1: "animal_page env name cd pd r w = (Inr (), w1)"
     "done_pages w1 = done_pages w @ [?page (length (sent w)) r]"
     "cur_page w1 = []" "sent w1 = sent w @ [GenerateImage (prompt_of env cd r pd)]"
    using animal_page_wf[of r w env name cd pd] by auto
  from Cons.IH[of w1] Cons.prems w1(3) obtain w' where w': "animal_pages env name cd pd recs w1 = (Inr (), w')"
    "done_pages w' = done_pages w1 @ map (\<lambda>i. ?page (length (sent w1) + i) (recs ! i)) [0..<length recs]"
    "cur_page w' = []" "sent w' = sent w1 @ map (\<lambda>r. GenerateImage (prompt_of env cd r pd)) recs"
    by auto
  have "map (\<lambda>i. ?page (length (sent w) + i) ((r # recs) ! i)) [0..<length (r # recs)]
       = ?page (length (sent w)) r # map (\<lambda>i. ?page (length (sent w1) + i) (recs ! i)) [0..<length recs]"
    by (simp add: map_upt_Suc w1(4) del: upt_Suc)
  with w1 w' show ?case by simp
qed

lemma cover_page_fields:
  "\<exists>p. done_pages (cover_page env name user_image w) = done_pages w @ [cur_page w @ p]
       \<and> DrawCentredString 300 750 (name @ '''s Ghibli Zoo Adventure'') \<in> set p"
  "cur_page (cover_page env name user_image w) = []"
  "sent (cover_page env name user_image w) = sent w"
  by (simp_all add: cover_page_def Let_def world_fields split: option.splits)

lemma intro_page_fields:
  "\<exists>p. done_pages (intro_page name w) = done_pages w @ [cur_page w @ p]
       \<and> DrawCentredString 300 750 (''Once upon a time, '' @ name @ '' wrote to the zoo'') \<in> set p"
  "cur_page (intro_page name w) = []"
  "sent (intro_page name w) = sent w"
  by (simp_all add: intro_page_def world_fields)

lemma end_page_fields:
  "\<exists>p. done_pages (end_page name w) = done_pages w @ [cur_page w @ p]
       \<and> DrawCentredString 300 700 ''The End'' \<in> set p"
  "cur_page (end_page name w) = []"
  "sent (end_page name w) = sent w"
  by (simp_all add: end_page_def world_fields)

text \<open>The document of \<^verbatim>\<open>main.py\<close> for well-formed records, page by page.\<close>

lemma create_storybook_wf:
  assumes "\<forall>r\<in>set recs. well_formed r"
  shows "\<exists>cover intro ending w'.
           create_storybook env name gender (JArr recs) pd user_image w
             = (Inr ([cover, intro]
                     @ map (\<lambda>i. page_main env name (recs ! i)
                                 (payload (http env (length (sent w) + i)
                                    (GenerateImage (prompt_of env (child_description_of name gender)
                                                      (recs ! i) pd)))))
                           [0..<length recs]
                     @ [ending]), w')
           \<and> DrawCentredString 300 750 (name @ '''s Ghibli Zoo Adventure'') \<in> set cover
           \<and> DrawCentredString 300 750 (''Once upon a time, '' @ name @ '' wrote to the zoo'') \<in> set intro
           \<and> DrawCentredString 300 700 ''The End'' \<in> set ending
           \<and> sent w' = sent w @ map (\<lambda>r. GenerateImage (prompt_of env (child_description_of name gender) r pd)) recs"
proof -
  let ?w0 = "new_canvas w"
  let ?w1 = "cover_page env name user_image ?w0"
  let ?w2 = "intro_page name ?w1"
  let ?cd = "child_description_of name gender"
  obtain cover where c: "done_pages ?w1 = [cover]"
    "DrawCentredString 300 750 (name @ '''s Ghibli Zoo Adventure'') \<in> set cover"
    using cover_page_fields(1)[of env name user_image ?w0] by (auto simp: world_fields)
  obtain intro where i: "done_pages ?w2 = [cover, intro]"
    "DrawCentredString 300 750 (''Once upon a time, '' @ name @ '' wrote to the zoo'') \<in> set intro"
    using intro_page_fields(1)[of name ?w1] c(1) by (auto simp: cover_page_fields(2))
  have s: "sent ?w2 = sent w" "cur_page ?w2 = []"
    by (simp_all add: intro_page_fields cover_page_fields world_fields)
  obtain w3 where l: "animal_pages env name ?cd pd recs ?w2 = (Inr (), w3)"
    "done_pages w3 = [cover, intro]
        @ map (\<lambda>i. page_main env name (recs ! i)
                 (payload (http env (length (sent w) + i) (GenerateImage (prompt_of env ?cd (recs ! i) pd)))))
            [0..<length recs]"
    "cur_page w3 = []" "sent w3 = sent w @ map (\<lambda>r. GenerateImage (prompt_of env ?cd r pd)) recs"
    using animal_pages_wf[OF assms s(2), of env name ?cd pd] i(1) s(1) by auto
  obtain ending where e: "done_pages (end_page name w3) = done_pages w3 @ [ending]"
    "DrawCentredString 300 700 ''The End'' \<in> set ending"
    using end_page_fields(1)[of name w3] l(3) by auto
  have "create_storybook env name gender (JArr recs) pd user_image w
        = (Inr (done_pages (end_page name w3)), end_page name w3)"
    by (simp add: create_storybook_def Let_def l(1) save_def)
  with c(2) i(2) e l(2,4) show ?thesis by (auto simp: end_page_fields(3))
qed

section \<open>The pages of main2.py\<close>

lemma pronoun_sets_get:
  assumes "gender \<in> pronoun_sets"
  shows "\<exists>cp. dict_get pronouns gender = Inr cp"
  using assms by (auto simp: pronoun_sets_def dict_get_def pronouns_def)

lemma shuffled_nonempty:
  assumes "mset (shuffled env PASTEL_COLORS) = mset PASTEL_COLORS"
  shows "shuffled env PASTEL_COLORS \<noteq> []"
proof
  assume "shuffled env PASTEL_COLORS = []"
  with assms have "mset PASTEL_COLORS = {#}" by simp
  then show False by (simp add: PASTEL_COLORS_def)
qed

lemma cycle_color_nonempty:
  "pc \<noteq> [] \<Longrightarrow> cycle_color pc i = Inr (pc ! (i mod length pc))"
  by (simp add: cycle_color_def list_get_def)

lemma illustration2_fields:
  "cur_page (illustration2 env a img w) = cur_page w @ picture2 env img"
  "done_pages (illustration2 env a img w) = done_pages w"
  "sent (illustration2 env a img w) = sent w"
  by (simp_all add: illustration2_def picture2_def world_fields split: option.splits)

lemma animal_page2_wf:
  assumes "well_formed r" "cur_page w = []" "pc \<noteq> []"
  shows "\<exists>w'. animal_page2 env pc name cd pd i r w = (Inr (), w')
           \<and> done_pages w' = done_pages w
                @ [page2 env (pc ! (i mod length pc)) name i r
                     (payload (http env (length (sent w)) (GenerateImage (prompt_of env cd r pd))))]
           \<and> cur_page w' = []
           \<and> sent w' = sent w @ [GenerateImage (prompt_of env cd r pd)]"
proof -
  from assms(1) obtain kvs a d t where r: "r = JObj kvs" "map_of kvs ''animal'' = Some (JStr a)"
    "map_of kvs ''description'' = Some (JStr d)" "map_of kvs ''interaction'' = Some (JStr t)"
    by (rule well_formedE)
  define w1 where "w1 = draw [DrawCentredString 300 760 (''The '' @ title a)]
               (draw [SetFillColorRGB (pc ! (i mod length pc)),
                      Rect 0 0 (fst letter) (snd letter) True True,
                      SetFillColorRGB (0.3, 0.3, 0.7),
                      RoundRect 50 730 500 60 10 True True,
                      SetFillColorRGB (1, 1, 1),
                      SetFont ''Helvetica-Bold'' 22] w)"
  obtain img w2 where g: "generate_ghibli_scene env cd r pd w1 = (img, w2)"
    by (cases "generate_ghibli_scene env cd r pd w1")
  have img: "img = payload (http env (length (sent w)) (GenerateImage (prompt_of env cd r pd)))"
    and w2: "sent w2 = sent w @ [GenerateImage (prompt_of env cd r pd)]"
      "done_pages w2 = done_pages w" "cur_page w2 = cur_page w1"
    using generate_ghibli_scene_wf[OF assms(1), of env cd pd w1]
      generate_ghibli_scene_keeps[of env cd r pd w1] g by (simp_all add: w1_def world_fields)
  have c1: "cur_page w1 = [SetFillColorRGB (pc ! (i mod length pc)),
                      Rect 0 0 (fst letter) (snd letter) True True,
                      SetFillColorRGB (0.3, 0.3, 0.7),
                      RoundRect 50 730 500 60 10 True True,
                      SetFillColorRGB (1, 1, 1),
                      SetFont ''Helvetica-Bold'' 22,
                      DrawCentredString 300 760 (''The '' @ title a)]"
    by (simp add: w1_def world_fields assms(2))
  have tx: "text_at r ''animal'' = Some a" "text_at r ''description'' = Some d"
    "text_at r ''interaction'' = Some t"
    using r by simp_all
  define w' where "w' = showPage
           (draw [SetFillColorRGB (0.3, 0.3, 0.6),
                  Circle 550 50 20 True True,
                  SetFillColorRGB (1, 1, 1),
                  SetFont ''Helvetica-Bold'' 14,
                  DrawCentredString 550 45 (show_nat (i + 1))]
              (illustration2 env (JStr a) img
                 (draw [DrawString 90 640 t,
                        SetStrokeColorRGB (0.5, 0.5, 0.7),
                        SetLineWidth 2,
                        Line 100 625 500 625]
                    (draw [DrawString 100 670 (''But it was '' @ d @ ''!''),
                           SetFillColorRGB (0.2, 0.3, 0.2),
                           SetFont ''Helvetica-Oblique'' 18]
                       (draw [SetFillColorRGB (0.2, 0.2, 0.4),
                              SetFont ''Helvetica-BoldOblique'' 18,
                              DrawString 90 700 (''They sent '' @ name @ '' a '' @ a @ ''...''),
                              SetFillColorRGB (0.5, 0.1, 0.1),
                              SetFont ''Helvetica-Bold'' 18] w2)))))"
  have run: "animal_page2 env pc name cd pd i r w = (Inr (), w')"
    unfolding animal_page2_def w'_def
    using g[unfolded r(1) w1_def]
    by (simp add: r cycle_color_nonempty[OF assms(3)] Let_def)
  have d: "done_pages w' = done_pages w
                @ [page2 env (pc ! (i mod length pc)) name i r img]"
    unfolding w'_def page2_def
    by (simp add: world_fields illustration2_fields w2 c1 tx)
  have c: "cur_page w' = []" "sent w' = sent w @ [GenerateImage (prompt_of env cd r pd)]"
    unfolding w'_def by (simp_all add: world_fields illustration2_fields w2)
  from run d c show ?thesis unfolding img by blast
qed

lemma animal_pages2_wf:
  assumes "\<forall>r\<in>set recs. well_formed r" "cur_page w = []" "pc \<noteq> []"
  shows "\<exists>w'. animal_pages2 env pc name cd pd i0 recs w = (Inr (), w')
           \<and> done_pages w' = done_pages w
                @ map (\<lambda>i. page2 env (pc ! ((i0 + i) mod length pc)) name (i0 + i) (recs ! i)
                            (payload (http env (length (sent w) + i)
                                        (GenerateImage (prompt_of env cd (recs ! i) pd)))))
                      [0..<length recs]
           \<and> cur_page w' = []
           \<and> sent w' = sent w @ map (\<lambda>r. GenerateImage (prompt_of env cd r pd)) recs"
  using assms(1,2)
proof (induction recs arbitrary: w i0)
  case Nil
  then show ?case by simp
next
  case (Cons r recs)
  let ?page = "\<lambda>k j r. page2 env (pc ! (j mod length pc)) name j r
                          (payload (http env k (GenerateImage (prompt_of env cd r pd))))"
  from Cons.prems obtain w1 where w1: "animal_page2 env pc name cd pd i0 r w = (Inr (), w1)"
     "done_pages w1 = done_pages w @ [?page (length (sent w)) i0 r]"
     "cur_page w1 = []" "sent w1 = sent w @ [GenerateImage (prompt_of env cd r pd)]"
    using animal_page2_wf[of r w pc env name cd pd i0] assms(3) by auto
  from Cons.IH[of w1 "Suc i0"] Cons.prems w1(3) obtain w'
    where w': "animal_pages2 env pc name cd pd (Suc i0) recs w1 = (Inr (), w')"
    "done_pages w' = done_pages w1
       @ map (\<lambda>i. ?page (length (sent w1) + i) (Suc i0 + i) (recs ! i)) [0..<length recs]"
    "cur_page w' = []" "sent w' = sent w1 @ map (\<lambda>r. GenerateImage (prompt_of env cd r pd)) recs"
    by auto
  have "map (\<lambda>i. ?page (length (sent w) + i) (i0 + i) ((r # recs) ! i)) [0..<length (r # recs)]
       = ?page (length (sent w)) i0 r
         # map (\<lambda>i. ?page (length (sent w1) + i) (Suc i0 + i) (recs ! i)) [0..<length recs]"
    by (simp add: map_upt_Suc w1(4) del: upt_Suc)
  with w1 w' show ?case by simp
qed

lemma cover_photo_fields:
  "done_pages (cover_photo env user_image w) = done_pages w"
  "\<exists>p. cur_page (cover_photo env user_image w) = cur_page w @ p"
  "sent (cover_photo env user_image w) = sent w"
  by (simp_all add: cover_photo_def world_fields split: option.splits)

lemma cover_page2_fields:
  "\<exists>p. done_pages (cover_page2 env name user_image w) = done_pages w @ [cur_page w @ p]
       \<and> DrawCentredString 300 750 (name @ '''s Magical Ghibli Zoo Adventure'') \<in> set p"
  "cur_page (cover_page2 env name user_image w) = []"
  "sent (cover_page2 env name user_image w) = sent w"
proof -
  define pre where "pre = [SetFillColorRGB (1.0, 0.98, 0.9),
                      Rect 0 0 (fst letter) (snd letter) True True,
                      SetStrokeColorRGB (0.8, 0.7, 0.3),
                      SetLineWidth 5,
                      Rect 20 20 (fst letter - 40) (snd letter - 40) True False,
                      SetFillColorRGB (0.3, 0.3, 0.7),
                      SetFont ''Helvetica-Bold'' 28,
                      DrawCentredString 302 748 (name @ '''s Magical Ghibli Zoo Adventure''),
                      SetFillColorRGB (0.1, 0.2, 0.6),
                      DrawCentredString 300 750 (name @ '''s Magical Ghibli Zoo Adventure''),
                      SetFillColorRGB (0.3, 0.3, 0.3),
                      SetFont ''Helvetica-BoldOblique'' 18,
                      DrawCentredString 300 700 ''A whimsical Studio Ghibli-style adventure'',
                      SetFillColorRGB (0.9, 0.8, 0.3)]
                     @ map (\<lambda>i. Circle (100 + int i * 100) 650 10 True True) [0..<5]"
  define post where "post = [SetFillColorRGB (0.3, 0.3, 0.3),
                         SetFont ''Helvetica-Oblique'' 14,
                         DrawCentredString 300 100 (''Created especially for '' @ name),
                         DrawCentredString 300 80 ''April 2025'']"
  have eq: "cover_page2 env name user_image w
            = showPage (draw post (cover_photo env user_image (draw pre w)))"
    by (simp add: cover_page2_def Let_def pre_def post_def)
  obtain p where p: "cur_page (cover_photo env user_image (draw pre w)) = cur_page (draw pre w) @ p"
    using cover_photo_fields(2) by blast
  have m: "DrawCentredString 300 750 (name @ '''s Magical Ghibli Zoo Adventure'') \<in> set (pre @ p @ post)"
    by (simp add: pre_def)
  have "done_pages (cover_page2 env name user_image w) = done_pages w @ [cur_page w @ (pre @ p @ post)]"
    by (simp add: eq world_fields cover_photo_fields(1) p)
  with m show "\<exists>p. done_pages (cover_page2 env name user_image w) = done_pages w @ [cur_page w @ p]
       \<and> DrawCentredString 300 750 (name @ '''s Magical Ghibli Zoo Adventure'') \<in> set p"
    by blast
  show "cur_page (cover_page2 env name user_image w) = []"
    by (simp add: eq world_fields)
  show "sent (cover_page2 env name user_image w) = sent w"
    by (simp add: eq world_fields cover_photo_fields(3))
qed

lemma intro_page2_fields:
  "\<exists>p. done_pages (intro_page2 bg name cp w)
         = done_pages w @ [cur_page w @ SetFillColorRGB bg # Rect 0 0 (fst letter) (snd letter) True True # p]
       \<and> DrawCentredString 300 750 ''The Adventure Begins...'' \<in> set p
       \<and> DrawCentredString 300 600 (capitalize (subject_of cp) @ '' asked them to send a perfect pet,'')
           \<in> set p"
  "cur_page (intro_page2 bg name cp w) = []"
  "sent (intro_page2 bg name cp w) = sent w"
  by (simp_all add: intro_page2_def world_fields)

lemma end_page2_fields:
  "\<exists>p. done_pages (end_page2 name cp w) = done_pages w @ [cur_page w @ p]
       \<and> DrawCentredString 300 700 ''The End'' \<in> set p
       \<and> DrawCentredString 300 500 (''It was just what '' @ subject_of cp @ '' wanted!'') \<in> set p"
  "cur_page (end_page2 name cp w) = []"
  "sent (end_page2 name cp w) = sent w"
  by (simp_all add: end_page2_def world_fields)

text \<open>The document of \<^verbatim>\<open>main2.py\<close> for well-formed records, page by page.\<close>

lemma create_stylish_storybook_wf:
  assumes "\<forall>r\<in>set recs. well_formed r" "gender \<in> pronoun_sets"
    and "mset (shuffled env PASTEL_COLORS) = mset PASTEL_COLORS"
  shows "\<exists>cover intro ending w'.
           create_stylish_storybook env name gender (JArr recs) pd user_image w
             = (Inr ([cover, intro]
                     @ map (\<lambda>i. page2 env (shuffled env PASTEL_COLORS ! (i mod length (shuffled env PASTEL_COLORS)))
                                 name i (recs ! i)
                                 (payload (http env (length (sent w) + i)
                                    (GenerateImage (prompt_of env (child_description_of name gender)
                                                      (recs ! i) pd)))))
                           [0..<length recs]
                     @ [ending]), w')
           \<and> DrawCentredString 300 750 (name @ '''s Magical Ghibli Zoo Adventure'') \<in> set cover
           \<and> DrawCentredString 300 750 ''The Adventure Begins...'' \<in> set intro
           \<and> DrawCentredString 300 700 ''The End'' \<in> set ending
           \<and> sent w' = sent w @ map (\<lambda>r. GenerateImage (prompt_of env (child_description_of name gender) r pd)) recs"
proof -
  let ?pc = "shuffled env PASTEL_COLORS"
  let ?w0 = "new_canvas w"
  let ?w1 = "cover_page2 env name user_image ?w0"
  let ?cd = "child_description_of name gender"
  obtain cp where cp: "dict_get pronouns gender = Inr cp"
    using pronoun_sets_get[OF assms(2)] by blast
  have pc: "?pc \<noteq> []" by (rule shuffled_nonempty[OF assms(3)])
  then have bg: "list_get ?pc 0 = Inr (?pc ! 0)" by (simp add: list_get_def)
  let ?w2 = "intro_page2 (?pc ! 0) name cp ?w1"
  obtain cover where c: "done_pages ?w1 = [cover]"
    "DrawCentredString 300 750 (name @ '''s Magical Ghibli Zoo Adventure'') \<in> set cover"
    using cover_page2_fields(1)[of env name user_image ?w0] by (auto simp: world_fields)
  obtain intro where i: "done_pages ?w2 = [cover, intro]"
    "DrawCentredString 300 750 ''The Adventure Begins...'' \<in> set intro"
    using intro_page2_fields(1)[of "?pc ! 0" name cp ?w1] c(1) by (auto simp: cover_page2_fields(2))
  have s: "sent ?w2 = sent w" "cur_page ?w2 = []"
    by (simp_all add: intro_page2_fields cover_page2_fields world_fields)
  obtain w3 where l: "animal_pages2 env ?pc name ?cd pd 0 recs ?w2 = (Inr (), w3)"
    "done_pages w3 = [cover, intro]
        @ map (\<lambda>i. page2 env (?pc ! (i mod length ?pc)) name i (recs ! i)
                 (payload (http env (length (sent w) + i) (GenerateImage (prompt_of env ?cd (recs ! i) pd)))))
            [0..<length recs]"
    "cur_page w3 = []" "sent w3 = sent w @ map (\<lambda>r. GenerateImage (prompt_of env ?cd r pd)) recs"
    using animal_pages2_wf[OF assms(1) s(2) pc, of env name ?cd pd 0] i(1) s(1) by auto
  obtain ending where e: "done_pages (end_page2 name cp w3) = done_pages w3 @ [ending]"
    "DrawCentredString 300 700 ''The End'' \<in> set ending"
    using end_page2_fields(1)[of name cp w3] l(3) by auto
  have "create_stylish_storybook env name gender (JArr recs) pd user_image w
        = (Inr (done_pages (end_page2 name cp w3)), end_page2 name cp w3)"
    by (simp add: create_stylish_storybook_def cp bg Let_def l(1) save_def)
  with c(2) i(2) e l(2,4) show ?thesis by (auto simp: end_page2_fields(3))
qed

section \<open>One page per record\<close>

lemma book_nth:
  "length ([c, t] @ map f [0..<n] @ [e]) = n + 3"
  "([c, t] @ map f [0..<n] @ [e]) ! 0 = c"
  "([c, t] @ map f [0..<n] @ [e]) ! 1 = t"
  "i < n \<Longrightarrow> ([c, t] @ map f [0..<n] @ [e]) ! (i + 2) = f i"
  "([c, t] @ map f [0..<n] @ [e]) ! (n + 2) = e"
  by (simp_all add: nth_append nth_Cons')

lemma page_main_lines:
  "DrawString 100 750 (''They sent '' @ name @ '' a '' @ the (text_at r ''animal'') @ ''...'')
     \<in> set (page_main env name r img)"
  "DrawString 100 720 (''but it was '' @ the (text_at r ''description'') @ ''!'')
     \<in> set (page_main env name r img)"
  "DrawString 100 690 (the (text_at r ''interaction'')) \<in> set (page_main env name r img)"
  by (simp_all add: page_main_def)

lemma page2_lines:
  "DrawString 90 700 (''They sent '' @ name @ '' a '' @ the (text_at r ''animal'') @ ''...'')
     \<in> set (page2 env bg name i r img)"
  "DrawString 100 670 (''But it was '' @ the (text_at r ''description'') @ ''!'')
     \<in> set (page2 env bg name i r img)"
  "DrawString 90 640 (the (text_at r ''interaction'')) \<in> set (page2 env bg name i r img)"
  "DrawCentredString 550 45 (show_nat (i + 1)) \<in> set (page2 env bg name i r img)"
  by (simp_all add: page2_def)

lemma page_main_failed:
  assumes "request_failed reply"
  shows "DrawString 300 400 ''[Illustration not available]'' \<in> set (page_main env name r (payload reply))"
    and "\<not> list_ex is_image (page_main env name r (payload reply))"
  using assms by (simp_all add: page_main_def picture_main_def request_failed_def unavailable_def)

lemma page2_failed:
  assumes "request_failed reply"
  shows "DrawString 300 400 ''[Illustration not available]'' \<in> set (page2 env bg name i r (payload reply))"
    and "\<not> list_ex is_image (page2 env bg name i r (payload reply))"
  using assms by (simp_all add: page2_def picture2_def request_failed_def unavailable_def)

text \<open>
  Claim C1: for \<open>N\<close> well-formed records the assembler returns a document of \<open>N + 3\<close>
  pages: the cover, the intro, then the page of record \<open>i\<close> at position \<open>i + 2\<close> (it
  carries the three lines made from that record, so the pages follow the order of the
  sequence), then the end page. For \<^verbatim>\<open>main.py\<close> this needs nothing else; for
  \<^verbatim>\<open>main2.py\<close> the pronoun set is one of the three of the selection box and the shuffle
  returns a permutation of the palette.
\<close>

theorem one_page_per_record:
  assumes "\<forall>r\<in>set recs. well_formed r"
  shows "(\<exists>doc w'. create_storybook env name gender (JArr recs) pd user_image w = (Inr doc, w')
            \<and> length doc = length recs + 3
            \<and> DrawCentredString 300 750 (name @ '''s Ghibli Zoo Adventure'') \<in> set (doc ! 0)
            \<and> DrawCentredString 300 750 (''Once upon a time, '' @ name @ '' wrote to the zoo'')
                \<in> set (doc ! 1)
            \<and> (\<forall>i<length recs.
                  DrawString 100 750 (''They sent '' @ name @ '' a '' @ the (text_at (recs ! i) ''animal'') @ ''...'')
                    \<in> set (doc ! (i + 2))
                  \<and> DrawString 100 720 (''but it was '' @ the (text_at (recs ! i) ''description'') @ ''!'')
                    \<in> set (doc ! (i + 2))
                  \<and> DrawString 100 690 (the (text_at (recs ! i) ''interaction'')) \<in> set (doc ! (i + 2)))
            \<and> DrawCentredString 300 700 ''The End'' \<in> set (doc ! (length recs + 2)))
       \<and> (gender \<in> pronoun_sets \<and> mset (shuffled env PASTEL_COLORS) = mset PASTEL_COLORS \<longrightarrow>
           (\<exists>doc w'. create_stylish_storybook env name gender (JArr recs) pd user_image w = (Inr doc, w')
            \<and> length doc = length recs + 3
            \<and> DrawCentredString 300 750 (name @ '''s Magical Ghibli Zoo Adventure'') \<in> set (doc ! 0)
            \<and> DrawCentredString 300 750 ''The Adventure Begins...'' \<in> set (doc ! 1)
            \<and> (\<forall>i<length recs.
                  DrawString 90 700 (''They sent '' @ name @ '' a '' @ the (text_at (recs ! i) ''animal'') @ ''...'')
                    \<in> set (doc ! (i + 2))
                  \<and> DrawString 100 670 (''But it was '' @ the (text_at (recs ! i) ''description'') @ ''!'')
                    \<in> set (doc ! (i + 2))
                  \<and> DrawString 90 640 (the (text_at (recs ! i) ''interaction'')) \<in> set (doc ! (i + 2))
                  \<and> DrawCentredString 550 45 (show_nat (i + 1)) \<in> set (doc ! (i + 2)))
            \<and> DrawCentredString 300 700 ''The End'' \<in> set (doc ! (length recs + 2))))"
proof (intro conjI impI)
  obtain cover intro ending w' where d:
    "create_storybook env name gender (JArr recs) pd user_image w
       = (Inr ([cover, intro]
               @ map (\<lambda>i. page_main env name (recs ! i)
                       (payload (http env (length (sent w) + i)
                          (GenerateImage (prompt_of env (child_description_of name gender) (recs ! i) pd)))))
                   [0..<length recs]
               @ [ending]), w')"
    "DrawCentredString 300 750 (name @ '''s Ghibli Zoo Adventure'') \<in> set cover"
    "DrawCentredString 300 750 (''Once upon a time, '' @ name @ '' wrote to the zoo'') \<in> set intro"
    "DrawCentredString 300 700 ''The End'' \<in> set ending"
    using create_storybook_wf[OF assms, of env name gender pd user_image w] by blast
  let ?doc = "[cover, intro]
               @ map (\<lambda>i. page_main env name (recs ! i)
                       (payload (http env (length (sent w) + i)
                          (GenerateImage (prompt_of env (child_description_of name gender) (recs ! i) pd)))))
                   [0..<length recs]
               @ [ending]"
  have 1: "length ?doc = length recs + 3" by (rule book_nth(1))
  have 2: "DrawCentredString 300 750 (name @ '''s Ghibli Zoo Adventure'') \<in> set (?doc ! 0)"
    by (simp only: book_nth d(2))
  have 3: "DrawCentredString 300 750 (''Once upon a time, '' @ name @ '' wrote to the zoo'')
              \<in> set (?doc ! 1)"
    by (simp only: book_nth d(3))
  have 4: "DrawCentredString 300 700 ''The End'' \<in> set (?doc ! (length recs + 2))"
    by (simp only: book_nth d(4))
  have 5: "\<forall>i<length recs.
             DrawString 100 750 (''They sent '' @ name @ '' a '' @ the (text_at (recs ! i) ''animal'') @ ''...'')
               \<in> set (?doc ! (i + 2))
             \<and> DrawString 100 720 (''but it was '' @ the (text_at (recs ! i) ''description'') @ ''!'')
               \<in> set (?doc ! (i + 2))
             \<and> DrawString 100 690 (the (text_at (recs ! i) ''interaction'')) \<in> set (?doc ! (i + 2))"
    by (intro allI impI conjI) (simp_all only: book_nth page_main_lines)
  from d(1) 1 2 3 4 5
  show "\<exists>doc w'. create_storybook env name gender (JArr recs) pd user_image w = (Inr doc, w')
            \<and> length doc = length recs + 3
            \<and> DrawCentredString 300 750 (name @ '''s Ghibli Zoo Adventure'') \<in> set (doc ! 0)
            \<and> DrawCentredString 300 750 (''Once upon a time, '' @ name @ '' wrote to the zoo'')
                \<in> set (doc ! 1)
            \<and> (\<forall>i<length recs.
                  DrawString 100 750 (''They sent '' @ name @ '' a '' @ the (text_at (recs ! i) ''animal'') @ ''...'')
                    \<in> set (doc ! (i + 2))
                  \<and> DrawString 100 720 (''but it was '' @ the (text_at (recs ! i) ''description'') @ ''!'')
                    \<in> set (doc ! (i + 2))
                  \<and> DrawString 100 690 (the (text_at (recs ! i) ''interaction'')) \<in> set (doc ! (i + 2)))
            \<and> DrawCentredString 300 700 ''The End'' \<in> set (doc ! (length recs + 2))"
    by blast
next
  assume g: "gender \<in> pronoun_sets \<and> mset (shuffled env PASTEL_COLORS) = mset PASTEL_COLORS"
  obtain cover intro ending w' where d:
    "create_stylish_storybook env name gender (JArr recs) pd user_image w
       = (Inr ([cover, intro]
               @ map (\<lambda>i. page2 env (shuffled env PASTEL_COLORS ! (i mod length (shuffled env PASTEL_COLORS)))
                       name i (recs ! i)
                       (payload (http env (length (sent w) + i)
                          (GenerateImage (prompt_of env (child_description_of name gender) (recs ! i) pd)))))
                   [0..<length recs]
               @ [ending]), w')"
    "DrawCentredString 300 750 (name @ '''s Magical Ghibli Zoo Adventure'') \<in> set cover"
    "DrawCentredString 300 750 ''The Adventure Begins...'' \<in> set intro"
    "DrawCentredString 300 700 ''The End'' \<in> set ending"
    using create_stylish_storybook_wf[OF assms, of gender env name pd user_image w] g by blast
  let ?doc = "[cover, intro]
               @ map (\<lambda>i. page2 env (shuffled env PASTEL_COLORS ! (i mod length (shuffled env PASTEL_COLORS)))
                       name i (recs ! i)
                       (payload (http env (length (sent w) + i)
                          (GenerateImage (prompt_of env (child_description_of name gender) (recs ! i) pd)))))
                   [0..<length recs]
               @ [ending]"
  have 1: "length ?doc = length recs + 3" by (rule book_nth(1))
  have 2: "DrawCentredString 300 750 (name @ '''s Magical Ghibli Zoo Adventure'') \<in> set (?doc ! 0)"
    by (simp only: book_nth d(2))
  have 3: "DrawCentredString 300 750 ''The Adventure Begins...'' \<in> set (?doc ! 1)"
    by (simp only: book_nth d(3))
  have 4: "DrawCentredString 300 700 ''The End'' \<in> set (?doc ! (length recs + 2))"
    by (simp only: book_nth d(4))
  have 5: "\<forall>i<length recs.
             DrawString 90 700 (''They sent '' @ name @ '' a '' @ the (text_at (recs ! i) ''animal'') @ ''...'')
               \<in> set (?doc ! (i + 2))
             \<and> DrawString 100 670 (''But it was '' @ the (text_at (recs ! i) ''description'') @ ''!'')
               \<in> set (?doc ! (i + 2))
             \<and> DrawString 90 640 (the (text_at (recs ! i) ''interaction'')) \<in> set (?doc ! (i + 2))
             \<and> DrawCentredString 550 45 (show_nat (i + 1)) \<in> set (?doc ! (i + 2))"
    by (intro allI impI conjI) (simp_all only: book_nth page2_lines)
  from d(1) 1 2 3 4 5
  show "\<exists>doc w'. create_stylish_storybook env name gender (JArr recs) pd user_image w = (Inr doc, w')
            \<and> length doc = length recs + 3
            \<and> DrawCentredString 300 750 (name @ '''s Magical Ghibli Zoo Adventure'') \<in> set (doc ! 0)
            \<and> DrawCentredString 300 750 ''The Adventure Begins...'' \<in> set (doc ! 1)
            \<and> (\<forall>i<length recs.
                  DrawString 90 700 (''They sent '' @ name @ '' a '' @ the (text_at (recs ! i) ''animal'') @ ''...'')
                    \<in> set (doc ! (i + 2))
                  \<and> DrawString 100 670 (''But it was '' @ the (text_at (recs ! i) ''description'') @ ''!'')
                    \<in> set (doc ! (i + 2))
                  \<and> DrawString 90 640 (the (text_at (recs ! i) ''interaction'')) \<in> set (doc ! (i + 2))
                  \<and> DrawCentredString 550 45 (show_nat (i + 1)) \<in> set (doc ! (i + 2)))
            \<and> DrawCentredString 300 700 ''The End'' \<in> set (doc ! (length recs + 2))"
    by blast
qed

lemma sample_story_wf: "\<forall>r\<in>set sample_story. well_formed r"
  by (simp add: sample_story_def record_of_def well_formed_def)

lemma sample_gender: "''she/her'' \<in> pronoun_sets" "''he/him'' \<in> pronoun_sets"
  by (simp_all add: pronoun_sets_def)

lemma env_of_shuffled: "mset (shuffled (env_of h j) PASTEL_COLORS) = mset PASTEL_COLORS"
  by (simp add: env_of_fields)

theorem one_page_per_record_witness:
  "list_all well_formed sample_story
   \<and> (\<exists>doc w'. create_storybook (env_of all_succeed JNull) ''Aanya'' ''she/her'' (JArr sample_story)
                  None None world0 = (Inr doc, w')
              \<and> length doc = 8)
   \<and> (\<exists>doc w'. create_stylish_storybook (env_of all_succeed JNull) ''Aanya'' ''she/her'' (JArr sample_story)
                  None None world0 = (Inr doc, w')
              \<and> length doc = 8)"
proof -
  have n: "length sample_story = 5" by (simp add: sample_story_def)
  have a: "list_all well_formed sample_story"
    using sample_story_wf by (simp add: list_all_iff)
  note th = one_page_per_record [OF sample_story_wf, of "env_of all_succeed JNull" "''Aanya''" "''she/her''"
      None None world0]
  from th obtain doc w' where
    "create_storybook (env_of all_succeed JNull) ''Aanya'' ''she/her'' (JArr sample_story)
                  None None world0 = (Inr doc, w')" "length doc = length sample_story + 3"
    by blast
  moreover from th sample_gender(1) env_of_shuffled obtain doc2 w2 where
    "create_stylish_storybook (env_of all_succeed JNull) ''Aanya'' ''she/her'' (JArr sample_story)
                  None None world0 = (Inr doc2, w2)" "length doc2 = length sample_story + 3"
    by blast
  ultimately show ?thesis using a n by simp
qed

text \<open>
  Claim C3: when the illustration request of record \<open>i\<close> fails (the call raises, or
  gives \<^verbatim>\<open>None\<close> or an empty payload), the document still has all its \<open>N + 3\<close> pages,
  the page of record \<open>i\<close> carries its three lines and the text
  \<^verbatim>\<open>[Illustration not available]\<close> and no image, and one illustration request was sent
  for every record. The records are well-formed; for \<^verbatim>\<open>main2.py\<close> the pronoun set is
  one of the three and the shuffle a permutation.
\<close>

theorem failed_illustration_keeps_the_page:
  assumes "\<forall>r\<in>set recs. well_formed r" and "i < length recs"
    and "request_failed (http env (length (sent w) + i)
           (GenerateImage (prompt_of env (child_description_of name gender) (recs ! i) pd)))"
  shows "(\<exists>doc w'. create_storybook env name gender (JArr recs) pd user_image w = (Inr doc, w')
            \<and> length doc = length recs + 3
            \<and> DrawString 100 750 (''They sent '' @ name @ '' a '' @ the (text_at (recs ! i) ''animal'') @ ''...'')
                \<in> set (doc ! (i + 2))
            \<and> DrawString 100 720 (''but it was '' @ the (text_at (recs ! i) ''description'') @ ''!'')
                \<in> set (doc ! (i + 2))
            \<and> DrawString 100 690 (the (text_at (recs ! i) ''interaction'')) \<in> set (doc ! (i + 2))
            \<and> DrawString 300 400 ''[Illustration not available]'' \<in> set (doc ! (i + 2))
            \<and> \<not> list_ex is_image (doc ! (i + 2))
            \<and> sent w' = sent w @ map (\<lambda>r. GenerateImage (prompt_of env (child_description_of name gender) r pd)) recs)
       \<and> (gender \<in> pronoun_sets \<and> mset (shuffled env PASTEL_COLORS) = mset PASTEL_COLORS \<longrightarrow>
           (\<exists>doc w'. create_stylish_storybook env name gender (JArr recs) pd user_image w = (Inr doc, w')
            \<and> length doc = length recs + 3
            \<and> DrawString 90 700 (''They sent '' @ name @ '' a '' @ the (text_at (recs ! i) ''animal'') @ ''...'')
                \<in> set (doc ! (i + 2))
            \<and> DrawString 100 670 (''But it was '' @ the (text_at (recs ! i) ''description'') @ ''!'')
                \<in> set (doc ! (i + 2))
            \<and> DrawString 90 640 (the (text_at (recs ! i) ''interaction'')) \<in> set (doc ! (i + 2))
            \<and> DrawString 300 400 ''[Illustration not available]'' \<in> set (doc ! (i + 2))
            \<and> \<not> list_ex is_image (doc ! (i + 2))
            \<and> sent w' = sent w @ map (\<lambda>r. GenerateImage (prompt_of env (child_description_of name gender) r pd)) recs))"
proof (intro conjI impI)
  obtain cover intro ending w' where d:
    "create_storybook env name gender (JArr recs) pd user_image w
       = (Inr ([cover, intro]
               @ map (\<lambda>i. page_main env name (recs ! i)
                       (payload (http env (length (sent w) + i)
                          (GenerateImage (prompt_of env (child_description_of name gender) (recs ! i) pd)))))
                   [0..<length recs]
               @ [ending]), w')"
    "sent w' = sent w @ map (\<lambda>r. GenerateImage (prompt_of env (child_description_of name gender) r pd)) recs"
    using create_storybook_wf[OF assms(1), of env name gender pd user_image w] by blast
  let ?doc = "[cover, intro]
               @ map (\<lambda>i. page_main env name (recs ! i)
                       (payload (http env (length (sent w) + i)
                          (GenerateImage (prompt_of env (child_description_of name gender) (recs ! i) pd)))))
                   [0..<length recs]
               @ [ending]"
  let ?p = "?doc ! (i + 2)"
  have 1: "length ?doc = length recs + 3" by (rule book_nth(1))
  have 2: "DrawString 100 750 (''They sent '' @ name @ '' a '' @ the (text_at (recs ! i) ''animal'') @ ''...'')
             \<in> set ?p"
    "DrawString 100 720 (''but it was '' @ the (text_at (recs ! i) ''description'') @ ''!'') \<in> set ?p"
    "DrawString 100 690 (the (text_at (recs ! i) ''interaction'')) \<in> set ?p"
    by (simp_all only: book_nth(4)[OF assms(2)] page_main_lines)
  have 3: "DrawString 300 400 ''[Illustration not available]'' \<in> set ?p"
    by (simp only: book_nth(4)[OF assms(2)] page_main_failed(1)[OF assms(3)])
  have 4: "\<not> list_ex is_image ?p"
    by (simp only: book_nth(4)[OF assms(2)] page_main_failed(2)[OF assms(3)] not_False_eq_True)
  from d(1) 1 2 3 4 d(2)
  show "\<exists>doc w'. create_storybook env name gender (JArr recs) pd user_image w = (Inr doc, w')
            \<and> length doc = length recs + 3
            \<and> DrawString 100 750 (''They sent '' @ name @ '' a '' @ the (text_at (recs ! i) ''animal'') @ ''...'')
                \<in> set (doc ! (i + 2))
            \<and> DrawString 100 720 (''but it was '' @ the (text_at (recs ! i) ''description'') @ ''!'')
                \<in> set (doc ! (i + 2))
            \<and> DrawString 100 690 (the (text_at (recs ! i) ''interaction'')) \<in> set (doc ! (i + 2))
            \<and> DrawString 300 400 ''[Illustration not available]'' \<in> set (doc ! (i + 2))
            \<and> \<not> list_ex is_image (doc ! (i + 2))
            \<and> sent w' = sent w @ map (\<lambda>r. GenerateImage (prompt_of env (child_description_of name gender) r pd)) recs"
    by blast
next
  assume g: "gender \<in> pronoun_sets \<and> mset (shuffled env PASTEL_COLORS) = mset PASTEL_COLORS"
  obtain cover intro ending w' where d:
    "create_stylish_storybook env name gender (JArr recs) pd user_image w
       = (Inr ([cover, intro]
               @ map (\<lambda>i. page2 env (shuffled env PASTEL_COLORS ! (i mod length (shuffled env PASTEL_COLORS)))
                       name i (recs ! i)
                       (payload (http env (length (sent w) + i)
                          (GenerateImage (prompt_of env (child_description_of name gender) (recs ! i) pd)))))
                   [0..<length recs]
               @ [ending]), w')"
    "sent w' = sent w @ map (\<lambda>r. GenerateImage (prompt_of env (child_description_of name gender) r pd)) recs"
    using create_stylish_storybook_wf[OF assms(1), of gender env name pd user_image w] g by blast
  let ?doc = "[cover, intro]
               @ map (\<lambda>i. page2 env (shuffled env PASTEL_COLORS ! (i mod length (shuffled env PASTEL_COLORS)))
                       name i (recs ! i)
                       (payload (http env (length (sent w) + i)
                          (GenerateImage (prompt_of env (child_description_of name gender) (recs ! i) pd)))))
                   [0..<length recs]
               @ [ending]"
  let ?p = "?doc ! (i + 2)"
  have 1: "length ?doc = length recs + 3" by (rule book_nth(1))
  have 2: "DrawString 90 700 (''They sent '' @ name @ '' a '' @ the (text_at (recs ! i) ''animal'') @ ''...'')
             \<in> set ?p"
    "DrawString 100 670 (''But it was '' @ the (text_at (recs ! i) ''description'') @ ''!'') \<in> set ?p"
    "DrawString 90 640 (the (text_at (recs ! i) ''interaction'')) \<in> set ?p"
    by (simp_all only: book_nth(4)[OF assms(2)] page2_lines)
  have 3: "DrawString 300 400 ''[Illustration not available]'' \<in> set ?p"
    by (simp only: book_nth(4)[OF assms(2)] page2_failed(1)[OF assms(3)])
  have 4: "\<not> list_ex is_image ?p"
    by (simp only: book_nth(4)[OF assms(2)] page2_failed(2)[OF assms(3)] not_False_eq_True)
  from d(1) 1 2 3 4 d(2)
  show "\<exists>doc w'. create_stylish_storybook env name gender (JArr recs) pd user_image w = (Inr doc, w')
            \<and> length doc = length recs + 3
            \<and> DrawString 90 700 (''They sent '' @ name @ '' a '' @ the (text_at (recs ! i) ''animal'') @ ''...'')
                \<in> set (doc ! (i + 2))
            \<and> DrawString 100 670 (''But it was '' @ the (text_at (recs ! i) ''description'') @ ''!'')
                \<in> set (doc ! (i + 2))
            \<and> DrawString 90 640 (the (text_at (recs ! i) ''interaction'')) \<in> set (doc ! (i + 2))
            \<and> DrawString 300 400 ''[Illustration not available]'' \<in> set (doc ! (i + 2))
            \<and> \<not> list_ex is_image (doc ! (i + 2))
            \<and> sent w' = sent w @ map (\<lambda>r. GenerateImage (prompt_of env (child_description_of name gender) r pd)) recs"
    by blast
qed

theorem failed_illustration_keeps_the_page_witness:
  "(\<exists>doc w'. create_storybook (env_of images_fail JNull) ''Aanya'' ''she/her'' (JArr sample_story)
                  None None world0 = (Inr doc, w')
              \<and> length doc = 8
              \<and> DrawString 300 400 ''[Illustration not available]'' \<in> set (doc ! 4)
              \<and> \<not> list_ex is_image (doc ! 4))
   \<and> (\<exists>doc w'. create_stylish_storybook (env_of images_fail JNull) ''Aanya'' ''she/her'' (JArr sample_story)
                  None None world0 = (Inr doc, w')
              \<and> length doc = 8
              \<and> DrawString 300 400 ''[Illustration not available]'' \<in> set (doc ! 4)
              \<and> \<not> list_ex is_image (doc ! 4))"
proof -
  have n: "length sample_story = 5" by (simp add: sample_story_def)
  have i: "2 < length sample_story" by (simp add: n)
  have f: "request_failed (http (env_of images_fail JNull) (length (sent world0) + 2)
             (GenerateImage (prompt_of (env_of images_fail JNull) (child_description_of ''Aanya'' ''she/her'')
                               (sample_story ! 2) None)))"
    by (simp add: env_of_fields request_failed_def)
  note th = failed_illustration_keeps_the_page [OF sample_story_wf i f, of None]
  from th obtain doc w' where
    "create_storybook (env_of images_fail JNull) ''Aanya'' ''she/her'' (JArr sample_story)
                  None None world0 = (Inr doc, w')" "length doc = length sample_story + 3"
    "DrawString 300 400 ''[Illustration not available]'' \<in> set (doc ! (2 + 2))"
    "\<not> list_ex is_image (doc ! (2 + 2))"
    by blast
  moreover from th sample_gender(1) env_of_shuffled obtain doc2 w2 where
    "create_stylish_storybook (env_of images_fail JNull) ''Aanya'' ''she/her'' (JArr sample_story)
                  None None world0 = (Inr doc2, w2)" "length doc2 = length sample_story + 3"
    "DrawString 300 400 ''[Illustration not available]'' \<in> set (doc2 ! (2 + 2))"
    "\<not> list_ex is_image (doc2 ! (2 + 2))"
    by blast
  ultimately show ?thesis using n by simp
qed

section \<open>What a returned document looks like\<close>

text \<open>
  The lemmas of this section assume nothing of the records: they read off, from a run of
  an assembler that returned, what it must have drawn.
\<close>

lemma animal_page2_returns:
  assumes "animal_page2 env pc name cd pd i r w = (Inr u, w')"
  shows "\<exists>bg rest. cycle_color pc i = Inr bg
           \<and> done_pages w' = done_pages w
                @ [cur_page w @ SetFillColorRGB bg # Rect 0 0 (fst letter) (snd letter) True True # rest]
           \<and> cur_page w' = []"
proof -
  obtain animal where a: "py_getitem r ''animal'' = Inr animal"
    using assms by (cases "py_getitem r ''animal''") (simp_all add: animal_page2_def)
  obtain bg where b: "cycle_color pc i = Inr bg"
    using assms a by (cases "cycle_color pc i") (simp_all add: animal_page2_def)
  obtain heading where h: "py_title animal = Inr heading"
    using assms a b by (cases "py_title animal") (simp_all add: animal_page2_def Let_def)
  define w1 where "w1 = draw [DrawCentredString 300 760 (''The '' @ heading)]
               (draw [SetFillColorRGB bg,
                      Rect 0 0 (fst letter) (snd letter) True True,
                      SetFillColorRGB (0.3, 0.3, 0.7),
                      RoundRect 50 730 500 60 10 True True,
                      SetFillColorRGB (1, 1, 1),
                      SetFont ''Helvetica-Bold'' 22] w)"
  obtain img w2 where g: "generate_ghibli_scene env cd r pd w1 = (img, w2)"
    by (cases "generate_ghibli_scene env cd r pd w1")
  have w2: "done_pages w2 = done_pages w" "cur_page w2 = cur_page w1"
    using generate_ghibli_scene_keeps[of env cd r pd w1] g by (simp_all add: w1_def world_fields)
  have c1: "cur_page w1 = cur_page w @ SetFillColorRGB bg # Rect 0 0 (fst letter) (snd letter) True True
              # [SetFillColorRGB (0.3, 0.3, 0.7),
                 RoundRect 50 730 500 60 10 True True,
                 SetFillColorRGB (1, 1, 1),
                 SetFont ''Helvetica-Bold'' 22,
                 DrawCentredString 300 760 (''The '' @ heading)]"
    by (simp add: w1_def world_fields)
  obtain description where d: "py_getitem r ''description'' = Inr description"
    using assms a b h g[unfolded w1_def]
    by (cases "py_getitem r ''description''") (simp_all add: animal_page2_def Let_def)
  obtain interaction where n: "py_getitem r ''interaction'' = Inr interaction"
    using assms a b h d g[unfolded w1_def]
    by (cases "py_getitem r ''interaction''") (simp_all add: animal_page2_def Let_def)
  have "fst (animal_page2 env pc name cd pd i r w) = Inl e" if "drawn_text env interaction = Inl e" for e
    unfolding animal_page2_def using g[unfolded w1_def] by (simp add: a b h d n that Let_def)
  with assms obtain t where t: "drawn_text env interaction = Inr t"
    by (cases "drawn_text env interaction") auto
  define W where "W = showPage
           (draw [SetFillColorRGB (0.3, 0.3, 0.6),
                  Circle 550 50 20 True True,
                  SetFillColorRGB (1, 1, 1),
                  SetFont ''Helvetica-Bold'' 14,
                  DrawCentredString 550 45 (show_nat (i + 1))]
              (illustration2 env animal img
                 (draw [DrawString 90 640 t,
                        SetStrokeColorRGB (0.5, 0.5, 0.7),
                        SetLineWidth 2,
                        Line 100 625 500 625]
                    (draw [DrawString 100 670 (''But it was '' @ fmt env description @ ''!''),
                           SetFillColorRGB (0.2, 0.3, 0.2),
                           SetFont ''Helvetica-Oblique'' 18]
                       (draw [SetFillColorRGB (0.2, 0.2, 0.4),
                              SetFont ''Helvetica-BoldOblique'' 18,
                              DrawString 90 700 (''They sent '' @ name @ '' a '' @ fmt env animal @ ''...''),
                              SetFillColorRGB (0.5, 0.1, 0.1),
                              SetFont ''Helvetica-Bold'' 18] w2)))))"
  have "animal_page2 env pc name cd pd i r w = (Inr (), W)"
    unfolding animal_page2_def W_def using g[unfolded w1_def] by (simp add: a b h d n t Let_def)
  with assms have "w' = W"
    by simp
  define rest where "rest = [SetFillColorRGB (0.3, 0.3, 0.7),
                 RoundRect 50 730 500 60 10 True True,
                 SetFillColorRGB (1, 1, 1),
                 SetFont ''Helvetica-Bold'' 22,
                 DrawCentredString 300 760 (''The '' @ heading),
                 SetFillColorRGB (0.2, 0.2, 0.4),
                 SetFont ''Helvetica-BoldOblique'' 18,
                 DrawString 90 700 (''They sent '' @ name @ '' a '' @ fmt env animal @ ''...''),
                 SetFillColorRGB (0.5, 0.1, 0.1),
                 SetFont ''Helvetica-Bold'' 18,
                 DrawString 100 670 (''But it was '' @ fmt env description @ ''!''),
                 SetFillColorRGB (0.2, 0.3, 0.2),
                 SetFont ''Helvetica-Oblique'' 18,
                 DrawString 90 640 t,
                 SetStrokeColorRGB (0.5, 0.5, 0.7),
                 SetLineWidth 2,
                 Line 100 625 500 625] @ picture2 env img @
                [SetFillColorRGB (0.3, 0.3, 0.6),
                 Circle 550 50 20 True True,
                 SetFillColorRGB (1, 1, 1),
                 SetFont ''Helvetica-Bold'' 14,
                 DrawCentredString 550 45 (show_nat (i + 1))]"
  have "done_pages W = done_pages w
          @ [cur_page w @ SetFillColorRGB bg # Rect 0 0 (fst letter) (snd letter) True True # rest]"
    and "cur_page W = []"
    by (simp_all add: W_def rest_def world_fields illustration2_fields w2 c1)
  with b \<open>w' = W\<close> show ?thesis
    by (intro exI[of _ bg] exI[of _ rest]) (simp only: simp_thms)
qed

lemma animal_pages2_returns:
  assumes "animal_pages2 env pc name cd pd i items w = (Inr u, w')" "cur_page w = []"
  shows "\<exists>ps. done_pages w' = done_pages w @ ps \<and> length ps = length items \<and> cur_page w' = []
           \<and> (\<forall>j<length items. \<exists>bg rest. cycle_color pc (i + j) = Inr bg
                 \<and> ps ! j = SetFillColorRGB bg # Rect 0 0 (fst letter) (snd letter) True True # rest)"
  using assms
proof (induction items arbitrary: w i)
  case Nil
  then show ?case by simp
next
  case (Cons r items)
  from Cons.prems(1) obtain w1 where s: "animal_page2 env pc name cd pd i r w = (Inr (), w1)"
    and l: "animal_pages2 env pc name cd pd (Suc i) items w1 = (Inr u, w')"
    by (auto split: prod.splits sum.splits)
  from animal_page2_returns[OF s] Cons.prems(2) obtain bg rest where p:
    "cycle_color pc i = Inr bg"
    "done_pages w1 = done_pages w @ [SetFillColorRGB bg # Rect 0 0 (fst letter) (snd letter) True True # rest]"
    "cur_page w1 = []"
    by auto
  from Cons.IH[OF l p(3)] obtain ps where q: "done_pages w' = done_pages w1 @ ps" "length ps = length items"
    "cur_page w' = []"
    "\<forall>j<length items. \<exists>bg rest. cycle_color pc (Suc i + j) = Inr bg
                 \<and> ps ! j = SetFillColorRGB bg # Rect 0 0 (fst letter) (snd letter) True True # rest"
    by blast
  let ?ps = "(SetFillColorRGB bg # Rect 0 0 (fst letter) (snd letter) True True # rest) # ps"
  have "\<exists>bg rest. cycle_color pc (i + j) = Inr bg
                 \<and> ?ps ! j = SetFillColorRGB bg # Rect 0 0 (fst letter) (snd letter) True True # rest"
    if "j < length (r # items)" for j
  proof (cases j)
    case 0
    with p(1) show ?thesis by (intro exI[of _ bg] exI[of _ rest]) simp
  next
    case (Suc k)
    with that q(4) show ?thesis by simp
  qed
  with p(2) q show ?case by (intro exI[of _ ?ps]) simp
qed

lemma list_get_0:
  "list_get xs 0 = Inr x \<Longrightarrow> xs \<noteq> [] \<and> x = xs ! 0"
  by (cases xs) (simp_all add: list_get_def)

lemma create_stylish_storybook_returns:
  assumes "create_stylish_storybook env name gender story_data pd user_image w = (Inr doc, w')"
  shows "\<exists>cp items cover intro ps ending.
           dict_get pronouns gender = Inr cp \<and> py_iter story_data = Inr items
           \<and> doc = [cover, intro] @ ps @ [ending] \<and> length ps = length items
           \<and> shuffled env PASTEL_COLORS \<noteq> []
           \<and> page_background intro = Some (shuffled env PASTEL_COLORS ! 0)
           \<and> (\<forall>j<length items. page_background (ps ! j)
                  = Some (shuffled env PASTEL_COLORS ! (j mod length (shuffled env PASTEL_COLORS))))
           \<and> DrawCentredString 300 600 (capitalize (subject_of cp) @ '' asked them to send a perfect pet,'')
               \<in> set intro
           \<and> DrawCentredString 300 500 (''It was just what '' @ subject_of cp @ '' wanted!'') \<in> set ending"
proof -
  let ?pc = "shuffled env PASTEL_COLORS"
  let ?w1 = "cover_page2 env name user_image (new_canvas w)"
  let ?cd = "child_description_of name gender"
  have "fst (create_stylish_storybook env name gender story_data pd user_image w) = Inl e"
    if "dict_get pronouns gender = Inl e" for e
    using that by (simp add: create_stylish_storybook_def)
  with assms obtain cp where cp: "dict_get pronouns gender = Inr cp"
    by (cases "dict_get pronouns gender") auto
  have "fst (create_stylish_storybook env name gender story_data pd user_image w) = Inl e"
    if "py_len story_data = Inl e" for e
    using that by (simp add: create_stylish_storybook_def cp)
  with assms obtain n where n: "py_len story_data = Inr n"
    by (cases "py_len story_data") auto
  have "fst (create_stylish_storybook env name gender story_data pd user_image w) = Inl e"
    if "list_get ?pc 0 = Inl e" for e
    using that by (simp add: create_stylish_storybook_def cp n Let_def)
  with assms obtain bg where bg: "list_get ?pc 0 = Inr bg"
    by (cases "list_get ?pc 0") auto
  from list_get_0[OF bg] have pc: "?pc \<noteq> []" "bg = ?pc ! 0"
    by simp_all
  let ?w2 = "intro_page2 bg name cp ?w1"
  have "fst (create_stylish_storybook env name gender story_data pd user_image w) = Inl e"
    if "py_iter story_data = Inl e" for e
    using that by (simp add: create_stylish_storybook_def cp n bg Let_def)
  with assms obtain items where it: "py_iter story_data = Inr items"
    by (cases "py_iter story_data") auto
  obtain r3 w3 where l0: "animal_pages2 env ?pc name ?cd pd 0 items ?w2 = (r3, w3)"
    by (cases "animal_pages2 env ?pc name ?cd pd 0 items ?w2")
  have "fst (create_stylish_storybook env name gender story_data pd user_image w) = Inl e"
    if "r3 = Inl e" for e
    using l0 that by (simp add: create_stylish_storybook_def cp n bg it Let_def)
  with assms obtain u where u: "r3 = Inr u"
    by (cases r3) auto
  note l = l0[unfolded u]
  have run: "create_stylish_storybook env name gender story_data pd user_image w
        = (Inr (done_pages (end_page2 name cp w3)), end_page2 name cp w3)"
    using l by (simp add: create_stylish_storybook_def cp n bg it Let_def save_def)
  obtain cover where c: "done_pages ?w1 = [cover]"
    using cover_page2_fields(1)[of env name user_image "new_canvas w"] by (auto simp: world_fields)
  obtain p where i: "done_pages ?w2
      = [cover, SetFillColorRGB bg # Rect 0 0 (fst letter) (snd letter) True True # p]"
    "DrawCentredString 300 600 (capitalize (subject_of cp) @ '' asked them to send a perfect pet,'') \<in> set p"
    using intro_page2_fields(1)[of bg name cp ?w1] c by (auto simp: cover_page2_fields(2))
  have s: "cur_page ?w2 = []"
    by (simp add: intro_page2_fields)
  obtain ps where q: "done_pages w3 = done_pages ?w2 @ ps" "length ps = length items" "cur_page w3 = []"
    "\<forall>j<length items. \<exists>bg rest. cycle_color ?pc (0 + j) = Inr bg
        \<and> ps ! j = SetFillColorRGB bg # Rect 0 0 (fst letter) (snd letter) True True # rest"
    using animal_pages2_returns[OF l s] by blast
  obtain ending where e: "done_pages (end_page2 name cp w3) = done_pages w3 @ [ending]"
    "DrawCentredString 300 500 (''It was just what '' @ subject_of cp @ '' wanted!'') \<in> set ending"
    using end_page2_fields(1)[of name cp w3] q(3) by auto
  let ?intro = "SetFillColorRGB bg # Rect 0 0 (fst letter) (snd letter) True True # p"
  have 1: "doc = [cover, ?intro] @ ps @ [ending]"
    using assms run e(1) q(1) i(1) by simp
  have 2: "page_background ?intro = Some (?pc ! 0)"
    by (simp add: pc(2))
  have 3: "\<forall>j<length items. page_background (ps ! j) = Some (?pc ! (j mod length ?pc))"
  proof (intro allI impI)
    fix j assume "j < length items"
    with q(4) obtain b rest where "cycle_color ?pc j = Inr b"
      "ps ! j = SetFillColorRGB b # Rect 0 0 (fst letter) (snd letter) True True # rest"
      by auto
    then show "page_background (ps ! j) = Some (?pc ! (j mod length ?pc))"
      by (simp add: cycle_color_nonempty[OF pc(1)])
  qed
  have 4: "DrawCentredString 300 600 (capitalize (subject_of cp) @ '' asked them to send a perfect pet,'')
             \<in> set ?intro"
    using i(2) by simp
  from cp it 1 q(2) pc(1) 2 3 4 e(2) show ?thesis by blast
qed

subsection \<open>The same for main3.py\<close>

lemma generate_ghibli_scene3_keeps:
  "done_pages (snd (generate_ghibli_scene3 env cd r pd dcd w)) = done_pages w"
  "cur_page (snd (generate_ghibli_scene3 env cd r pd dcd w)) = cur_page w"
  by (simp_all add: generate_ghibli_scene3_def post_def world_fields split: sum.splits)

lemma animal_page3_returns:
  assumes "animal_page3 env pc name cd pd dcd i r w = (Inr u, w')"
  shows "\<exists>bg rest. cycle_color pc i = Inr bg
           \<and> done_pages w' = done_pages w
                @ [cur_page w @ SetFillColorRGB bg # Rect 0 0 (fst letter) (snd letter) True True # rest]
           \<and> cur_page w' = []"
proof -
  obtain animal where a: "py_getitem r ''animal'' = Inr animal"
    using assms by (cases "py_getitem r ''animal''") (simp_all add: animal_page3_def)
  obtain bg where b: "cycle_color pc i = Inr bg"
    using assms a by (cases "cycle_color pc i") (simp_all add: animal_page3_def)
  obtain heading where h: "py_title animal = Inr heading"
    using assms a b by (cases "py_title animal") (simp_all add: animal_page3_def Let_def)
  define w1 where "w1 = draw [DrawCentredString 300 760 (''The '' @ heading)]
               (draw [SetFillColorRGB bg,
                      Rect 0 0 (fst letter) (snd letter) True True,
                      SetFillColorRGB SUBTITLE_COLOR,
                      RoundRect 50 730 500 60 10 True True,
                      SetFillColorRGB (1, 1, 1),
                      SetFont TITLE_FONT SUBTITLE_SIZE] w)"
  obtain img w2 where g: "generate_ghibli_scene3 env cd r pd dcd w1 = (img, w2)"
    by (cases "generate_ghibli_scene3 env cd r pd dcd w1")
  have w2: "done_pages w2 = done_pages w" "cur_page w2 = cur_page w1"
    using generate_ghibli_scene3_keeps[of env cd r pd dcd w1] g by (simp_all add: w1_def world_fields)
  have c1: "cur_page w1 = cur_page w @ SetFillColorRGB bg # Rect 0 0 (fst letter) (snd letter) True True
              # [SetFillColorRGB SUBTITLE_COLOR,
                 RoundRect 50 730 500 60 10 True True,
                 SetFillColorRGB (1, 1, 1),
                 SetFont TITLE_FONT SUBTITLE_SIZE,
                 DrawCentredString 300 760 (''The '' @ heading)]"
    by (simp add: w1_def world_fields)
  have "fst (animal_page3 env pc name cd pd dcd i r w) = Inl e" if "py_getitem r ''description'' = Inl e" for e
    unfolding animal_page3_def using g[unfolded w1_def] by (simp add: a b h that Let_def)
  with assms obtain description where d: "py_getitem r ''description'' = Inr description"
    by (cases "py_getitem r ''description''") auto
  have "fst (animal_page3 env pc name cd pd dcd i r w) = Inl e" if "py_getitem r ''interaction'' = Inl e" for e
    unfolding animal_page3_def using g[unfolded w1_def] by (simp add: a b h d that Let_def)
  with assms obtain interaction where n: "py_getitem r ''interaction'' = Inr interaction"
    by (cases "py_getitem r ''interaction''") auto
  have "fst (animal_page3 env pc name cd pd dcd i r w) = Inl e" if "drawn_text env interaction = Inl e" for e
    unfolding animal_page3_def using g[unfolded w1_def] by (simp add: a b h d n that Let_def)
  with assms obtain t where t: "drawn_text env interaction = Inr t"
    by (cases "drawn_text env interaction") auto
  define W where "W = showPage
           (draw [SetFillColorRGB SUBTITLE_COLOR,
                  Circle 550 50 20 True True,
                  SetFillColorRGB (1, 1, 1),
                  SetFont TITLE_FONT TINY_SIZE,
                  DrawCentredString 550 45 (show_nat (i + 1))]
              (illustration2 env animal img
                 (draw [DrawString 90 640 t,
                        SetStrokeColorRGB (0.5, 0.5, 0.7),
                        SetLineWidth 2,
                        Line 100 625 500 625]
                    (draw [DrawString 100 670 (''But it was '' @ fmt env description @ ''!''),
                           SetFillColorRGB BODY_COLOR,
                           SetFont EMPHASIS_FONT BODY_SIZE]
                       (draw [SetFillColorRGB BODY_COLOR,
                              SetFont BODY_FONT BODY_SIZE,
                              DrawString 90 700 (''They sent '' @ name @ '' a '' @ fmt env animal @ ''...''),
                              SetFillColorRGB EMPHASIS_COLOR,
                              SetFont TITLE_FONT BODY_SIZE] w2)))))"
  have "animal_page3 env pc name cd pd dcd i r w = (Inr (), W)"
    unfolding animal_page3_def W_def using g[unfolded w1_def] by (simp add: a b h d n t Let_def)
  with assms have "w' = W"
    by simp
  define rest where "rest = [SetFillColorRGB SUBTITLE_COLOR,
                 RoundRect 50 730 500 60 10 True True,
                 SetFillColorRGB (1, 1, 1),
                 SetFont TITLE_FONT SUBTITLE_SIZE,
                 DrawCentredString 300 760 (''The '' @ heading),
                 SetFillColorRGB BODY_COLOR,
                 SetFont BODY_FONT BODY_SIZE,
                 DrawString 90 700 (''They sent '' @ name @ '' a '' @ fmt env animal @ ''...''),
                 SetFillColorRGB EMPHASIS_COLOR,
                 SetFont TITLE_FONT BODY_SIZE,
                 DrawString 100 670 (''But it was '' @ fmt env description @ ''!''),
                 SetFillColorRGB BODY_COLOR,
                 SetFont EMPHASIS_FONT BODY_SIZE,
                 DrawString 90 640 t,
                 SetStrokeColorRGB (0.5, 0.5, 0.7),
                 SetLineWidth 2,
                 Line 100 625 500 625] @ picture2 env img @
                [SetFillColorRGB SUBTITLE_COLOR,
                 Circle 550 50 20 True True,
                 SetFillColorRGB (1, 1, 1),
                 SetFont TITLE_FONT TINY_SIZE,
                 DrawCentredString 550 45 (show_nat (i + 1))]"
  have "done_pages W = done_pages w
          @ [cur_page w @ SetFillColorRGB bg # Rect 0 0 (fst letter) (snd letter) True True # rest]"
    and "cur_page W = []"
    by (simp_all add: W_def rest_def world_fields illustration2_fields w2 c1)
  with b \<open>w' = W\<close> show ?thesis
    by (intro exI[of _ bg] exI[of _ rest]) (simp only: simp_thms)
qed

lemma animal_pages3_returns:
  assumes "animal_pages3 env pc name cd pd dcd i items w = (Inr u, w')" "cur_page w = []"
  shows "\<exists>ps. done_pages w' = done_pages w @ ps \<and> length ps = length items \<and> cur_page w' = []
           \<and> (\<forall>j<length items. \<exists>bg rest. cycle_color pc (i + j) = Inr bg
                 \<and> ps ! j = SetFillColorRGB bg # Rect 0 0 (fst letter) (snd letter) True True # rest)"
  using assms
proof (induction items arbitrary: w i)
  case Nil
  then show ?case by simp
next
  case (Cons r items)
  from Cons.prems(1) obtain w1 where s: "animal_page3 env pc name cd pd dcd i r w = (Inr (), w1)"
    and l: "animal_pages3 env pc name cd pd dcd (Suc i) items w1 = (Inr u, w')"
    by (auto split: prod.splits sum.splits)
  from animal_page3_returns[OF s] Cons.prems(2) obtain bg rest where p:
    "cycle_color pc i = Inr bg"
    "done_pages w1 = done_pages w @ [SetFillColorRGB bg # Rect 0 0 (fst letter) (snd letter) True True # rest]"
    "cur_page w1 = []"
    by auto
  from Cons.IH[OF l p(3)] obtain ps where q: "done_pages w' = done_pages w1 @ ps" "length ps = length items"
    "cur_page w' = []"
    "\<forall>j<length items. \<exists>bg rest. cycle_color pc (Suc i + j) = Inr bg
                 \<and> ps ! j = SetFillColorRGB bg # Rect 0 0 (fst letter) (snd letter) True True # rest"
    by blast
  let ?ps = "(SetFillColorRGB bg # Rect 0 0 (fst letter) (snd letter) True True # rest) # ps"
  have "\<exists>bg rest. cycle_color pc (i + j) = Inr bg
                 \<and> ?ps ! j = SetFillColorRGB bg # Rect 0 0 (fst letter) (snd letter) True True # rest"
    if "j < length (r # items)" for j
  proof (cases j)
    case 0
    with p(1) show ?thesis by (intro exI[of _ bg] exI[of _ rest]) simp
  next
    case (Suc k)
    with that q(4) show ?thesis by simp
  qed
  with p(2) q show ?case by (intro exI[of _ ?ps]) simp
qed

lemma cover_page3_fields:
  "\<exists>p. done_pages (cover_page3 env name user_image w) = done_pages w @ [cur_page w @ p]"
  "cur_page (cover_page3 env name user_image w) = []"
  "sent (cover_page3 env name user_image w) = sent w"
proof -
  define pre where "pre = [SetFillColorRGB (1.0, 0.98, 0.9),
                      Rect 0 0 (fst letter) (snd letter) True True,
                      SetStrokeColorRGB (0.8, 0.7, 0.3),
                      SetLineWidth 5,
                      Rect 20 20 (fst letter - 40) (snd letter - 40) True False,
                      SetFillColorRGB (0.3, 0.3, 0.7),
                      SetFont TITLE_FONT TITLE_SIZE,
                      DrawCentredString 302 748 (name @ '''s Magical Ghibli Zoo Adventure''),
                      SetFillColorRGB TITLE_COLOR,
                      DrawCentredString 300 750 (name @ '''s Magical Ghibli Zoo Adventure''),
                      SetFillColorRGB (0.3, 0.3, 0.3),
                      SetFont SUBTITLE_FONT SUBTITLE_SIZE,
                      DrawCentredString 300 700 ''A whimsical Studio Ghibli-style adventure'',
                      SetFillColorRGB (0.9, 0.8, 0.3)]
                     @ map (\<lambda>i. Circle (100 + int i * 100) 650 10 True True) [0..<5]"
  define post where "post = [SetFillColorRGB (0.3, 0.3, 0.3),
                         SetFont EMPHASIS_FONT TINY_SIZE,
                         DrawCentredString 300 100 (''Created especially for '' @ name),
                         DrawCentredString 300 80 ''April 2025'']"
  have eq: "cover_page3 env name user_image w
            = showPage (draw post (cover_photo env user_image (draw pre w)))"
    by (simp add: cover_page3_def Let_def pre_def post_def)
  obtain p where p: "cur_page (cover_photo env user_image (draw pre w)) = cur_page (draw pre w) @ p"
    using cover_photo_fields(2) by blast
  have "done_pages (cover_page3 env name user_image w) = done_pages w @ [cur_page w @ (pre @ p @ post)]"
    by (simp add: eq world_fields cover_photo_fields(1) p)
  then show "\<exists>p. done_pages (cover_page3 env name user_image w) = done_pages w @ [cur_page w @ p]"
    by blast
  show "cur_page (cover_page3 env name user_image w) = []"
    by (simp add: eq world_fields)
  show "sent (cover_page3 env name user_image w) = sent w"
    by (simp add: eq world_fields cover_photo_fields(3))
qed

lemma intro_page3_fields:
  "\<exists>p. done_pages (intro_page3 bg name cp w)
         = done_pages w @ [cur_page w @ SetFillColorRGB bg # Rect 0 0 (fst letter) (snd letter) True True # p]
       \<and> DrawCentredString 300 750 ''The Adventure Begins...'' \<in> set p
       \<and> DrawCentredString 300 600 (capitalize (subject_of cp) @ '' asked them to send a perfect pet,'')
           \<in> set p"
  "cur_page (intro_page3 bg name cp w) = []"
  "sent (intro_page3 bg name cp w) = sent w"
  by (simp_all add: intro_page3_def world_fields)

lemma end_page3_fields:
  "\<exists>p. done_pages (end_page3 name cp w) = done_pages w @ [cur_page w @ p]
       \<and> DrawCentredString 300 700 ''The End'' \<in> set p
       \<and> DrawCentredString 300 500 (''It was just what '' @ subject_of cp @ '' wanted!'') \<in> set p"
  "cur_page (end_page3 name cp w) = []"
  "sent (end_page3 name cp w) = sent w"
  by (simp_all add: end_page3_def world_fields)

lemma generate_ghibli_child_base_fields:
  "done_pages (snd (generate_ghibli_child_base env cd pd w)) = done_pages w"
  "cur_page (snd (generate_ghibli_child_base env cd pd w)) = cur_page w"
  by (simp_all add: generate_ghibli_child_base_def post_def world_fields split: sum.splits)

lemma generate_detailed_child_description_fields:
  "done_pages (snd (generate_detailed_child_description env b name pd w)) = done_pages w"
  "cur_page (snd (generate_detailed_child_description env b name pd w)) = cur_page w"
  by (simp_all add: generate_detailed_child_description_def post_def world_fields
      split: sum.splits option.splits)

lemma base_image_setup_fields:
  "done_pages (snd (base_image_setup env name cd pd w)) = done_pages w"
  "cur_page (snd (base_image_setup env name cd pd w)) = cur_page w"
proof -
  obtain b w1 where g: "generate_ghibli_child_base env cd pd w = (b, w1)"
    by (cases "generate_ghibli_child_base env cd pd w")
  have w1: "done_pages w1 = done_pages w" "cur_page w1 = cur_page w"
    using generate_ghibli_child_base_fields[of env cd pd w] g by simp_all
  obtain d w2 where h: "generate_detailed_child_description env b name pd w1 = (d, w2)"
    by (cases "generate_detailed_child_description env b name pd w1")
  have w2: "done_pages w2 = done_pages w" "cur_page w2 = cur_page w"
    using generate_detailed_child_description_fields[of env b name pd w1] h w1 by simp_all
  show "done_pages (snd (base_image_setup env name cd pd w)) = done_pages w"
    by (simp add: base_image_setup_def g h w1 w2 world_fields split: option.splits)
  show "cur_page (snd (base_image_setup env name cd pd w)) = cur_page w"
    by (simp add: base_image_setup_def g h w1 w2 world_fields split: option.splits)
qed

lemma create_stylish_storybook3_returns:
  assumes "create_stylish_storybook3 env name gender story_data pd user_image w = (Inr doc, w')"
  shows "\<exists>cp items cover intro ps ending.
           dict_get pronouns gender = Inr cp \<and> py_iter story_data = Inr items
           \<and> doc = [cover, intro] @ ps @ [ending] \<and> length ps = length items
           \<and> shuffled env PASTEL_COLORS \<noteq> []
           \<and> page_background intro = Some (shuffled env PASTEL_COLORS ! 0)
           \<and> (\<forall>j<length items. page_background (ps ! j)
                  = Some (shuffled env PASTEL_COLORS ! (j mod length (shuffled env PASTEL_COLORS))))
           \<and> DrawCentredString 300 600 (capitalize (subject_of cp) @ '' asked them to send a perfect pet,'')
               \<in> set intro
           \<and> DrawCentredString 300 500 (''It was just what '' @ subject_of cp @ '' wanted!'') \<in> set ending"
proof -
  let ?pc = "shuffled env PASTEL_COLORS"
  let ?cd = "child_description_of name gender"
  have "fst (create_stylish_storybook3 env name gender story_data pd user_image w) = Inl e"
    if "dict_get pronouns gender = Inl e" for e
    using that by (simp add: create_stylish_storybook3_def)
  with assms obtain cp where cp: "dict_get pronouns gender = Inr cp"
    by (cases "dict_get pronouns gender") auto
  have "fst (create_stylish_storybook3 env name gender story_data pd user_image w) = Inl e"
    if "py_len story_data = Inl e" for e
    using that by (simp add: create_stylish_storybook3_def cp)
  with assms obtain n where n: "py_len story_data = Inr n"
    by (cases "py_len story_data") auto
  obtain r0 w0 where s0: "base_image_setup env name ?cd pd (new_canvas w) = (r0, w0)"
    by (cases "base_image_setup env name ?cd pd (new_canvas w)")
  have "fst (create_stylish_storybook3 env name gender story_data pd user_image w) = Inl e"
    if "r0 = Inl e" for e
    using s0 that by (simp add: create_stylish_storybook3_def cp n Let_def)
  with assms obtain dcd where dcd: "r0 = Inr dcd"
    by (cases r0) auto
  note su = s0[unfolded dcd]
  have w0: "done_pages w0 = []" "cur_page w0 = []"
    using base_image_setup_fields[of env name ?cd pd "new_canvas w"] su
    by (simp_all add: world_fields)
  let ?w1 = "cover_page3 env name user_image w0"
  have "fst (create_stylish_storybook3 env name gender story_data pd user_image w) = Inl e"
    if "list_get ?pc 0 = Inl e" for e
    using su that by (simp add: create_stylish_storybook3_def cp n Let_def)
  with assms obtain bg where bg: "list_get ?pc 0 = Inr bg"
    by (cases "list_get ?pc 0") auto
  from list_get_0[OF bg] have pc: "?pc \<noteq> []" "bg = ?pc ! 0"
    by simp_all
  let ?w2 = "intro_page3 bg name cp ?w1"
  have "fst (create_stylish_storybook3 env name gender story_data pd user_image w) = Inl e"
    if "py_iter story_data = Inl e" for e
    using su that by (simp add: create_stylish_storybook3_def cp n bg Let_def)
  with assms obtain items where it: "py_iter story_data = Inr items"
    by (cases "py_iter story_data") auto
  obtain r3 w3 where l0: "animal_pages3 env ?pc name ?cd pd dcd 0 items ?w2 = (r3, w3)"
    by (cases "animal_pages3 env ?pc name ?cd pd dcd 0 items ?w2")
  have "fst (create_stylish_storybook3 env name gender story_data pd user_image w) = Inl e"
    if "r3 = Inl e" for e
    using su l0 that by (simp add: create_stylish_storybook3_def cp n bg it Let_def)
  with assms obtain u where u: "r3 = Inr u"
    by (cases r3) auto
  note l = l0[unfolded u]
  have run: "create_stylish_storybook3 env name gender story_data pd user_image w
        = (Inr (done_pages (end_page3 name cp w3)), end_page3 name cp w3)"
    using su l by (simp add: create_stylish_storybook3_def cp n bg it Let_def save_def)
  obtain cover where c: "done_pages ?w1 = [cover]"
    using cover_page3_fields(1)[of env name user_image w0] by (auto simp: w0)
  obtain p where i: "done_pages ?w2
      = [cover, SetFillColorRGB bg # Rect 0 0 (fst letter) (snd letter) True True # p]"
    "DrawCentredString 300 600 (capitalize (subject_of cp) @ '' asked them to send a perfect pet,'') \<in> set p"
    using intro_page3_fields(1)[of bg name cp ?w1] c by (auto simp: cover_page3_fields(2))
  have s: "cur_page ?w2 = []"
    by (simp add: intro_page3_fields)
  obtain ps where q: "done_pages w3 = done_pages ?w2 @ ps" "length ps = length items" "cur_page w3 = []"
    "\<forall>j<length items. \<exists>bg rest. cycle_color ?pc (0 + j) = Inr bg
        \<and> ps ! j = SetFillColorRGB bg # Rect 0 0 (fst letter) (snd letter) True True # rest"
    using animal_pages3_returns[OF l s] by blast
  obtain ending where e: "done_pages (end_page3 name cp w3) = done_pages w3 @ [ending]"
    "DrawCentredString 300 500 (''It was just what '' @ subject_of cp @ '' wanted!'') \<in> set ending"
    using end_page3_fields(1)[of name cp w3] q(3) by auto
  let ?intro = "SetFillColorRGB bg # Rect 0 0 (fst letter) (snd letter) True True # p"
  have 1: "doc = [cover, ?intro] @ ps @ [ending]"
    using assms run e(1) q(1) i(1) by simp
  have 2: "page_background ?intro = Some (?pc ! 0)"
    by (simp add: pc(2))
  have 3: "\<forall>j<length items. page_background (ps ! j) = Some (?pc ! (j mod length ?pc))"
  proof (intro allI impI)
    fix j assume "j < length items"
    with q(4) obtain b rest where "cycle_color ?pc j = Inr b"
      "ps ! j = SetFillColorRGB b # Rect 0 0 (fst letter) (snd letter) True True # rest"
      by auto
    then show "page_background (ps ! j) = Some (?pc ! (j mod length ?pc))"
      by (simp add: cycle_color_nonempty[OF pc(1)])
  qed
  have 4: "DrawCentredString 300 600 (capitalize (subject_of cp) @ '' asked them to send a perfect pet,'')
             \<in> set ?intro"
    using i(2) by simp
  from cp it 1 q(2) pc(1) 2 3 4 e(2) show ?thesis by blast
qed

subsection \<open>The run of main3.py on well-formed records\<close>

lemma scene_prompt3_wf:
  assumes "well_formed r"
  shows "scene_prompt3 env cd r pd dcd = Inr (prompt_of3 env cd r pd dcd)"
proof -
  from assms obtain kvs a d i where r: "r = JObj kvs" "map_of kvs ''animal'' = Some (JStr a)"
    "map_of kvs ''description'' = Some (JStr d)" "map_of kvs ''interaction'' = Some (JStr i)"
    by (rule well_formedE)
  show ?thesis
    unfolding prompt_of3_def by (simp add: scene_prompt3_def r Let_def)
qed

lemma generate_ghibli_scene3_wf:
  assumes "well_formed r"
  shows "sent (snd (generate_ghibli_scene3 env cd r pd dcd w))
           = sent w @ [GenerateImage (prompt_of3 env cd r pd dcd)]"
  by (simp add: generate_ghibli_scene3_def scene_prompt3_wf[OF assms] post_def world_fields
      split: sum.splits)

lemma animal_page3_wf:
  assumes "well_formed r" "pc \<noteq> []"
  shows "\<exists>w'. animal_page3 env pc name cd pd dcd i r w = (Inr (), w')
           \<and> sent w' = sent w @ [GenerateImage (prompt_of3 env cd r pd dcd)]"
proof -
  from assms(1) obtain kvs a d t where r: "r = JObj kvs" "map_of kvs ''animal'' = Some (JStr a)"
    "map_of kvs ''description'' = Some (JStr d)" "map_of kvs ''interaction'' = Some (JStr t)"
    by (rule well_formedE)
  define w1 where "w1 = draw [DrawCentredString 300 760 (''The '' @ title a)]
               (draw [SetFillColorRGB (pc ! (i mod length pc)),
                      Rect 0 0 (fst letter) (snd letter) True True,
                      SetFillColorRGB SUBTITLE_COLOR,
                      RoundRect 50 730 500 60 10 True True,
                      SetFillColorRGB (1, 1, 1),
                      SetFont TITLE_FONT SUBTITLE_SIZE] w)"
  obtain img w2 where g: "generate_ghibli_scene3 env cd r pd dcd w1 = (img, w2)"
    by (cases "generate_ghibli_scene3 env cd r pd dcd w1")
  have w2: "sent w2 = sent w @ [GenerateImage (prompt_of3 env cd r pd dcd)]"
    using generate_ghibli_scene3_wf[OF assms(1), of env cd pd dcd w1] g
    by (simp add: w1_def world_fields)
  define w' where "w' = showPage
           (draw [SetFillColorRGB SUBTITLE_COLOR,
                  Circle 550 50 20 True True,
                  SetFillColorRGB (1, 1, 1),
                  SetFont TITLE_FONT TINY_SIZE,
                  DrawCentredString 550 45 (show_nat (i + 1))]
              (illustration2 env (JStr a) img
                 (draw [DrawString 90 640 t,
                        SetStrokeColorRGB (0.5, 0.5, 0.7),
                        SetLineWidth 2,
                        Line 100 625 500 625]
                    (draw [DrawString 100 670 (''But it was '' @ d @ ''!''),
                           SetFillColorRGB BODY_COLOR,
                           SetFont EMPHASIS_FONT BODY_SIZE]
                       (draw [SetFillColorRGB BODY_COLOR,
                              SetFont BODY_FONT BODY_SIZE,
                              DrawString 90 700 (''They sent '' @ name @ '' a '' @ a @ ''...''),
                              SetFillColorRGB EMPHASIS_COLOR,
                              SetFont TITLE_FONT BODY_SIZE] w2)))))"
  have run: "animal_page3 env pc name cd pd dcd i r w = (Inr (), w')"
    unfolding animal_page3_def w'_def
    using g[unfolded r(1) w1_def]
    by (simp add: r cycle_color_nonempty[OF assms(2)] Let_def)
  have "sent w' = sent w @ [GenerateImage (prompt_of3 env cd r pd dcd)]"
    unfolding w'_def by (simp add: world_fields illustration2_fields w2)
  with run show ?thesis by blast
qed

lemma animal_pages3_wf:
  assumes "\<forall>r\<in>set recs. well_formed r" "pc \<noteq> []"
  shows "\<exists>w'. animal_pages3 env pc name cd pd dcd i0 recs w = (Inr (), w')
           \<and> sent w' = sent w @ map (\<lambda>r. GenerateImage (prompt_of3 env cd r pd dcd)) recs"
  using assms(1)
proof (induction recs arbitrary: w i0)
  case Nil
  then show ?case by simp
next
  case (Cons r recs)
  from Cons.prems obtain w1 where w1: "animal_page3 env pc name cd pd dcd i0 r w = (Inr (), w1)"
     "sent w1 = sent w @ [GenerateImage (prompt_of3 env cd r pd dcd)]"
    using animal_page3_wf[of r pc env name cd pd dcd i0 w] assms(2) by auto
  from Cons.IH[of "Suc i0" w1] Cons.prems obtain w'
    where w': "animal_pages3 env pc name cd pd dcd (Suc i0) recs w1 = (Inr (), w')"
    "sent w' = sent w1 @ map (\<lambda>r. GenerateImage (prompt_of3 env cd r pd dcd)) recs"
    by auto
  from w1 w' show ?case by simp
qed

text \<open>
  When the setup of the base picture does not raise, \<^verbatim>\<open>main3.py\<close> goes on to the pages:
  for well-formed records it returns a document and has sent one scene request per
  record, each with the description the setup gave.
\<close>

lemma create_stylish_storybook3_wf:
  assumes "\<forall>r\<in>set recs. well_formed r" "gender \<in> pronoun_sets"
    and "mset (shuffled env PASTEL_COLORS) = mset PASTEL_COLORS"
    and "base_image_setup env name (child_description_of name gender) pd (new_canvas w) = (Inr dcd, w1)"
  shows "\<exists>doc w'. create_stylish_storybook3 env name gender (JArr recs) pd user_image w = (Inr doc, w')
           \<and> length doc = length recs + 3
           \<and> sent w' = sent w1 @ map (\<lambda>r. GenerateImage (prompt_of3 env (child_description_of name gender)
                                                              r pd dcd)) recs"
proof -
  let ?pc = "shuffled env PASTEL_COLORS"
  let ?cd = "child_description_of name gender"
  let ?w2 = "cover_page3 env name user_image w1"
  obtain cp where cp: "dict_get pronouns gender = Inr cp"
    using pronoun_sets_get[OF assms(2)] by blast
  have pc: "?pc \<noteq> []" by (rule shuffled_nonempty[OF assms(3)])
  then have bg: "list_get ?pc 0 = Inr (?pc ! 0)" by (simp add: list_get_def)
  let ?w3 = "intro_page3 (?pc ! 0) name cp ?w2"
  have s: "sent ?w3 = sent w1"
    by (simp add: intro_page3_fields cover_page3_fields)
  obtain w4 where l: "animal_pages3 env ?pc name ?cd pd dcd 0 recs ?w3 = (Inr (), w4)"
    "sent w4 = sent w1 @ map (\<lambda>r. GenerateImage (prompt_of3 env ?cd r pd dcd)) recs"
    using animal_pages3_wf[OF assms(1) pc, of env name ?cd pd dcd 0 ?w3] s by auto
  have run: "create_stylish_storybook3 env name gender (JArr recs) pd user_image w
        = (Inr (done_pages (end_page3 name cp w4)), end_page3 name cp w4)"
    using assms(4) l(1) by (simp add: create_stylish_storybook3_def cp bg Let_def save_def)
  from create_stylish_storybook3_returns[OF run] obtain cover intro ps ending where
    "done_pages (end_page3 name cp w4) = [cover, intro] @ ps @ [ending]" "length ps = length recs"
    by auto
  then have "length (done_pages (end_page3 name cp w4)) = length recs + 3"
    by simp
  with run l(2) show ?thesis by (simp add: end_page3_fields(3))
qed

section \<open>The pronoun table and the page backgrounds\<close>

lemma pages_nth:
  "length ([c, t] @ ps @ [e]) = length ps + 3"
  "([c, t] @ ps @ [e]) ! 1 = t"
  "i < length ps \<Longrightarrow> ([c, t] @ ps @ [e]) ! (i + 2) = ps ! i"
  "last ([c, t] @ ps @ [e]) = e"
  by (simp_all add: nth_append)

lemma pronouns_dom:
  "(\<exists>cp. dict_get pronouns gender = Inr cp) = (gender \<in> pronoun_sets)"
  by (auto simp: pronoun_sets_def dict_get_def pronouns_def)

lemma dict_get_KeyError:
  "gender \<notin> pronoun_sets \<Longrightarrow> dict_get pronouns gender = Inl (KeyError gender)"
  by (simp add: pronoun_sets_def dict_get_def pronouns_def)

text \<open>
  Claim C9: the table lookup \<^verbatim>\<open>pronouns[gender]\<close> succeeds exactly for \<^verbatim>\<open>she/her\<close>,
  \<^verbatim>\<open>he/him\<close> and \<^verbatim>\<open>they/them\<close>. For every other gender string the assemblers of
  \<^verbatim>\<open>main2.py\<close> and \<^verbatim>\<open>main3.py\<close> end with \<^verbatim>\<open>KeyError(gender)\<close> and leave the state as it
  was: no page is drawn, no request is sent, nothing is shown.
\<close>

theorem unknown_pronoun_set_is_a_key_error:
  "(\<exists>cp. dict_get pronouns gender = Inr cp) = (gender \<in> pronoun_sets)
   \<and> (gender \<notin> pronoun_sets \<longrightarrow>
        create_stylish_storybook env name gender story_data pd user_image w = (Inl (KeyError gender), w)
        \<and> create_stylish_storybook3 env name gender story_data pd user_image w = (Inl (KeyError gender), w))"
  by (simp add: pronouns_dom create_stylish_storybook_def create_stylish_storybook3_def dict_get_KeyError)

theorem unknown_pronoun_set_is_a_key_error_witness:
  "create_stylish_storybook (env_of all_succeed JNull) ''Aanya'' ''xe/xem'' (JArr sample_story) None None world0
     = (Inl (KeyError ''xe/xem''), world0)
   \<and> create_stylish_storybook3 (env_of all_succeed JNull) ''Aanya'' ''xe/xem'' (JArr sample_story) None None
       world0
     = (Inl (KeyError ''xe/xem''), world0)"
  using unknown_pronoun_set_is_a_key_error
          [of "''xe/xem''" "env_of all_succeed JNull" "''Aanya''" "JArr sample_story" None None world0]
  by (simp add: pronoun_sets_def)

text \<open>
  Claim C10: whenever the assembler of \<^verbatim>\<open>main2.py\<close> or of \<^verbatim>\<open>main3.py\<close> returns a document
  for at least one record, the intro page (page 1) and the first animal page (page 2)
  have the same background, the first entry of the shuffled palette; the animal page
  of record \<open>i\<close> has the entry \<open>i mod\<close> the palette's length.
\<close>

theorem intro_and_first_animal_page_share_background:
  assumes "create_stylish_storybook env name gender story_data pd user_image w = (Inr doc, w')
           \<or> create_stylish_storybook3 env name gender story_data pd user_image w = (Inr doc, w')"
    and "py_iter story_data = Inr items" and "items \<noteq> []"
  shows "length doc = length items + 3
       \<and> page_background (doc ! 1) = Some (shuffled env PASTEL_COLORS ! 0)
       \<and> page_background (doc ! 2) = Some (shuffled env PASTEL_COLORS ! 0)
       \<and> (\<forall>i<length items. page_background (doc ! (i + 2))
             = Some (shuffled env PASTEL_COLORS ! (i mod length (shuffled env PASTEL_COLORS))))"
proof -
  let ?pc = "shuffled env PASTEL_COLORS"
  from assms(1) obtain its cover intro ps ending where
    "py_iter story_data = Inr its" and d: "doc = [cover, intro] @ ps @ [ending]"
    and "length ps = length its" and pc: "?pc \<noteq> []"
    and i: "page_background intro = Some (?pc ! 0)"
    and "\<forall>j<length its. page_background (ps ! j) = Some (?pc ! (j mod length ?pc))"
    using create_stylish_storybook_returns[of env name gender story_data pd user_image w doc w']
      create_stylish_storybook3_returns[of env name gender story_data pd user_image w doc w']
    by blast
  with assms(2) have n: "length ps = length items"
    and a: "\<forall>j<length items. page_background (ps ! j) = Some (?pc ! (j mod length ?pc))"
    by simp_all
  have 1: "length doc = length items + 3"
    by (simp only: d pages_nth n)
  have 2: "page_background (doc ! 1) = Some (?pc ! 0)"
    by (simp only: d pages_nth i)
  have 4: "\<forall>i<length items. page_background (doc ! (i + 2)) = Some (?pc ! (i mod length ?pc))"
  proof (intro allI impI)
    fix i assume "i < length items"
    with a n show "page_background (doc ! (i + 2)) = Some (?pc ! (i mod length ?pc))"
      by (simp only: d pages_nth)
  qed
  from assms(3) have "0 < length items" by simp
  with 4 have "page_background (doc ! (0 + 2)) = Some (?pc ! (0 mod length ?pc))" by blast
  then have 3: "page_background (doc ! 2) = Some (?pc ! 0)" by (simp add: numeral_2_eq_2)
  from 1 2 3 4 show ?thesis by blast
qed

theorem intro_and_first_animal_page_share_background_witness:
  "(\<exists>doc w'. create_stylish_storybook (env_of all_succeed JNull) ''Aanya'' ''she/her'' (JArr sample_story)
                None None world0 = (Inr doc, w')
            \<and> page_background (doc ! 1) = Some (1.0, 0.95, 0.95)
            \<and> page_background (doc ! 2) = Some (1.0, 0.95, 0.95))
   \<and> (\<exists>doc w'. create_stylish_storybook3 (env_of images_fail JNull) ''Aanya'' ''she/her'' (JArr sample_story)
                None None world0 = (Inr doc, w')
            \<and> page_background (doc ! 1) = Some (1.0, 0.95, 0.95)
            \<and> page_background (doc ! 2) = Some (1.0, 0.95, 0.95))"
proof (rule conjI)
  let ?env = "env_of all_succeed JNull"
  obtain doc w' where d: "create_stylish_storybook ?env ''Aanya'' ''she/her'' (JArr sample_story)
                None None world0 = (Inr doc, w')"
    using create_stylish_storybook_wf[OF sample_story_wf sample_gender(1) env_of_shuffled,
        of all_succeed JNull "''Aanya''" None None world0]
    by blast
  have "page_background (doc ! 1) = Some (1.0, 0.95, 0.95)
      \<and> page_background (doc ! 2) = Some (1.0, 0.95, 0.95)"
    using intro_and_first_animal_page_share_background
            [of ?env "''Aanya''" "''she/her''" "JArr sample_story" None None world0 doc w' sample_story]
      d
    by (simp add: sample_story_def env_of_fields PASTEL_COLORS_def)
  with d show "\<exists>doc w'. create_stylish_storybook ?env ''Aanya'' ''she/her'' (JArr sample_story)
                None None world0 = (Inr doc, w')
            \<and> page_background (doc ! 1) = Some (1.0, 0.95, 0.95)
            \<and> page_background (doc ! 2) = Some (1.0, 0.95, 0.95)"
    by blast
next
  let ?env = "env_of images_fail JNull"
  have b: "base_image_setup ?env ''Aanya'' (child_description_of ''Aanya'' ''she/her'') None
             (new_canvas world0)
           = (Inr None, snd (base_image_setup ?env ''Aanya'' (child_description_of ''Aanya'' ''she/her'') None
             (new_canvas world0)))"
    by (simp add: base_image_setup_def generate_ghibli_child_base_def post_def env_of_fields)
  obtain doc w' where d: "create_stylish_storybook3 ?env ''Aanya'' ''she/her'' (JArr sample_story)
                None None world0 = (Inr doc, w')"
    using create_stylish_storybook3_wf[OF sample_story_wf sample_gender(1) env_of_shuffled b]
    by blast
  have "page_background (doc ! 1) = Some (1.0, 0.95, 0.95)
      \<and> page_background (doc ! 2) = Some (1.0, 0.95, 0.95)"
    using intro_and_first_animal_page_share_background
            [of ?env "''Aanya''" "''she/her''" "JArr sample_story" None None world0 doc w' sample_story]
      d
    by (simp add: sample_story_def env_of_fields PASTEL_COLORS_def)
  with d show "\<exists>doc w'. create_stylish_storybook3 ?env ''Aanya'' ''she/her'' (JArr sample_story)
                None None world0 = (Inr doc, w')
            \<and> page_background (doc ! 1) = Some (1.0, 0.95, 0.95)
            \<and> page_background (doc ! 2) = Some (1.0, 0.95, 0.95)"
    by blast
qed

text \<open>
  Claim C8, as stated, fails for \<^verbatim>\<open>main.py\<close>: its table maps \<^verbatim>\<open>he/him\<close> to a record of
  \<^verbatim>\<open>subject\<close> and \<^verbatim>\<open>object\<close> only, so no lookup in it gives \<^verbatim>\<open>his\<close>.
\<close>

theorem main_table_has_no_possessive:
  "dict_get pronouns_main ''he/him'' = Inr [(''subject'', ''he''), (''object'', ''him'')]
   \<and> dict_get [(''subject'', ''he''), (''object'', ''him'')] ''possessive'' = Inl (KeyError ''possessive'')"
  by (simp add: dict_get_def pronouns_main_def)

text \<open>
  Claim C8, amended: the table of \<^verbatim>\<open>main2.py\<close> maps \<^verbatim>\<open>he/him\<close> to the subject \<^verbatim>\<open>he\<close>, the
  object \<^verbatim>\<open>him\<close> and the possessive \<^verbatim>\<open>his\<close>. Every document returned for \<^verbatim>\<open>he/him\<close> has
  on its intro page the sentence \<^verbatim>\<open>He asked them to send a perfect pet,\<close> and on its
  last page \<^verbatim>\<open>It was just what he wanted!\<close>. These two pages are the only ones drawn
  from the chosen row, and they depend on it through its subject only: no sentence
  uses the object or the possessive.
\<close>

theorem he_him_subject_sentences:
  "dict_get pronouns ''he/him'' = Inr [(''subject'', ''he''), (''object'', ''him''), (''possessive'', ''his'')]
   \<and> (create_stylish_storybook env name ''he/him'' story_data pd user_image w = (Inr doc, w') \<longrightarrow>
        DrawCentredString 300 600 ''He asked them to send a perfect pet,'' \<in> set (doc ! 1)
        \<and> DrawCentredString 300 500 ''It was just what he wanted!'' \<in> set (last doc))
   \<and> (subject_of cp = subject_of cp' \<longrightarrow>
        intro_page2 bg name cp w = intro_page2 bg name cp' w \<and> end_page2 name cp w = end_page2 name cp' w)"
proof (intro conjI)
  show t: "dict_get pronouns ''he/him''
             = Inr [(''subject'', ''he''), (''object'', ''him''), (''possessive'', ''his'')]"
    by (simp add: dict_get_def pronouns_def)
  show "create_stylish_storybook env name ''he/him'' story_data pd user_image w = (Inr doc, w') \<longrightarrow>
        DrawCentredString 300 600 ''He asked them to send a perfect pet,'' \<in> set (doc ! 1)
        \<and> DrawCentredString 300 500 ''It was just what he wanted!'' \<in> set (last doc)"
  proof (rule impI)
    assume "create_stylish_storybook env name ''he/him'' story_data pd user_image w = (Inr doc, w')"
    from create_stylish_storybook_returns[OF this] obtain row cover intro ps ending where
      r: "dict_get pronouns ''he/him'' = Inr row" and d: "doc = [cover, intro] @ ps @ [ending]"
      and i: "DrawCentredString 300 600 (capitalize (subject_of row) @ '' asked them to send a perfect pet,'')
               \<in> set intro"
      and e: "DrawCentredString 300 500 (''It was just what '' @ subject_of row @ '' wanted!'') \<in> set ending"
      by blast
    from r t have "row = [(''subject'', ''he''), (''object'', ''him''), (''possessive'', ''his'')]"
      by simp
    then have s: "subject_of row = ''he''"
      by (simp add: subject_of_def)
    have c: "capitalize ''he'' = ''He''"
      by (simp add: to_upper_def to_lower_def lower_letters_def upper_letters_def)
    from i e show "DrawCentredString 300 600 ''He asked them to send a perfect pet,'' \<in> set (doc ! 1)
        \<and> DrawCentredString 300 500 ''It was just what he wanted!'' \<in> set (last doc)"
      unfolding s c by (simp only: d pages_nth) simp
  qed
  show "subject_of cp = subject_of cp' \<longrightarrow>
        intro_page2 bg name cp w = intro_page2 bg name cp' w \<and> end_page2 name cp w = end_page2 name cp' w"
    by (simp add: intro_page2_def end_page2_def)
qed

theorem he_him_subject_sentences_witness:
  "\<exists>doc w'. create_stylish_storybook (env_of all_succeed JNull) ''Aanya'' ''he/him'' (JArr sample_story)
               None None world0 = (Inr doc, w')
           \<and> DrawCentredString 300 600 ''He asked them to send a perfect pet,'' \<in> set (doc ! 1)
           \<and> DrawCentredString 300 500 ''It was just what he wanted!'' \<in> set (last doc)
           \<and> intro_page2 (1, 1, 1) ''Aanya'' [(''subject'', ''he''), (''object'', ''him''), (''possessive'', ''his'')]
                 world0
               = intro_page2 (1, 1, 1) ''Aanya'' [(''subject'', ''he'')] world0"
proof -
  let ?env = "env_of all_succeed JNull"
  obtain doc w' where d: "create_stylish_storybook ?env ''Aanya'' ''he/him'' (JArr sample_story)
                None None world0 = (Inr doc, w')"
    using create_stylish_storybook_wf[OF sample_story_wf sample_gender(2) env_of_shuffled,
        of all_succeed JNull "''Aanya''" None None world0]
    by blast
  have s: "subject_of [(''subject'', ''he''), (''object'', ''him''), (''possessive'', ''his'')]
           = subject_of [(''subject'', ''he'')]"
    by (simp add: subject_of_def)
  have "DrawCentredString 300 600 ''He asked them to send a perfect pet,'' \<in> set (doc ! 1)
      \<and> DrawCentredString 300 500 ''It was just what he wanted!'' \<in> set (last doc)
      \<and> intro_page2 (1, 1, 1) ''Aanya'' [(''subject'', ''he''), (''object'', ''him''), (''possessive'', ''his'')]
                 world0
               = intro_page2 (1, 1, 1) ''Aanya'' [(''subject'', ''he'')] world0"
    using he_him_subject_sentences
            [of ?env "''Aanya''" "JArr sample_story" None None world0 doc w'
                "[(''subject'', ''he''), (''object'', ''him''), (''possessive'', ''his'')]"
                "[(''subject'', ''he'')]" "(1, 1, 1)"]
      d s
    by simp
  with d show ?thesis by blast
qed

section \<open>The base picture of main3.py\<close>

lemma base_setup_failed:
  assumes "request_failed (http env (length (sent w)) (GenerateImage (child_base_prompt cd pd)))"
  shows "fst (base_image_setup env name cd pd w) = Inr None
       \<and> StWarning ''Could not generate base child image''
           \<in> set (shown (snd (base_image_setup env name cd pd w)))"
proof (cases "http env (length (sent w)) (GenerateImage (child_base_prompt cd pd))")
  case (Inl m)
  then show ?thesis
    by (simp add: base_image_setup_def generate_ghibli_child_base_def post_def world_fields)
next
  case (Inr c)
  with assms have "\<not> truthy c" by (simp add: request_failed_def)
  with Inr show ?thesis
    by (simp add: base_image_setup_def generate_ghibli_child_base_def post_def world_fields)
qed

lemma base_setup_description:
  assumes "payload (http env (length (sent w)) (GenerateImage (child_base_prompt cd pd))) = Some b"
    and "b \<noteq> []" and "open_error env b = None"
  shows "fst (base_image_setup env name cd pd w)
         = Inr (Some (case http env (Suc (length (sent w))) (DescribeChild b) of
                        Inl m \<Rightarrow> ''A child named '' @ name
                                   @ '' in Ghibli style with soft features and expressive eyes''
                      | Inr None \<Rightarrow>
                          if truthy pd
                          then ''A child named '' @ name
                               @ '' in Ghibli style with soft features and expressive eyes''
                          else ''A child named '' @ name
                               @ '' with Ghibli-style features and expressive eyes''
                      | Inr (Some t) \<Rightarrow>
                          if truthy pd
                          then t @ ''\<newline>\<newline>Additional distinctive features from the reference photo: ''
                               @ the pd
                          else if t = []
                          then ''A child named '' @ name
                               @ '' with Ghibli-style features and expressive eyes''
                          else t))"
proof -
  from assms(1) have r: "http env (length (sent w)) (GenerateImage (child_base_prompt cd pd)) = Inr (Some b)"
    by (cases "http env (length (sent w)) (GenerateImage (child_base_prompt cd pd))") simp_all
  have g: "generate_ghibli_child_base env cd pd w
           = (Some b, w\<lparr>sent := sent w @ [GenerateImage (child_base_prompt cd pd)]\<rparr>)"
    by (simp add: generate_ghibli_child_base_def post_def r)
  show ?thesis
    by (simp add: base_image_setup_def g assms(2,3) generate_detailed_child_description_def post_def
        split: sum.splits option.splits)
qed

text \<open>
  Opening the base picture is outside every \<^verbatim>\<open>try\<close>: when the picture was generated
  but cannot be opened, the setup raises.
\<close>

lemma base_setup_unopenable:
  assumes "payload (http env (length (sent w)) (GenerateImage (child_base_prompt cd pd))) = Some b"
    and "b \<noteq> []" and "open_error env b = Some m"
  shows "fst (base_image_setup env name cd pd w) = Inl (Raised m)"
proof -
  from assms(1) have r: "http env (length (sent w)) (GenerateImage (child_base_prompt cd pd)) = Inr (Some b)"
    by (cases "http env (length (sent w)) (GenerateImage (child_base_prompt cd pd))") simp_all
  have g: "generate_ghibli_child_base env cd pd w
           = (Some b, w\<lparr>sent := sent w @ [GenerateImage (child_base_prompt cd pd)]\<rparr>)"
    by (simp add: generate_ghibli_child_base_def post_def r)
  show ?thesis
    by (simp add: base_image_setup_def g assms(2,3))
qed

text \<open>
  Claim C7, as stated, fails for the first step: when the base picture cannot be
  generated no description string is substituted. The description is \<^verbatim>\<open>None\<close>, and the
  scene prompts then carry no reference description of the child.
\<close>

theorem base_failure_gives_no_description:
  "fst (base_image_setup (env_of images_fail JNull) ''Aanya'' (child_description_of ''Aanya'' ''she/her'')
          None (new_canvas world0)) = Inr None
   \<and> shown (snd (base_image_setup (env_of images_fail JNull) ''Aanya''
                   (child_description_of ''Aanya'' ''she/her'') None (new_canvas world0)))
     = [StErrorOf ''Child base image generation failed: '' (Raised ''504 Gateway Timeout''),
        StWarning ''Could not generate base child image'']"
  by (simp add: base_image_setup_def generate_ghibli_child_base_def post_def env_of_fields world_fields
      world0_fields)

text \<open>
  Claim C7, amended. When the request for the base picture fails, the description is
  \<^verbatim>\<open>None\<close> and the warning \<^verbatim>\<open>Could not generate base child image\<close> is shown. When the
  base picture was generated and opens, the description is never empty: it is the
  string \<^verbatim>\<open>A child named X in Ghibli style with soft features and expressive eyes\<close> when
  the description request raises, and
  \<^verbatim>\<open>A child named X with Ghibli-style features and expressive eyes\<close> when that request
  returns nothing and there is no photo description. Whenever the setup does not raise,
  the assembler goes on: for well-formed records it returns a document of \<open>N + 3\<close>
  pages and has sent, after the setup's requests, one scene request per record with
  the setup's description.
\<close>

theorem base_picture_setup_outcomes:
  "(request_failed (http env (length (sent w)) (GenerateImage (child_base_prompt cd pd))) \<longrightarrow>
      fst (base_image_setup env name cd pd w) = Inr None
      \<and> StWarning ''Could not generate base child image''
          \<in> set (shown (snd (base_image_setup env name cd pd w))))
   \<and> (payload (http env (length (sent w)) (GenerateImage (child_base_prompt cd pd))) = Some b
      \<and> b \<noteq> [] \<and> open_error env b = None \<longrightarrow>
        (\<exists>d. fst (base_image_setup env name cd pd w) = Inr (Some d) \<and> d \<noteq> [])
        \<and> ((\<exists>m. http env (Suc (length (sent w))) (DescribeChild b) = Inl m) \<longrightarrow>
             fst (base_image_setup env name cd pd w)
             = Inr (Some (''A child named '' @ name
                          @ '' in Ghibli style with soft features and expressive eyes'')))
        \<and> ((\<exists>c. http env (Suc (length (sent w))) (DescribeChild b) = Inr c \<and> \<not> truthy c)
             \<and> \<not> truthy pd \<longrightarrow>
             fst (base_image_setup env name cd pd w)
             = Inr (Some (''A child named '' @ name
                          @ '' with Ghibli-style features and expressive eyes''))))
   \<and> ((\<forall>r\<in>set recs. well_formed r) \<and> gender \<in> pronoun_sets
      \<and> mset (shuffled env PASTEL_COLORS) = mset PASTEL_COLORS
      \<and> fst (base_image_setup env name (child_description_of name gender) pd (new_canvas w)) = Inr dcd \<longrightarrow>
        (\<exists>doc w'. create_stylish_storybook3 env name gender (JArr recs) pd user_image w = (Inr doc, w')
           \<and> length doc = length recs + 3
           \<and> sent w' = sent (snd (base_image_setup env name (child_description_of name gender) pd
                                     (new_canvas w)))
                        @ map (\<lambda>r. GenerateImage (prompt_of3 env (child_description_of name gender)
                                                     r pd dcd)) recs))"
proof -
  let ?reply = "http env (length (sent w)) (GenerateImage (child_base_prompt cd pd))"
  let ?answer = "http env (Suc (length (sent w))) (DescribeChild b)"
  let ?base = "base_image_setup env name cd pd w"
  have 1: "request_failed ?reply \<longrightarrow>
      fst ?base = Inr None
      \<and> StWarning ''Could not generate base child image'' \<in> set (shown (snd ?base))"
    using base_setup_failed[of env w cd pd name] by blast
  have 2: "payload ?reply = Some b \<and> b \<noteq> [] \<and> open_error env b = None \<longrightarrow>
        (\<exists>d. fst ?base = Inr (Some d) \<and> d \<noteq> [])
        \<and> ((\<exists>m. ?answer = Inl m) \<longrightarrow>
             fst ?base
             = Inr (Some (''A child named '' @ name
                          @ '' in Ghibli style with soft features and expressive eyes'')))
        \<and> ((\<exists>c. ?answer = Inr c \<and> \<not> truthy c) \<and> \<not> truthy pd \<longrightarrow>
             fst ?base
             = Inr (Some (''A child named '' @ name
                          @ '' with Ghibli-style features and expressive eyes'')))"
  proof (rule impI)
    assume a: "payload ?reply = Some b \<and> b \<noteq> [] \<and> open_error env b = None"
    then have e: "fst ?base
         = Inr (Some (case ?answer of
                        Inl m \<Rightarrow> ''A child named '' @ name
                                   @ '' in Ghibli style with soft features and expressive eyes''
                      | Inr None \<Rightarrow>
                          if truthy pd
                          then ''A child named '' @ name
                               @ '' in Ghibli style with soft features and expressive eyes''
                          else ''A child named '' @ name
                               @ '' with Ghibli-style features and expressive eyes''
                      | Inr (Some t) \<Rightarrow>
                          if truthy pd
                          then t @ ''\<newline>\<newline>Additional distinctive features from the reference photo: ''
                               @ the pd
                          else if t = []
                          then ''A child named '' @ name
                               @ '' with Ghibli-style features and expressive eyes''
                          else t))"
      using base_setup_description[of env w cd pd b name] by blast
    show "(\<exists>d. fst ?base = Inr (Some d) \<and> d \<noteq> [])
        \<and> ((\<exists>m. ?answer = Inl m) \<longrightarrow>
             fst ?base
             = Inr (Some (''A child named '' @ name
                          @ '' in Ghibli style with soft features and expressive eyes'')))
        \<and> ((\<exists>c. ?answer = Inr c \<and> \<not> truthy c) \<and> \<not> truthy pd \<longrightarrow>
             fst ?base
             = Inr (Some (''A child named '' @ name
                          @ '' with Ghibli-style features and expressive eyes'')))"
      unfolding e by (auto split: sum.splits option.splits)
  qed
  have 3: "(\<forall>r\<in>set recs. well_formed r) \<and> gender \<in> pronoun_sets
      \<and> mset (shuffled env PASTEL_COLORS) = mset PASTEL_COLORS
      \<and> fst (base_image_setup env name (child_description_of name gender) pd (new_canvas w)) = Inr dcd \<longrightarrow>
        (\<exists>doc w'. create_stylish_storybook3 env name gender (JArr recs) pd user_image w = (Inr doc, w')
           \<and> length doc = length recs + 3
           \<and> sent w' = sent (snd (base_image_setup env name (child_description_of name gender) pd
                                     (new_canvas w)))
                        @ map (\<lambda>r. GenerateImage (prompt_of3 env (child_description_of name gender)
                                                     r pd dcd)) recs)"
  proof (rule impI)
    assume a: "(\<forall>r\<in>set recs. well_formed r) \<and> gender \<in> pronoun_sets
      \<and> mset (shuffled env PASTEL_COLORS) = mset PASTEL_COLORS
      \<and> fst (base_image_setup env name (child_description_of name gender) pd (new_canvas w)) = Inr dcd"
    then have "base_image_setup env name (child_description_of name gender) pd (new_canvas w)
               = (Inr dcd, snd (base_image_setup env name (child_description_of name gender) pd
                                  (new_canvas w)))"
      by (simp add: prod_eq_iff)
    with a show "\<exists>doc w'. create_stylish_storybook3 env name gender (JArr recs) pd user_image w = (Inr doc, w')
           \<and> length doc = length recs + 3
           \<and> sent w' = sent (snd (base_image_setup env name (child_description_of name gender) pd
                                     (new_canvas w)))
                        @ map (\<lambda>r. GenerateImage (prompt_of3 env (child_description_of name gender)
                                                     r pd dcd)) recs"
      using create_stylish_storybook3_wf[of recs gender env name pd w dcd _ user_image] by blast
  qed
  from 1 2 3 show ?thesis by (rule conjI[OF _ conjI])
qed

theorem base_picture_setup_outcomes_witness:
  "fst (base_image_setup (env_of images_fail JNull) ''Aanya'' (child_description_of ''Aanya'' ''she/her'')
          None (new_canvas world0)) = Inr None
   \<and> fst (base_image_setup (env_of description_fails JNull) ''Aanya''
            (child_description_of ''Aanya'' ''she/her'') None (new_canvas world0))
     = Inr (Some ''A child named Aanya in Ghibli style with soft features and expressive eyes'')
   \<and> fst (base_image_setup (env_of description_empty JNull) ''Aanya''
            (child_description_of ''Aanya'' ''she/her'') None (new_canvas world0))
     = Inr (Some ''A child named Aanya with Ghibli-style features and expressive eyes'')
   \<and> (\<exists>doc w'. create_stylish_storybook3 (env_of description_fails JNull) ''Aanya'' ''she/her''
                  (JArr sample_story) None None world0 = (Inr doc, w')
              \<and> length doc = 8)"
proof -
  let ?cd = "child_description_of ''Aanya'' ''she/her''"
  have s: "sent (new_canvas world0) = []"
    by (simp add: world_fields world0_fields)
  have n: "length sample_story = 5"
    by (simp add: sample_story_def)
  have a: "fst (base_image_setup (env_of images_fail JNull) ''Aanya'' ?cd None (new_canvas world0)) = Inr None"
    using base_picture_setup_outcomes
            [where env = "env_of images_fail JNull" and w = "new_canvas world0" and cd = ?cd
               and pd = None and name = "''Aanya''"]
      s
    by (simp add: env_of_fields request_failed_def)
  have b: "fst (base_image_setup (env_of description_fails JNull) ''Aanya'' ?cd None (new_canvas world0))
     = Inr (Some ''A child named Aanya in Ghibli style with soft features and expressive eyes'')"
    using base_picture_setup_outcomes
            [where env = "env_of description_fails JNull" and w = "new_canvas world0" and cd = ?cd
               and pd = None and name = "''Aanya''" and b = "''payload''"]
      s
    by (simp add: env_of_fields)
  have c: "fst (base_image_setup (env_of description_empty JNull) ''Aanya'' ?cd None (new_canvas world0))
     = Inr (Some ''A child named Aanya with Ghibli-style features and expressive eyes'')"
    using base_picture_setup_outcomes
            [where env = "env_of description_empty JNull" and w = "new_canvas world0" and cd = ?cd
               and pd = None and name = "''Aanya''" and b = "''payload''"]
      s
    by (simp add: env_of_fields)
  have d: "\<exists>doc w'. create_stylish_storybook3 (env_of description_fails JNull) ''Aanya'' ''she/her''
                  (JArr sample_story) None None world0 = (Inr doc, w')
              \<and> length doc = 8"
    using base_picture_setup_outcomes
            [where env = "env_of description_fails JNull" and w = world0 and pd = None
               and cd = ?cd and b = "''payload''"
               and name = "''Aanya''" and gender = "''she/her''" and recs = sample_story
               and dcd = "Some ''A child named Aanya in Ghibli style with soft features and expressive eyes''"
               and user_image = None]
      b sample_story_wf sample_gender(1) env_of_shuffled[of description_fails JNull] n
    by auto
  from a b c d show ?thesis by (rule conjI[OF _ conjI[OF _ conjI]])
qed


end
